theory Spec2Isabelle
  imports Complex_Main "HOL-Library.Word" "HOL-Library.Signed_Division" "HOL-Library.Multiset"
begin

section \<open>Data model\<close>

text \<open>
  The element type of a tensor, the two convolution modes and the three padding modes
  are the enums of the library's public header.  A thrown \<open>miopen::Exception\<close> is a
  value: its status code and its message.
\<close>

datatype miopenDataType_t = miopenHalf | miopenFloat

datatype miopenConvolutionMode_t = miopenConvolution | miopenTranspose

datatype miopenPaddingMode_t = miopenPaddingDefault | miopenPaddingSame | miopenPaddingValid

datatype miopenStatus_t =
    miopenStatusBadParm
  | miopenStatusInvalidValue
  | miopenStatusNotImplemented
  | miopenStatusUnknownError

type_synonym Exception = "miopenStatus_t \<times> string"

text \<open>
  An \<open>assert\<close> that fails is the error below.
\<close>

definition assertion_failed :: Exception where
  "assertion_failed = (miopenStatusUnknownError, ''assertion failed'')"

subsection \<open>Machine integers\<close>

text \<open>
  \<open>std::size_t\<close> and \<open>std::ptrdiff_t\<close> are 64-bit words and \<open>int\<close> is a 32-bit word:
  \<open>+\<close>, \<open>-\<close> and \<open>*\<close> wrap around.  The order \<open><\<close>, \<open>\<le>\<close> and \<open>max\<close> of words is the
  unsigned one, that of \<open>size_t\<close>.  A signed type is compared with \<open><s\<close> and \<open>\<le>s\<close>, its
  \<open>/\<close> and \<open>%\<close> truncate towards zero (\<open>signed_div\<close>, \<open>signed_rem\<close>), \<open>std::max\<close> at a
  signed type is \<open>signed_max\<close>, and \<open>sint\<close> reads its value.  \<open>scast\<close> converts an \<open>int\<close> to
  a 64-bit type (sign extension); \<open>size_t\<close> and \<open>ptrdiff_t\<close> convert into each other with
  their bits unchanged, and \<open>int_of\<close> reads a \<open>size_t\<close> into an \<open>int\<close>, keeping the low 32
  bits.

  A signed operation that overflows is undefined in C++; the words give it the
  wrap-around of the hardware, and the theorems about arithmetic state the ranges in
  which no signed operation overflows.
\<close>

type_synonym size_t = "64 word"

type_synonym ptrdiff_t = "64 word"

type_synonym int_t = "32 word"

definition signed_div :: "'a::len word \<Rightarrow> 'a word \<Rightarrow> 'a word" where
  "signed_div a b = word_of_int (sint a sdiv sint b)"

definition signed_rem :: "'a::len word \<Rightarrow> 'a word \<Rightarrow> 'a word" where
  "signed_rem a b = word_of_int (sint a smod sint b)"

definition signed_max :: "'a::len word \<Rightarrow> 'a word \<Rightarrow> 'a word" where
  "signed_max a b = (if a <s b then b else a)"

definition int_of :: "size_t \<Rightarrow> int_t" where
  "int_of x = ucast x"

text \<open>The \<open>size_t\<close> that holds a mathematical integer, for stating results.\<close>

definition size_t_of :: "int \<Rightarrow> size_t" where
  "size_t_of i = word_of_int i"

text \<open>
  A \<open>double\<close> is a real number: the rounding of values beyond 53 bits is not modelled.
  Converting a \<open>double\<close> to an integer type drops the fraction.
\<close>

definition double_to_ptrdiff :: "real \<Rightarrow> ptrdiff_t" where
  "double_to_ptrdiff r = word_of_int (if 0 \<le> r then \<lfloor>r\<rfloor> else \<lceil>r\<rceil>)"

subsection \<open>Descriptors\<close>

text \<open>
  Modelled from the spec: the tensor descriptor is declared outside the translated
  sources.  The specification gives a tensor shape its lengths (rank 4 for the shapes of a
  convolution) and its element type; \<open>GetTypeSize\<close> is the size of an element in bytes
  (4 for the 32-bit type), \<open>GetElementSize\<close> the number of elements and \<open>GetSize\<close> the
  rank.
\<close>

record TensorDescriptor =
  dtype :: miopenDataType_t
  lens :: "size_t list"

definition GetTypeSize :: "miopenDataType_t \<Rightarrow> size_t" where
  "GetTypeSize d = (case d of miopenHalf \<Rightarrow> 2 | miopenFloat \<Rightarrow> 4)"

definition GetElementSize :: "TensorDescriptor \<Rightarrow> size_t" where
  "GetElementSize d = fold (\<lambda>l acc. acc * l) (lens d) 1"

definition GetSize :: "TensorDescriptor \<Rightarrow> nat" where
  "GetSize d = length (lens d)"

text \<open>\<open>tien<4>\<close>: the first four lengths of a descriptor, as a tuple.\<close>

definition tien4 :: "TensorDescriptor \<Rightarrow> size_t \<times> size_t \<times> size_t \<times> size_t" where
  "tien4 d = (lens d ! 0, lens d ! 1, lens d ! 2, lens d ! 3)"

text \<open>The fields of the convolution descriptor are \<open>int\<close>s.\<close>

record ConvolutionDescriptor =
  mode :: miopenConvolutionMode_t
  paddingMode :: miopenPaddingMode_t
  pad_h :: int_t
  pad_w :: int_t
  u :: int_t
  v :: int_t
  dilation_h :: int_t
  dilation_w :: int_t

text \<open>
  The two constructors.  Both reject negative padding, non-positive stride or dilation,
  and a dilation that differs between the axes.  The enum checks of the second
  constructor cannot fail on the closed enum types above.
\<close>

definition invalid_params :: "int_t \<Rightarrow> int_t \<Rightarrow> int_t \<Rightarrow> int_t \<Rightarrow> int_t \<Rightarrow> int_t \<Rightarrow> bool" where
  "invalid_params p_pad_h p_pad_w p_u p_v p_dilation_h p_dilation_w \<longleftrightarrow>
     p_pad_h <s 0 \<or> p_pad_w <s 0 \<or> p_u \<le>s 0 \<or> p_v \<le>s 0 \<or> p_dilation_h \<le>s 0 \<or>
     p_dilation_w \<le>s 0 \<or> p_dilation_h \<noteq> p_dilation_w"

definition invalid_params_message :: string where
  "invalid_params_message =
     ''Invalid parameters, check usage. MIOPEN expects padding '' @
     ''>= 0, stride >= 1, dilation >= 1 and the same dilation '' @
     ''factor for horizontal and vertical direction''"

definition ConvolutionDescriptor_mode ::
  "miopenConvolutionMode_t \<Rightarrow> miopenPaddingMode_t \<Rightarrow> int_t \<Rightarrow> int_t \<Rightarrow> int_t \<Rightarrow> int_t
   \<Rightarrow> int_t \<Rightarrow> int_t \<Rightarrow> Exception + ConvolutionDescriptor" where
  "ConvolutionDescriptor_mode c_mode p_mode p_pad_h p_pad_w p_u p_v p_dilation_h p_dilation_w =
     (if invalid_params p_pad_h p_pad_w p_u p_v p_dilation_h p_dilation_w
      then Inl (miopenStatusBadParm, invalid_params_message)
      else Inr \<lparr> mode = c_mode, paddingMode = p_mode, pad_h = p_pad_h, pad_w = p_pad_w,
                 u = p_u, v = p_v, dilation_h = p_dilation_h, dilation_w = p_dilation_w \<rparr>)"

definition ConvolutionDescriptor_default ::
  "int_t \<Rightarrow> int_t \<Rightarrow> int_t \<Rightarrow> int_t \<Rightarrow> int_t \<Rightarrow> int_t \<Rightarrow> Exception + ConvolutionDescriptor" where
  "ConvolutionDescriptor_default p_pad_h p_pad_w p_u p_v p_dilation_h p_dilation_w =
     ConvolutionDescriptor_mode miopenConvolution miopenPaddingDefault
       p_pad_h p_pad_w p_u p_v p_dilation_h p_dilation_w"

section \<open>Shape calculator\<close>

text \<open>
  \<open>GetForwardOutputDim\<close>.  The two assertions on the rank are the first branch.  The
  lengths are read into \<open>ptrdiff_t\<close> variables.  In the Convolution branch \<open>2 * pad_h\<close>
  is a product of \<open>int\<close>s, converted to \<open>ptrdiff_t\<close> for the sum; the other operations
  are at \<open>ptrdiff_t\<close>.  In the Transpose branch \<open>u * (input_h - 1) + 1\<close> is at
  \<open>ptrdiff_t\<close>, \<open>dilation_h * (filter_h - 1.0)\<close> at \<open>double\<close>, \<open>2 * pad_h\<close> at \<open>int\<close>, and
  their sum, a \<open>double\<close>, converts to \<open>ptrdiff_t\<close> for \<open>std::max\<close>.  The Same and Valid
  modes divide at \<open>double\<close> and round up.  The result tuple converts to \<open>size_t\<close>.
\<close>

definition GetForwardOutputDim ::
  "ConvolutionDescriptor \<Rightarrow> TensorDescriptor \<Rightarrow> TensorDescriptor
   \<Rightarrow> Exception + (size_t \<times> size_t \<times> size_t \<times> size_t)" where
  "GetForwardOutputDim c inputTensorDesc filterDesc =
     (if length (lens inputTensorDesc) \<noteq> 4 \<or> length (lens filterDesc) \<noteq> 4
      then Inl assertion_failed
      else if dtype inputTensorDesc \<noteq> dtype filterDesc
      then Inl (miopenStatusBadParm, ''Types do not match for the filter'')
      else
        let (input_n, input_c, input_h, input_w) = tien4 inputTensorDesc;
            (filter_k, filter_c, filter_h, filter_w) = tien4 filterDesc
        in
        if (case mode c of miopenConvolution \<Rightarrow> input_c \<noteq> filter_c
                         | miopenTranspose \<Rightarrow> input_c \<noteq> filter_k)
        then Inl (miopenStatusBadParm, ''Channels do not match for the filter'')
        else
          let (output_c, output_h, output_w) =
            (case paddingMode c of
               miopenPaddingDefault \<Rightarrow>
                 (case mode c of
                    miopenTranspose \<Rightarrow>
                      (filter_c,
                       signed_max 1 (double_to_ptrdiff
                         (real_of_int (sint (scast (u c) * (input_h - 1) + 1))
                          + real_of_int (sint (dilation_h c)) * (real_of_int (sint filter_h) - 1)
                          - real_of_int (sint (2 * pad_h c)))),
                       signed_max 1 (double_to_ptrdiff
                         (real_of_int (sint (scast (v c) * (input_w - 1) + 1))
                          + real_of_int (sint (dilation_w c)) * (real_of_int (sint filter_w) - 1)
                          - real_of_int (sint (2 * pad_w c)))))
                  | miopenConvolution \<Rightarrow>
                      (filter_k,
                       signed_max 1
                         (signed_div (input_h - (1 + scast (dilation_h c) * (filter_h - 1))
                                        + scast (2 * pad_h c))
                                     (scast (u c)) + 1),
                       signed_max 1
                         (signed_div (input_w - (1 + scast (dilation_w c) * (filter_w - 1))
                                        + scast (2 * pad_w c))
                                     (scast (v c)) + 1)))
             | miopenPaddingSame \<Rightarrow>
                 (filter_k,
                  double_to_ptrdiff
                    (of_int \<lceil>real_of_int (sint input_h) / real_of_int (sint (u c))\<rceil>),
                  double_to_ptrdiff
                    (of_int \<lceil>real_of_int (sint input_w) / real_of_int (sint (v c))\<rceil>))
             | miopenPaddingValid \<Rightarrow>
                 (filter_k,
                  double_to_ptrdiff
                    (of_int \<lceil>real_of_int (sint (input_h - filter_h + 1))
                              / real_of_int (sint (u c))\<rceil>),
                  double_to_ptrdiff
                    (of_int \<lceil>real_of_int (sint (input_w - filter_w + 1))
                              / real_of_int (sint (v c))\<rceil>)))
          in Inr (input_n, output_c, output_h, output_w))"

text \<open>
  \<open>GetBackwardOutputDim\<close> computes at \<open>size_t\<close>: \<open>u\<close> converts to \<open>size_t\<close>, and so does
  the product \<open>2 * pad_h\<close>, which is a product of \<open>int\<close>s.
\<close>

definition GetBackwardOutputDim ::
  "ConvolutionDescriptor \<Rightarrow> TensorDescriptor \<Rightarrow> TensorDescriptor
   \<Rightarrow> Exception + (size_t \<times> size_t \<times> size_t \<times> size_t)" where
  "GetBackwardOutputDim c outputTensorDesc filterDesc =
     (if length (lens outputTensorDesc) \<noteq> 4 \<or> length (lens filterDesc) \<noteq> 4
      then Inl assertion_failed
      else if dtype outputTensorDesc \<noteq> dtype filterDesc
      then Inl (miopenStatusBadParm, ''Types do not match for the filter'')
      else
        let (output_n, output_c, output_h, output_w) = tien4 outputTensorDesc;
            (filter_k, filter_c, filter_h, filter_w) = tien4 filterDesc
        in
        if output_c \<noteq> filter_k
        then Inl (miopenStatusBadParm, ''Channels do not match for the filter'')
        else Inr (output_n, filter_c,
                  scast (u c) * (output_h - 1) - scast (2 * pad_h c) + filter_h,
                  scast (v c) * (output_w - 1) - scast (2 * pad_w c) + filter_w))"

definition GetForwardOutputTensor ::
  "ConvolutionDescriptor \<Rightarrow> TensorDescriptor \<Rightarrow> TensorDescriptor
   \<Rightarrow> Exception + TensorDescriptor" where
  "GetForwardOutputTensor c inputTensorDesc filterDesc =
     (case GetForwardOutputDim c inputTensorDesc filterDesc of
        Inl e \<Rightarrow> Inl e
      | Inr (d0, d1, d2, d3) \<Rightarrow>
          Inr \<lparr> dtype = dtype inputTensorDesc, lens = [d0, d1, d2, d3] \<rparr>)"

text \<open>
  The round trip of the shape calculator: the forward output tensor of an input and a
  filter, handed back to \<open>GetBackwardOutputDim\<close> with the same filter.
\<close>

definition forward_then_backward ::
  "ConvolutionDescriptor \<Rightarrow> TensorDescriptor \<Rightarrow> TensorDescriptor
   \<Rightarrow> Exception + (size_t \<times> size_t \<times> size_t \<times> size_t)" where
  "forward_then_backward c inputTensorDesc filterDesc =
     (case GetForwardOutputTensor c inputTensorDesc filterDesc of
        Inl e \<Rightarrow> Inl e
      | Inr outputTensorDesc \<Rightarrow> GetBackwardOutputDim c outputTensorDesc filterDesc)"

section \<open>Device context and external collaborators\<close>

text \<open>
  \<open>mlo_construct_direct2D\<close> (and its subclasses for Winograd and for backward weights)
  is the construction object handed to the solvers.  Only its declaration is used here:
  the direction flag of its constructor and what the setters store.  A field that no
  setter has written holds the constructor's default, written \<open>None\<close>.
\<close>

type_synonym ConvParams = "int_t \<times> int_t \<times> int_t \<times> int_t \<times> int_t \<times> int_t"

record mlo_construct_direct2D =
  direction :: int
  OutputDesc :: "TensorDescriptor option"
  InputDesc :: "TensorDescriptor option"
  WeightDesc :: "TensorDescriptor option"
  ConvDescr :: "ConvParams option"
  do_search :: bool

definition mlo_construct :: "int \<Rightarrow> mlo_construct_direct2D" where
  "mlo_construct dir =
     \<lparr> direction = dir, OutputDesc = None, InputDesc = None, WeightDesc = None,
       ConvDescr = None, do_search = False \<rparr>"

definition setOutputDescFromMLDesc ::
  "TensorDescriptor \<Rightarrow> mlo_construct_direct2D \<Rightarrow> mlo_construct_direct2D" where
  "setOutputDescFromMLDesc d p = p\<lparr> OutputDesc := Some d \<rparr>"

definition setInputDescFromMLDesc ::
  "TensorDescriptor \<Rightarrow> mlo_construct_direct2D \<Rightarrow> mlo_construct_direct2D" where
  "setInputDescFromMLDesc d p = p\<lparr> InputDesc := Some d \<rparr>"

definition setWeightDescFromMLDesc ::
  "TensorDescriptor \<Rightarrow> mlo_construct_direct2D \<Rightarrow> mlo_construct_direct2D" where
  "setWeightDescFromMLDesc d p = p\<lparr> WeightDesc := Some d \<rparr>"

definition setConvDescr ::
  "ConvolutionDescriptor \<Rightarrow> mlo_construct_direct2D \<Rightarrow> mlo_construct_direct2D" where
  "setConvDescr c p =
     p\<lparr> ConvDescr := Some (pad_h c, pad_w c, u c, v c, dilation_h c, dilation_w c) \<rparr>"

definition doSearch :: "bool \<Rightarrow> mlo_construct_direct2D \<Rightarrow> mlo_construct_direct2D" where
  "doSearch b p = p\<lparr> do_search := b \<rparr>"

text \<open>
  Modelled from the spec: \<open>mloBuildConf_Key\<close> is declared outside the translated
  sources.  The specification describes the key as a canonical encoding of the problem's
  shapes and ConvParams; it is modelled as the tuple of the values the construction object
  holds, so that two keys are equal exactly when the encoded values are.
\<close>

type_synonym ConfigKey =
  "TensorDescriptor option \<times> TensorDescriptor option \<times> TensorDescriptor option \<times> ConvParams option"

definition mloBuildConf_Key :: "mlo_construct_direct2D \<Rightarrow> ConfigKey" where
  "mloBuildConf_Key p = (OutputDesc p, InputDesc p, WeightDesc p, ConvDescr p)"

text \<open>
  Modelled from the spec: the GEMM interface (\<open>GemmGeometry\<close>, the
  \<open>CreateGemmGeometry...\<close> functions, \<open>FindSolution\<close>, \<open>RunGemm\<close> and
  \<open>GetGemmGeometry\<close>) is declared outside the translated sources.  The specification has
  it yield, from the three tensor descriptors and a flag, a reusable geometry object that
  exposes a solve and a run operation, and has the dispatcher look up by the key used
  during the search what the search prepared, a miss being a usage error.  A geometry is
  modelled by the function that creates it and the arguments of the creation, which also
  are the \<open>network_config\<close> the creation returns through its last parameter; a geometry
  carries the algorithm name under which the dispatcher of the translated sources looks
  it up.
\<close>

datatype gemm_kind =
    ConvFwd
  | ConvFwdCNHW
  | ConvBwdData
  | ConvBwdDataCNHW
  | TranBwdData
  | ConvBwdWeights

type_synonym gemm_config =
  "gemm_kind \<times> TensorDescriptor \<times> TensorDescriptor \<times> TensorDescriptor \<times> bool"

record GemmGeometry =
  algorithm_name :: string
  network_config :: gemm_config

definition gemm_algorithm_name :: "gemm_kind \<Rightarrow> string" where
  "gemm_algorithm_name k =
     (case k of
        ConvFwd \<Rightarrow> ''miopenConvolutionFwdAlgoGEMM''
      | ConvFwdCNHW \<Rightarrow> ''miopenConvolutionFwdAlgoGEMM''
      | ConvBwdData \<Rightarrow> ''miopenConvolutionBwdDataAlgoGEMM''
      | ConvBwdDataCNHW \<Rightarrow> ''miopenConvolutionBwdDataAlgoGEMM''
      | TranBwdData \<Rightarrow> ''miopenTransposeBwdDataAlgoGEMM''
      | ConvBwdWeights \<Rightarrow> ''miopenConvolutionBwdWeightsAlgoGEMM'')"

definition CreateGemmGeometry ::
  "gemm_kind \<Rightarrow> TensorDescriptor \<Rightarrow> TensorDescriptor \<Rightarrow> TensorDescriptor \<Rightarrow> bool
   \<Rightarrow> GemmGeometry" where
  "CreateGemmGeometry k aDesc bDesc cDesc isDataColMajor =
     \<lparr> algorithm_name = gemm_algorithm_name k,
       network_config = (k, aDesc, bDesc, cDesc, isDataColMajor) \<rparr>"

text \<open>
  What the device is asked to do, in order.  A kernel construction (\<open>AddKernel\<close>, a GEMM
  \<open>FindSolution\<close>) and every kernel execution is one entry of the device log.
\<close>

datatype device_op =
    AddKernel string
  | RunKernel string
  | GemmFindSolution
  | RunGemm
  | Im2ColGPU
  | Col2ImGPU
  | transpose_NCHW2CNHW
  | transpose_CNHW2NCHW
  | SetTensor
  | SubSampleGPU
  | ExecuteFwdFFTKernel
  | ExecuteBwdFFTKernel
  | checkNumericsInput
  | checkNumericsOutput

text \<open>
  The handle: the device's name and size, the six per-direction caches, the profiling
  switch with the kernel-time register, the kernels registered under an algorithm name and
  a configuration (the key and the suffix appended to it), the GEMM geometries registered
  under an algorithm name and a configuration, and the device log.
\<close>

record Handle =
  DeviceName :: string
  MaxComputeUnits :: size_t
  fwd_map :: "ConfigKey \<rightharpoonup> int"
  bwdData_map :: "ConfigKey \<rightharpoonup> int"
  bwdWeights_map :: "ConfigKey \<rightharpoonup> int"
  fwd_size_map :: "ConfigKey \<rightharpoonup> size_t"
  bwdData_size_map :: "ConfigKey \<rightharpoonup> size_t"
  bwdWeights_size_map :: "ConfigKey \<rightharpoonup> size_t"
  ProfilingEnabled :: bool
  KernelTime :: real
  kernel_cache :: "(string \<times> ConfigKey \<times> string) \<rightharpoonup> string list"
  geo_map :: "(string \<times> gemm_config) \<rightharpoonup> GemmGeometry"
  device_log :: "device_op list"

text \<open>\<open>std::unordered_map::insert\<close> keeps the entry of a key that is already present.\<close>

definition map_insert :: "('k \<rightharpoonup> 'v) \<Rightarrow> 'k \<Rightarrow> 'v \<Rightarrow> ('k \<rightharpoonup> 'v)" where
  "map_insert m k x = (case m k of None \<Rightarrow> m(k \<mapsto> x) | Some _ \<Rightarrow> m)"

text \<open>
  Modelled from the spec: \<open>PerfField\<close>, one benchmarked candidate, is declared outside
  the translated sources.  The specification gives a candidate its name, its measured time
  and its workspace, and orders candidates by ascending time: \<open>operator<\<close> compares the
  measured times only.  A measured time is a real number.
\<close>

record PerfField =
  name :: string
  time :: real
  workspace :: size_t

definition PerfField_less :: "PerfField \<Rightarrow> PerfField \<Rightarrow> bool" where
  "PerfField_less a b \<longleftrightarrow> time a < time b"

text \<open>
  Modelled from the spec: \<open>std::sort\<close> belongs to the C++ standard library, outside the
  translated sources.  Its contract leaves the order of equivalent elements open; the
  specification has the candidates sorted ascending by time with ties in the order of
  discovery.  On a range as short as the candidate list (at most four entries) the library
  sorts by insertion, which keeps that order, and so it is modelled: each entry in turn
  is placed into the sorted part, before the first entry it is less than.
\<close>

fun linear_insert :: "PerfField \<Rightarrow> PerfField list \<Rightarrow> PerfField list" where
  "linear_insert val [] = [val]"
| "linear_insert val (p # ps) =
     (if PerfField_less val p then val # p # ps else p # linear_insert val ps)"

definition std_sort :: "PerfField list \<Rightarrow> PerfField list" where
  "std_sort perf_db = fold linear_insert perf_db []"

text \<open>
  The collaborators that live outside the translated sources, as one record: the build
  and environment switches, the solver constructions (\<open>None\<close> when the construction
  throws), the FFT strategy, the tables that resolve a strategy name to its identifier, and
  the time the device measures for its \<open>n\<close>-th operation.
\<close>

record direct_solution =
  KernelFile :: string
  KernelName :: string
  KernelsInfo :: "string list"

record Env =
  MIOPEN_USE_MIOPENGEMM :: bool
  MIOPEN_DEBUG_CONV_DIRECT_disabled :: bool
  MIOPEN_DEBUG_AMD_ROCM_PRECOMPILED_BINARIES_disabled :: bool
  CheckNumericsEnabled :: bool
  mloConstruct_winograd :: "mlo_construct_direct2D \<Rightarrow> string option"
  mloConstruct_direct2D :: "mlo_construct_direct2D \<Rightarrow> direct_solution option"
  mloConstruct_BwdWrW2D :: "mlo_construct_direct2D \<Rightarrow> string list option"
  mloIsFastBinaryWinograd3x3U :: "mlo_construct_direct2D \<Rightarrow> bool"
  FindAllSolutions :: "mlo_construct_direct2D \<Rightarrow> size_t list option"
  FindAllSolutions_BwdWrW2D :: "mlo_construct_direct2D \<Rightarrow> size_t list option"
  FindSolution_11x11_passes :: "mlo_construct_direct2D \<Rightarrow> int"
  ForwardGetWorkSpaceSizeFFT ::
    "ConvolutionDescriptor \<Rightarrow> TensorDescriptor \<Rightarrow> TensorDescriptor \<Rightarrow> TensorDescriptor \<Rightarrow> size_t"
  BackwardGetWorkSpaceSizeFFT ::
    "ConvolutionDescriptor \<Rightarrow> TensorDescriptor \<Rightarrow> TensorDescriptor \<Rightarrow> TensorDescriptor \<Rightarrow> size_t"
  FindFwdFFTKernel :: "TensorDescriptor \<Rightarrow> TensorDescriptor \<Rightarrow> TensorDescriptor \<Rightarrow> int"
  FindBwdFFTKernel :: "TensorDescriptor \<Rightarrow> TensorDescriptor \<Rightarrow> TensorDescriptor \<Rightarrow> int"
  FwdAlgoResolver :: "string \<Rightarrow> int"
  BwdDataAlgoResolver :: "string \<Rightarrow> int"
  BwdWeightsAlgoResolver :: "string \<Rightarrow> int"
  elapsed :: "nat \<Rightarrow> real"

section \<open>Applicability predicates\<close>

text \<open>The four lengths of a descriptor, read into the \<open>int\<close> variables the source ties them to.\<close>

definition tien4_int :: "TensorDescriptor \<Rightarrow> int_t \<times> int_t \<times> int_t \<times> int_t" where
  "tien4_int d = (int_of (lens d ! 0), int_of (lens d ! 1), int_of (lens d ! 2), int_of (lens d ! 3))"

fun has_substring :: "string \<Rightarrow> string \<Rightarrow> bool" where
  "has_substring p [] = (p = [])"
| "has_substring p (x # xs) = (take (length p) (x # xs) = p \<or> has_substring p xs)"

text \<open>
  \<open>IsWinograd3x3Supported\<close>.  The bounds are comparisons with a \<open>double\<close>
  (\<open>std::pow\<close>); the products are products of \<open>int\<close>s.
\<close>

definition IsWinograd3x3Supported ::
  "Env \<Rightarrow> ConvolutionDescriptor \<Rightarrow> Handle \<Rightarrow> bool \<Rightarrow> TensorDescriptor \<Rightarrow> TensorDescriptor \<Rightarrow> bool" where
  "IsWinograd3x3Supported env c handle dir wDesc xDesc =
     (if MIOPEN_DEBUG_AMD_ROCM_PRECOMPILED_BINARIES_disabled env then False
      else
        let device_name = DeviceName handle;
            max_compute_units = MaxComputeUnits handle
        in
        if \<not> (device_name = ''gfx803'' \<or> device_name = ''gfx900'' \<or> device_name = ''gfx906'')
        then False
        else
          let device_is_gfx8 = has_substring ''gfx8'' device_name;
              (batch_sz, n_inputs, in_height, in_width) = tien4_int xDesc;
              (n_outputs_w, n_inputs_w, kernel_size0, kernel_size1) = tien4_int wDesc;
              n_outputs = (if dir then n_outputs_w else n_inputs_w)
          in pad_h c = 1 \<and> pad_w c = 1 \<and> kernel_size0 = 3 \<and> kernel_size1 = 3 \<and> u c = 1 \<and>
             v c = 1 \<and> sint batch_sz < 2 ^ 16 \<and> sint n_inputs < 2 ^ 16 \<and>
             sint n_outputs < 2 ^ 16 \<and> sint in_height < 2 ^ 16 \<and>
             sint in_width < 2 ^ 16 \<and> uint max_compute_units < 2 ^ 16 \<and>
             sint (n_inputs * in_height * in_width) \<le> 2 ^ 28 \<and>
             sint (n_outputs * in_height * in_width) \<le> 2 ^ 28 \<and>
             sint (n_inputs * kernel_size0 * kernel_size1) \<le> 2 ^ 28 \<and>
             sint (n_outputs * kernel_size0 * kernel_size1) \<le> 2 ^ 28 \<and>
             signed_rem n_inputs 2 = 0 \<and>
             (if device_is_gfx8 then 16 else 18) \<le>s n_inputs \<and> GetTypeSize (dtype wDesc) = 4 \<and>
             GetTypeSize (dtype xDesc) = 4)"

definition IsBwdWeightsDirectSupported :: "ConvolutionDescriptor \<Rightarrow> TensorDescriptor \<Rightarrow> bool" where
  "IsBwdWeightsDirectSupported c wDesc =
     (let (k, ch, kernel_size0, kernel_size1) = tien4_int wDesc;
          supported_filters =
            ((kernel_size0 = 1 \<and> kernel_size1 = 1) \<or> (kernel_size0 = 3 \<and> kernel_size1 = 3) \<or>
             (kernel_size0 = 5 \<and> kernel_size1 = 5) \<or> (kernel_size0 = 7 \<and> kernel_size1 = 7) \<or>
             (kernel_size0 = 9 \<and> kernel_size1 = 9) \<or>
             (kernel_size0 = 11 \<and> kernel_size1 = 11) \<or>
             (kernel_size0 = 5 \<and> kernel_size1 = 10 \<and> u c = 2 \<and> v c = 2 \<and> pad_h c = 0 \<and>
              pad_w c = 0) \<or>
             (kernel_size0 = 5 \<and> kernel_size1 = 20 \<and> u c = 2 \<and> v c = 2 \<and> pad_h c = 0 \<and>
              pad_w c = 0));
          workarounds =
            ((kernel_size0 = 1 \<and> kernel_size1 = 1 \<and> (2 <s u c \<or> 2 <s v c)) \<or>
             (kernel_size0 = 3 \<and> kernel_size1 = 3 \<and> (2 <s u c \<or> 2 <s v c)) \<or>
             (signed_rem kernel_size0 2 = 0 \<and> signed_rem kernel_size1 2 = 0))
      in supported_filters \<and> \<not> workarounds)"

definition IsDirectSupported :: "ConvolutionDescriptor \<Rightarrow> TensorDescriptor \<Rightarrow> bool" where
  "IsDirectSupported c wDesc =
     (let (k, ch, kernel_size0, kernel_size1) = tien4_int wDesc;
          supported_filters =
            ((kernel_size0 = 1 \<and> kernel_size1 = 1) \<or> (kernel_size0 = 3 \<and> kernel_size1 = 3) \<or>
             (kernel_size0 = 5 \<and> kernel_size1 = 5) \<or> (kernel_size0 = 7 \<and> kernel_size1 = 7) \<or>
             (kernel_size0 = 9 \<and> kernel_size1 = 9) \<or>
             (kernel_size0 = 11 \<and> kernel_size1 = 11) \<or>
             (kernel_size0 = 5 \<and> kernel_size1 = 10 \<and> u c = 2 \<and> v c = 2 \<and> pad_h c = 0 \<and>
              pad_w c = 0) \<or>
             (kernel_size0 = 5 \<and> kernel_size1 = 20 \<and> u c = 2 \<and> v c = 2 \<and> pad_h c = 0 \<and>
              pad_w c = 0));
          workarounds =
            ((kernel_size0 = 3 \<and> kernel_size1 = 3 \<and> (2 <s u c \<or> 2 <s v c)) \<or>
             (kernel_size0 = 1 \<and> kernel_size1 = 1 \<and> (0 <s pad_h c \<or> 0 <s pad_w c)) \<or>
             (signed_rem kernel_size0 2 = 0 \<and> signed_rem kernel_size1 2 = 0))
      in supported_filters \<and> \<not> workarounds)"

text \<open>
  The eligibility rule for the direct strategy as the specification words it: a square
  filter with an odd side from 1 to 11, or a 5 by 10 or 5 by 20 filter under stride 2 with
  zero padding; minus 1 by 1 filters with stride above 2, 3 by 3 filters with stride above
  2, and filters with both sides even.
\<close>

definition direct_allowlist :: "ConvolutionDescriptor \<Rightarrow> int_t \<Rightarrow> int_t \<Rightarrow> bool" where
  "direct_allowlist c kh kw \<longleftrightarrow>
     (kh = kw \<and> kh \<in> {1, 3, 5, 7, 9, 11}) \<or>
     (kh = 5 \<and> kw \<in> {10, 20} \<and> u c = 2 \<and> v c = 2 \<and> pad_h c = 0 \<and> pad_w c = 0)"

definition IsDirectSupported_spec :: "ConvolutionDescriptor \<Rightarrow> TensorDescriptor \<Rightarrow> bool" where
  "IsDirectSupported_spec c wDesc =
     (let (k, ch, kh, kw) = tien4_int wDesc
      in direct_allowlist c kh kw \<and>
         \<not> (kh = 1 \<and> kw = 1 \<and> (2 < sint (u c) \<or> 2 < sint (v c))) \<and>
         \<not> (kh = 3 \<and> kw = 3 \<and> (2 < sint (u c) \<or> 2 < sint (v c))) \<and>
         \<not> (even (sint kh) \<and> even (sint kw)))"

text \<open>
  The same rule with the exclusion the source applies to 1 by 1 filters: non-zero padding
  instead of a stride above 2.
\<close>

definition IsDirectSupported_amended :: "ConvolutionDescriptor \<Rightarrow> TensorDescriptor \<Rightarrow> bool" where
  "IsDirectSupported_amended c wDesc =
     (let (k, ch, kh, kw) = tien4_int wDesc
      in direct_allowlist c kh kw \<and>
         \<not> (kh = 1 \<and> kw = 1 \<and> (0 < sint (pad_h c) \<or> 0 < sint (pad_w c))) \<and>
         \<not> (kh = 3 \<and> kw = 3 \<and> (2 < sint (u c) \<or> 2 < sint (v c))) \<and>
         \<not> (even (sint kh) \<and> even (sint kw)))"

section \<open>Workspace planner\<close>

text \<open>
  The GEMM sizes multiply \<open>int\<close> variables and then the \<open>size_t\<close> element size: the
  product of the \<open>int\<close>s is an \<open>int\<close> and converts to \<open>size_t\<close> for the last
  multiplication.  The comparison with \<open>1 << 30\<close> is at \<open>size_t\<close>.
\<close>

definition ForwardGetWorkSpaceSizeGEMM ::
  "ConvolutionDescriptor \<Rightarrow> Handle \<Rightarrow> TensorDescriptor \<Rightarrow> TensorDescriptor \<Rightarrow> size_t" where
  "ForwardGetWorkSpaceSizeGEMM c handle wDesc yDesc =
     (let (y0, y1, out_h, out_w) = tien4_int yDesc;
          (w0, wei_c, wei_h, wei_w) = tien4_int wDesc;
          workspace_size =
            scast (wei_c * wei_h * wei_w * out_h * out_w) * GetTypeSize (dtype yDesc)
      in if wei_h = 1 \<and> wei_w = 1 \<and> u c = 1 \<and> v c = 1 \<and> pad_h c = 0 \<and> pad_w c = 0
         then 0
         else if workspace_size > 2 ^ 30 \<and> DeviceName handle = ''gfx803''
         then 0
         else workspace_size)"

definition ForwardGetWorkSpaceSizeGEMMTranspose ::
  "TensorDescriptor \<Rightarrow> TensorDescriptor \<Rightarrow> size_t" where
  "ForwardGetWorkSpaceSizeGEMMTranspose xDesc yDesc =
     (let (in_n, in_c, x2, x3) = tien4_int xDesc;
          (y0, y1, out_h, out_w) = tien4_int yDesc;
          x_t_size = scast (in_n * in_c * out_h * out_w) * GetTypeSize (dtype xDesc);
          y_t_size = GetElementSize yDesc * GetTypeSize (dtype yDesc)
      in x_t_size + y_t_size)"

definition BackwardDataGetWorkSpaceSizeGEMM ::
  "ConvolutionDescriptor \<Rightarrow> Handle \<Rightarrow> TensorDescriptor \<Rightarrow> TensorDescriptor \<Rightarrow> size_t" where
  "BackwardDataGetWorkSpaceSizeGEMM c handle wDesc dyDesc =
     (let (y0, y1, out_h, out_w) = tien4_int dyDesc;
          (w0, wei_c, wei_h, wei_w) = tien4_int wDesc;
          gemm_size =
            scast (wei_c * wei_h * wei_w * out_h * out_w) * GetTypeSize (dtype dyDesc)
      in if wei_h = 1 \<and> wei_w = 1 \<and> u c = 1 \<and> v c = 1 \<and> pad_h c = 0 \<and> pad_w c = 0
         then 0
         else if DeviceName handle = ''gfx803'' \<and> gemm_size > 2 ^ 30
         then 0
         else gemm_size)"

definition BackwardDataGetWorkSpaceSizeGEMMTranspose ::
  "TensorDescriptor \<Rightarrow> TensorDescriptor \<Rightarrow> size_t" where
  "BackwardDataGetWorkSpaceSizeGEMMTranspose dyDesc dxDesc =
     (let (in_n, in_c, x2, x3) = tien4_int dxDesc;
          (y0, y1, out_h, out_w) = tien4_int dyDesc;
          dx_t_size = scast (in_n * in_c * out_h * out_w) * GetTypeSize (dtype dxDesc);
          dy_t_size = GetElementSize dyDesc * GetTypeSize (dtype dyDesc)
      in dx_t_size + dy_t_size)"

definition BackwardWeightsGetWorkSpaceSizeGEMM ::
  "ConvolutionDescriptor \<Rightarrow> Handle \<Rightarrow> TensorDescriptor \<Rightarrow> TensorDescriptor \<Rightarrow> size_t" where
  "BackwardWeightsGetWorkSpaceSizeGEMM c handle dyDesc dwDesc =
     (let (y0, y1, out_h, out_w) = tien4_int dyDesc;
          (w0, wei_c, wei_h, wei_w) = tien4_int dwDesc;
          gemm_size =
            scast (wei_c * wei_h * wei_w * out_h * out_w) * GetTypeSize (dtype dyDesc)
      in if DeviceName handle = ''gfx803'' \<and> gemm_size > 2 ^ 30
         then 0
         else gemm_size)"

text \<open>The largest workspace any solution asks for; 0 for no solution.\<close>

definition max_workspce_sz :: "size_t list \<Rightarrow> size_t" where
  "max_workspce_sz ss = fold (\<lambda>workspce_sz sz. if sz < workspce_sz then workspce_sz else sz) ss 0"

definition ForwardBackwardDataGetWorkSpaceSizeDirect ::
  "Env \<Rightarrow> ConvolutionDescriptor \<Rightarrow> Handle \<Rightarrow> TensorDescriptor \<Rightarrow> TensorDescriptor
   \<Rightarrow> TensorDescriptor \<Rightarrow> int \<Rightarrow> size_t" where
  "ForwardBackwardDataGetWorkSpaceSizeDirect env c handle xDesc yDesc wDesc dir =
     (if \<not> IsDirectSupported c wDesc \<or> MIOPEN_DEBUG_CONV_DIRECT_disabled env
      then 0
      else
        let construct_params =
              setConvDescr c (setWeightDescFromMLDesc wDesc (setInputDescFromMLDesc xDesc
                (setOutputDescFromMLDesc yDesc (doSearch False (mlo_construct dir)))))
        in case FindAllSolutions env construct_params of
             Some ss \<Rightarrow> max_workspce_sz ss
           | None \<Rightarrow> 0)"

definition BackwardWeightsGetWorkSpaceSizeDirect ::
  "Env \<Rightarrow> ConvolutionDescriptor \<Rightarrow> Handle \<Rightarrow> TensorDescriptor \<Rightarrow> TensorDescriptor
   \<Rightarrow> TensorDescriptor \<Rightarrow> size_t" where
  "BackwardWeightsGetWorkSpaceSizeDirect env c handle dyDesc xDesc dwDesc =
     (let construct_params =
            setConvDescr c (setWeightDescFromMLDesc dwDesc (setInputDescFromMLDesc xDesc
              (setOutputDescFromMLDesc dyDesc (doSearch False (mlo_construct 0)))))
      in case FindAllSolutions_BwdWrW2D env construct_params of
           Some ss \<Rightarrow> max_workspce_sz ss
         | None \<Rightarrow> 0)"

text \<open>
  The three cached queries.  Each builds its key from a fresh construction object, returns
  the cached size on a hit, and otherwise computes the size and inserts it.  The forward
  and the backward-weights query set the three descriptors only; the backward-data query
  also calls \<open>setConvDescr\<close>.
\<close>

definition ForwardGetWorkSpaceSize ::
  "Env \<Rightarrow> ConvolutionDescriptor \<Rightarrow> Handle \<Rightarrow> TensorDescriptor \<Rightarrow> TensorDescriptor
   \<Rightarrow> TensorDescriptor \<Rightarrow> size_t \<times> Handle" where
  "ForwardGetWorkSpaceSize env c handle wDesc xDesc yDesc =
     (let find_params =
            setWeightDescFromMLDesc wDesc (setInputDescFromMLDesc xDesc
              (setOutputDescFromMLDesc yDesc (mlo_construct 1)));
          find_config = mloBuildConf_Key find_params
      in case fwd_size_map handle find_config of
           Some sz \<Rightarrow> (sz, handle)
         | None \<Rightarrow>
             let wsize =
               (if mode c = miopenTranspose
                then BackwardDataGetWorkSpaceSizeGEMM c handle wDesc xDesc
                else
                  let (w0, w1, wei_h, wei_w) = tien4_int wDesc;
                      (x0, x1, in_h, in_w) = tien4_int xDesc;
                      direct_workspace =
                        ForwardBackwardDataGetWorkSpaceSizeDirect env c handle xDesc yDesc wDesc 1
                  in if 1 <s dilation_w c \<or> 1 <s dilation_h c
                     then max (ForwardGetWorkSpaceSizeGEMM c handle wDesc yDesc) direct_workspace
                     else if (wei_h = 1 \<and> wei_w = 1 \<and> pad_h c = 0 \<and> pad_w c = 0 \<and>
                              dilation_h c = 1 \<and> dilation_w c = 1) \<and>
                             ((in_h \<le>s 14 \<and> in_w \<le>s 14 \<and> u c = 1 \<and> v c = 1) \<or>
                              (u c = 2 \<and> v c = 2))
                     then max (ForwardGetWorkSpaceSizeGEMMTranspose xDesc yDesc) direct_workspace
                     else if IsWinograd3x3Supported env c handle True wDesc xDesc
                     then 0
                     else
                       let workspace_size_gemm = ForwardGetWorkSpaceSizeGEMM c handle wDesc yDesc;
                           workspace_size_fft = ForwardGetWorkSpaceSizeFFT env c wDesc xDesc yDesc
                       in max (max workspace_size_fft workspace_size_gemm) direct_workspace)
             in (wsize, handle\<lparr> fwd_size_map := map_insert (fwd_size_map handle) find_config wsize \<rparr>))"

definition BackwardDataGetWorkSpaceSize ::
  "Env \<Rightarrow> ConvolutionDescriptor \<Rightarrow> Handle \<Rightarrow> TensorDescriptor \<Rightarrow> TensorDescriptor
   \<Rightarrow> TensorDescriptor \<Rightarrow> size_t \<times> Handle" where
  "BackwardDataGetWorkSpaceSize env c handle wDesc dyDesc dxDesc =
     (let find_params =
            setConvDescr c (setWeightDescFromMLDesc wDesc (setInputDescFromMLDesc dxDesc
              (setOutputDescFromMLDesc dyDesc (mlo_construct 0))));
          find_config = mloBuildConf_Key find_params
      in case bwdData_size_map handle find_config of
           Some sz \<Rightarrow> (sz, handle)
         | None \<Rightarrow>
             let wsize =
               (if mode c = miopenTranspose
                then ForwardGetWorkSpaceSizeGEMM c handle wDesc dxDesc
                else
                  let (w0, w1, wei_h, wei_w) = tien4_int wDesc;
                      direct_workspace =
                        ForwardBackwardDataGetWorkSpaceSizeDirect env c handle dxDesc dyDesc wDesc 0
                  in if 1 <s dilation_w c \<or> 1 <s dilation_h c
                     then max (BackwardDataGetWorkSpaceSizeGEMM c handle wDesc dyDesc) direct_workspace
                     else if wei_h = 1 \<and> wei_w = 1 \<and> pad_h c = 0 \<and> pad_w c = 0 \<and>
                             (u c = 2 \<and> v c = 2) \<and> dilation_w c = 1 \<and> dilation_h c = 1
                     then max (BackwardDataGetWorkSpaceSizeGEMMTranspose dyDesc dxDesc) direct_workspace
                     else if IsWinograd3x3Supported env c handle False wDesc dyDesc
                     then 0
                     else
                       let workspace_size_gemm = BackwardDataGetWorkSpaceSizeGEMM c handle wDesc dyDesc;
                           workspace_size_fft = BackwardGetWorkSpaceSizeFFT env c wDesc dyDesc dxDesc
                       in max (max workspace_size_fft workspace_size_gemm) direct_workspace)
             in (wsize,
                 handle\<lparr> bwdData_size_map := map_insert (bwdData_size_map handle) find_config wsize \<rparr>))"

definition ConvolutionBackwardWeightsGetWorkSpaceSize ::
  "Env \<Rightarrow> ConvolutionDescriptor \<Rightarrow> Handle \<Rightarrow> TensorDescriptor \<Rightarrow> TensorDescriptor
   \<Rightarrow> TensorDescriptor \<Rightarrow> size_t \<times> Handle" where
  "ConvolutionBackwardWeightsGetWorkSpaceSize env c handle dyDesc xDesc dwDesc =
     (let find_params =
            setWeightDescFromMLDesc dwDesc (setInputDescFromMLDesc xDesc
              (setOutputDescFromMLDesc dyDesc (mlo_construct 0)));
          find_config = mloBuildConf_Key find_params
      in case bwdWeights_size_map handle find_config of
           Some sz \<Rightarrow> (sz, handle)
         | None \<Rightarrow>
             let wsize =
               (if mode c = miopenTranspose
                then BackwardWeightsGetWorkSpaceSizeGEMM c handle xDesc dwDesc
                else max (BackwardWeightsGetWorkSpaceSizeDirect env c handle dyDesc xDesc dwDesc)
                         (BackwardWeightsGetWorkSpaceSizeGEMM c handle dyDesc dwDesc))
             in (wsize,
                 handle\<lparr> bwdWeights_size_map :=
                           map_insert (bwdWeights_size_map handle) find_config wsize \<rparr>))"

section \<open>Device operations\<close>

text \<open>
  Running a kernel appends it to the device log and, while profiling is enabled, loads the
  kernel-time register with the time the device measured.  A construction is logged only.
\<close>

definition run :: "Env \<Rightarrow> device_op \<Rightarrow> Handle \<Rightarrow> Handle" where
  "run env op h =
     h\<lparr> KernelTime := (if ProfilingEnabled h then elapsed env (length (device_log h))
                        else KernelTime h),
        device_log := device_log h @ [op] \<rparr>"

definition construct :: "device_op \<Rightarrow> Handle \<Rightarrow> Handle" where
  "construct op h = h\<lparr> device_log := device_log h @ [op] \<rparr>"

definition AccumKernelTime :: "real \<Rightarrow> Handle \<Rightarrow> Handle" where
  "AccumKernelTime t h = h\<lparr> KernelTime := KernelTime h + t \<rparr>"

definition ResetKernelTime :: "Handle \<Rightarrow> Handle" where
  "ResetKernelTime h = h\<lparr> KernelTime := 0 \<rparr>"

text \<open>\<open>AutoEnableProfiling\<close>: the constructor and the destructor.\<close>

definition AutoEnableProfiling :: "Handle \<Rightarrow> bool \<times> Handle" where
  "AutoEnableProfiling h = (ProfilingEnabled h, h\<lparr> ProfilingEnabled := True \<rparr>)"

definition AutoEnableProfiling_exit :: "bool \<Rightarrow> Handle \<Rightarrow> Handle" where
  "AutoEnableProfiling_exit prev_state h = ResetKernelTime (h\<lparr> ProfilingEnabled := prev_state \<rparr>)"

text \<open>
  Modelled from the spec: the handle's \<open>AddKernel\<close>, \<open>GetKernel\<close> and \<open>GetKernels\<close> are
  declared outside the translated sources.  The specification has the handle compile or
  fetch a kernel by algorithm name and configuration key, and return the kernels
  previously compiled under a name and key; a lookup that finds nothing is a usage error.
  A kernel is known by its name.
\<close>

definition handle_AddKernel ::
  "string \<Rightarrow> ConfigKey \<times> string \<Rightarrow> string \<Rightarrow> nat \<Rightarrow> Handle \<Rightarrow> Handle" where
  "handle_AddKernel algorithm config kernel_name cache_index h =
     (let k = (algorithm, fst config, snd config);
          ks = (case kernel_cache h k of None \<Rightarrow> [] | Some ks \<Rightarrow> ks);
          ks' = (if cache_index < length ks then ks[cache_index := kernel_name]
                 else ks @ [kernel_name])
      in construct (AddKernel algorithm) (h\<lparr> kernel_cache := (kernel_cache h)(k \<mapsto> ks') \<rparr>))"

definition GetKernels :: "Handle \<Rightarrow> string \<Rightarrow> ConfigKey \<times> string \<Rightarrow> string list" where
  "GetKernels h algorithm config =
     (case kernel_cache h (algorithm, fst config, snd config) of
        None \<Rightarrow> [] | Some ks \<Rightarrow> ks)"

definition GetKernel :: "Handle \<Rightarrow> string \<Rightarrow> ConfigKey \<times> string \<Rightarrow> Exception + string" where
  "GetKernel h algorithm config =
     (case GetKernels h algorithm config of
        [] \<Rightarrow> Inl (miopenStatusUnknownError, ''looking for default kernel (does not exist)'')
      | k # ks \<Rightarrow> Inr k)"

text \<open>
  The two operations of the GEMM interface that touch the handle (also modelled from the
  spec, see \<open>GemmGeometry\<close>): \<open>FindSolution\<close> solves for the best kernel and leaves the
  geometry with the handle, under its algorithm name and configuration; \<open>GetGemmGeometry\<close>
  looks a geometry up and throws when there is none.
\<close>

definition FindSolution :: "GemmGeometry \<Rightarrow> Handle \<Rightarrow> Handle" where
  "FindSolution gg h =
     construct GemmFindSolution
       (h\<lparr> geo_map := (geo_map h)((algorithm_name gg, network_config gg) \<mapsto> gg) \<rparr>)"

definition GetGemmGeometry :: "Handle \<Rightarrow> string \<Rightarrow> gemm_config \<Rightarrow> Exception + GemmGeometry" where
  "GetGemmGeometry h algorithm config =
     (case geo_map h (algorithm, config) of
        None \<Rightarrow> Inl (miopenStatusUnknownError, ''looking for gemm kernel (does not exist)'')
      | Some gg \<Rightarrow> Inr gg)"

section \<open>Algorithm search engine\<close>

text \<open>
  A device buffer is a pointer that may be null.  Modelled from the spec:
  \<open>miopenConvAlgoPerf_t\<close>, one entry of the caller's result array, is declared outside the
  translated sources; the specification has the search write a strategy identifier, a time
  and a workspace into it.  The three identifier fields of the three directions share their
  storage and are one field here.
\<close>

type_synonym Data_t = "nat option"

record miopenConvAlgoPerf_t =
  perf_algo :: int
  perf_time :: real
  perf_memory :: size_t

definition construct_params_for ::
  "ConvolutionDescriptor \<Rightarrow> int \<Rightarrow> TensorDescriptor \<Rightarrow> TensorDescriptor \<Rightarrow> TensorDescriptor
   \<Rightarrow> mlo_construct_direct2D" where
  "construct_params_for c dir outDesc inDesc weiDesc =
     setConvDescr c (setWeightDescFromMLDesc weiDesc (setInputDescFromMLDesc inDesc
       (setOutputDescFromMLDesc outDesc (mlo_construct dir))))"

text \<open>
  \<open>FindWinogradKernel\<close> and \<open>FindDirectKernel\<close>.  \<open>Some\<close> stands for the return value
  0 and carries what the caller receives (the kernels, and for Winograd whether the kernel
  is the RxS variant); \<open>None\<close> stands for -1.
\<close>

definition FindWinogradKernel ::
  "Env \<Rightarrow> ConvolutionDescriptor \<Rightarrow> Handle \<Rightarrow> TensorDescriptor \<Rightarrow> TensorDescriptor
   \<Rightarrow> TensorDescriptor \<Rightarrow> int \<Rightarrow> (string \<times> bool) option \<times> Handle" where
  "FindWinogradKernel env c handle xDesc wDesc yDesc dir =
     (let construct_params = construct_params_for c dir yDesc xDesc wDesc
      in case mloConstruct_winograd env construct_params of
           None \<Rightarrow> (None, handle)
         | Some kernel_name \<Rightarrow>
             let config = mloBuildConf_Key construct_params;
                 algorithm = (if dir = 1 then ''miopenConvolutionFwdAlgoWinograd''
                              else ''miopenConvolutionBwdDataAlgoWinograd'')
             in (Some (kernel_name, kernel_name = ''sp3AsmConvRxSU''),
                 handle_AddKernel algorithm (config, []) kernel_name 0 handle))"

definition FindDirectKernel ::
  "Env \<Rightarrow> ConvolutionDescriptor \<Rightarrow> Handle \<Rightarrow> TensorDescriptor \<Rightarrow> TensorDescriptor
   \<Rightarrow> TensorDescriptor \<Rightarrow> bool \<Rightarrow> int \<Rightarrow> string list option \<times> Handle" where
  "FindDirectKernel env c handle xDesc wDesc yDesc exhaustiveSearch dir =
     (if \<not> IsDirectSupported c wDesc \<or> MIOPEN_DEBUG_CONV_DIRECT_disabled env
      then (None, handle)
      else
        let construct_params =
              setConvDescr c (setWeightDescFromMLDesc wDesc (setInputDescFromMLDesc xDesc
                (setOutputDescFromMLDesc yDesc (doSearch exhaustiveSearch (mlo_construct dir)))))
        in
        if IsWinograd3x3Supported env c handle (dir \<noteq> 0) wDesc (if dir \<noteq> 0 then xDesc else yDesc) \<and>
           mloIsFastBinaryWinograd3x3U env construct_params
        then (None, handle)
        else
          case mloConstruct_direct2D env construct_params of
            None \<Rightarrow> (None, handle)
          | Some sol \<Rightarrow>
              let config = mloBuildConf_Key construct_params;
                  algorithm = (if dir = 1 then ''miopenConvolutionFwdAlgoDirect''
                               else ''miopenConvolutionBwdDataAlgoDirect'')
              in
              if KernelFile sol \<noteq> ''MIOpenConvFwd_LxL_11.cl''
              then (Some [KernelName sol],
                    handle_AddKernel algorithm (config, []) (KernelName sol) 0 handle)
              else if length (KernelsInfo sol) = 1
              then (Some [KernelsInfo sol ! 0],
                    handle_AddKernel algorithm (config, []) (KernelsInfo sol ! 0) 0 handle)
              else
                let h1 = handle_AddKernel algorithm (config, []) (KernelsInfo sol ! 0) 0 handle;
                    h2 = handle_AddKernel (algorithm @ ''_pass2'') (config, ''x1'')
                           (KernelsInfo sol ! 1) 0 h1
                in (Some [KernelsInfo sol ! 0, KernelsInfo sol ! 1], h2))"

text \<open>
  The candidates of the forward search, in the order of the source.  Each returns the
  entries it pushes on \<open>perf_db\<close> and the handle.  \<open>gemm_find_run\<close> is the pair
  \<open>FindSolution\<close>, \<open>RunGemm\<close> on a geometry.  An \<open>int\<close> that multiplies a time converts
  to a floating-point number.
\<close>

definition gemm_find_run :: "Env \<Rightarrow> GemmGeometry \<Rightarrow> Handle \<Rightarrow> Handle" where
  "gemm_find_run env gg h = run env RunGemm (FindSolution gg h)"

definition run_kernels :: "Env \<Rightarrow> string list \<Rightarrow> Handle \<Rightarrow> real \<times> Handle" where
  "run_kernels env ks h =
     fold (\<lambda>k (t, h). let h' = run env (RunKernel k) h in (t + KernelTime h', h')) ks (0, h)"

definition Fwd_GEMM_transpose_mode ::
  "Env \<Rightarrow> ConvolutionDescriptor \<Rightarrow> Handle \<Rightarrow> TensorDescriptor \<Rightarrow> TensorDescriptor
   \<Rightarrow> TensorDescriptor \<Rightarrow> Data_t \<Rightarrow> size_t \<Rightarrow> PerfField list \<times> Handle" where
  "Fwd_GEMM_transpose_mode env c handle xDesc wDesc yDesc workSpace workSpaceSize =
     (let (in_n, in_c, in_h, in_w) = tien4_int xDesc;
          (w0, wei_n, wei_h, wei_w) = tien4_int wDesc
      in
      if MIOPEN_USE_MIOPENGEMM env \<and> dtype xDesc = miopenFloat
      then
        let workspace_req = BackwardDataGetWorkSpaceSizeGEMM c handle wDesc xDesc;
            gg = CreateGemmGeometry ConvBwdData xDesc wDesc yDesc True
        in
        if wei_h = 1 \<and> wei_w = 1 \<and> v c = 1 \<and> u c = 1
        then
          let h1 = gemm_find_run env gg handle;
              time_gemm = real_of_int (sint in_n) * KernelTime h1
          in ([\<lparr> name = ''miopenConvolutionFwdAlgoGEMM'', time = time_gemm, workspace = 0 \<rparr>], h1)
        else if workSpace \<noteq> None \<and> workSpaceSize \<ge> workspace_req
        then
          let h1 = gemm_find_run env gg handle;
              time_gemm = real_of_int (sint in_n) * KernelTime h1;
              h2 = run env Col2ImGPU h1;
              time_col2im = KernelTime h2;
              time_gemm = time_gemm + real_of_int (sint in_n) * time_col2im
          in ([\<lparr> name = ''miopenConvolutionFwdAlgoGEMM'', time = time_gemm,
                 workspace = workspace_req \<rparr>], h2)
        else ([], handle)
      else ([], handle))"

definition Fwd_GEMM ::
  "Env \<Rightarrow> ConvolutionDescriptor \<Rightarrow> Handle \<Rightarrow> TensorDescriptor \<Rightarrow> TensorDescriptor
   \<Rightarrow> TensorDescriptor \<Rightarrow> Data_t \<Rightarrow> size_t \<Rightarrow> PerfField list \<times> Handle" where
  "Fwd_GEMM env c handle xDesc wDesc yDesc workSpace workSpaceSize =
     (let (in_n, in_c, in_h, in_w) = tien4_int xDesc;
          (wei_n, w1, wei_h, wei_w) = tien4_int wDesc
      in
      if MIOPEN_USE_MIOPENGEMM env \<and> dtype xDesc = miopenFloat
      then
        if (wei_h = 1 \<and> wei_w = 1 \<and> pad_h c = 0 \<and> pad_w c = 0 \<and> dilation_h c = 1 \<and>
            dilation_w c = 1) \<and>
           ((in_h \<le>s 14 \<and> in_w \<le>s 14 \<and> u c = 1 \<and> v c = 1) \<or> (u c = 2 \<and> v c = 2))
        then
          let workspace_req = ForwardGetWorkSpaceSizeGEMMTranspose xDesc yDesc
          in
          if workSpace \<noteq> None \<and> workSpaceSize \<ge> workspace_req
          then
            let gg = CreateGemmGeometry ConvFwdCNHW xDesc wDesc yDesc False;
                h1 = run env transpose_NCHW2CNHW handle;
                time_gemm = KernelTime h1;
                h2 = gemm_find_run env gg h1;
                time_gemm = time_gemm + KernelTime h2;
                h3 = run env transpose_CNHW2NCHW h2;
                time_gemm = time_gemm + KernelTime h3
            in ([\<lparr> name = ''miopenConvolutionFwdAlgoGEMM'', time = time_gemm,
                   workspace = workspace_req \<rparr>], h3)
          else ([], handle)
        else if wei_h = 1 \<and> wei_w = 1 \<and> pad_h c = 0 \<and> pad_w c = 0 \<and> (u c = 1 \<and> v c = 1) \<and>
                dilation_w c = 1 \<and> dilation_h c = 1
        then
          let gg = CreateGemmGeometry ConvFwd xDesc wDesc yDesc False;
              h1 = gemm_find_run env gg handle;
              time_gemm = real_of_int (sint in_n) * KernelTime h1
          in ([\<lparr> name = ''miopenConvolutionFwdAlgoGEMM'', time = time_gemm, workspace = 0 \<rparr>], h1)
        else if workSpace \<noteq> None \<and>
                workSpaceSize \<ge> ForwardGetWorkSpaceSizeGEMM c handle wDesc yDesc
        then
          let gg = CreateGemmGeometry ConvFwd xDesc wDesc yDesc False;
              h1 = run env Im2ColGPU handle;
              time_im2col = KernelTime h1;
              h2 = gemm_find_run env gg h1;
              time_gemm = real_of_int (sint in_n) * (time_im2col + KernelTime h2)
          in ([\<lparr> name = ''miopenConvolutionFwdAlgoGEMM'', time = time_gemm,
                 workspace = ForwardGetWorkSpaceSizeGEMM c h2 wDesc yDesc \<rparr>], h2)
        else ([], handle)
      else ([], handle))"

definition Winograd_candidate ::
  "Env \<Rightarrow> ConvolutionDescriptor \<Rightarrow> Handle \<Rightarrow> TensorDescriptor \<Rightarrow> TensorDescriptor
   \<Rightarrow> TensorDescriptor \<Rightarrow> int \<Rightarrow> string \<Rightarrow> PerfField list \<times> Handle" where
  "Winograd_candidate env c handle xDesc wDesc yDesc dir algorithm =
     (case FindWinogradKernel env c handle xDesc wDesc yDesc dir of
        (None, h1) \<Rightarrow> ([], h1)
      | (Some (kernel_wino, isRxS), h1) \<Rightarrow>
          let h2 = run env (RunKernel kernel_wino) h1;
              time_wino = KernelTime h2
          in ([\<lparr> name = algorithm, time = time_wino, workspace = 0 \<rparr>], h2))"

definition Direct_candidate ::
  "Env \<Rightarrow> ConvolutionDescriptor \<Rightarrow> Handle \<Rightarrow> TensorDescriptor \<Rightarrow> TensorDescriptor
   \<Rightarrow> TensorDescriptor \<Rightarrow> bool \<Rightarrow> int \<Rightarrow> string \<Rightarrow> PerfField list \<times> Handle" where
  "Direct_candidate env c handle xDesc wDesc yDesc exhaustiveSearch dir algorithm =
     (case FindDirectKernel env c handle xDesc wDesc yDesc exhaustiveSearch dir of
        (None, h1) \<Rightarrow> ([], h1)
      | (Some kernel_direct, h1) \<Rightarrow>
          let (time_direct, h2) = run_kernels env kernel_direct h1
          in ([\<lparr> name = algorithm, time = time_direct, workspace = 0 \<rparr>], h2))"

definition Fwd_FFT ::
  "Env \<Rightarrow> ConvolutionDescriptor \<Rightarrow> Handle \<Rightarrow> TensorDescriptor \<Rightarrow> TensorDescriptor
   \<Rightarrow> TensorDescriptor \<Rightarrow> Data_t \<Rightarrow> size_t \<Rightarrow> PerfField list \<times> Handle" where
  "Fwd_FFT env c handle xDesc wDesc yDesc workSpace workSpaceSize =
     (let workspace_fft = ForwardGetWorkSpaceSizeFFT env c wDesc xDesc yDesc
      in
      if FindFwdFFTKernel env xDesc wDesc yDesc = 0 \<and>
         workSpace \<noteq> None \<and> workSpaceSize \<ge> workspace_fft
      then
        let h1 = run env ExecuteFwdFFTKernel handle;
            time_fft = KernelTime h1
        in ([\<lparr> name = ''miopenConvolutionFwdAlgoFFT'', time = time_fft,
               workspace = workspace_fft \<rparr>], h1)
      else ([], handle))"

definition FindConvFwd_perf_db ::
  "Env \<Rightarrow> ConvolutionDescriptor \<Rightarrow> Handle \<Rightarrow> TensorDescriptor \<Rightarrow> TensorDescriptor
   \<Rightarrow> TensorDescriptor \<Rightarrow> Data_t \<Rightarrow> size_t \<Rightarrow> bool \<Rightarrow> PerfField list \<times> Handle" where
  "FindConvFwd_perf_db env c handle xDesc wDesc yDesc workSpace workSpaceSize exhaustiveSearch =
     (case mode c of
        miopenTranspose \<Rightarrow>
          Fwd_GEMM_transpose_mode env c handle xDesc wDesc yDesc workSpace workSpaceSize
      | miopenConvolution \<Rightarrow>
          let (db1, h1) = Fwd_GEMM env c handle xDesc wDesc yDesc workSpace workSpaceSize
          in
          if dilation_h c = 1 \<and> dilation_w c = 1
          then
            let (db2, h2) = Winograd_candidate env c h1 xDesc wDesc yDesc 1
                              ''miopenConvolutionFwdAlgoWinograd'';
                (db3, h3) = Direct_candidate env c h2 xDesc wDesc yDesc exhaustiveSearch 1
                              ''miopenConvolutionFwdAlgoDirect'';
                (db4, h4) = Fwd_FFT env c h3 xDesc wDesc yDesc workSpace workSpaceSize
            in (db1 @ db2 @ db3 @ db4, h4)
          else (db1, h1))"

text \<open>
  The loop that writes the first \<open>cnt\<close> entries of \<open>perfResults\<close>, and the common tail of
  the three searches: sort, count, write.  The caller's array holds at least
  \<open>requestAlgoCount\<close> entries.  The scratch buffer a search allocates for the kernels'
  output leaves no trace in the handle.
\<close>

definition perf_entry :: "(string \<Rightarrow> int) \<Rightarrow> PerfField \<Rightarrow> miopenConvAlgoPerf_t" where
  "perf_entry resolver p =
     \<lparr> perf_algo = resolver (name p), perf_time = time p, perf_memory = workspace p \<rparr>"

definition write_perfResults ::
  "(string \<Rightarrow> int) \<Rightarrow> PerfField list \<Rightarrow> nat \<Rightarrow> miopenConvAlgoPerf_t list
   \<Rightarrow> miopenConvAlgoPerf_t list" where
  "write_perfResults resolver perf_db cnt perfResults =
     fold (\<lambda>i res. res[i := perf_entry resolver (perf_db ! i)]) [0 ..< cnt] perfResults"

definition rank_perf_db ::
  "(string \<Rightarrow> int) \<Rightarrow> PerfField list \<Rightarrow> int \<Rightarrow> miopenConvAlgoPerf_t list
   \<Rightarrow> int \<times> miopenConvAlgoPerf_t list \<times> int" where
  "rank_perf_db resolver perf_db requestAlgoCount perfResults =
     (let sorted_db = std_sort perf_db;
          cnt = min requestAlgoCount (int (length sorted_db))
      in (cnt, write_perfResults resolver sorted_db (nat cnt) perfResults,
          resolver (name (sorted_db ! 0))))"

type_synonym FindResult = "(Exception + int \<times> miopenConvAlgoPerf_t list) \<times> Handle"

definition FindConvFwdAlgorithm ::
  "Env \<Rightarrow> ConvolutionDescriptor \<Rightarrow> Handle \<Rightarrow> TensorDescriptor \<Rightarrow> Data_t \<Rightarrow> TensorDescriptor
   \<Rightarrow> Data_t \<Rightarrow> TensorDescriptor \<Rightarrow> Data_t \<Rightarrow> int \<Rightarrow> int option
   \<Rightarrow> miopenConvAlgoPerf_t list option \<Rightarrow> Data_t \<Rightarrow> size_t \<Rightarrow> bool \<Rightarrow> FindResult" where
  "FindConvFwdAlgorithm env c handle xDesc x wDesc w yDesc y requestAlgoCount returnedAlgoCount
     perfResults workSpace workSpaceSize exhaustiveSearch =
     (if x = None \<or> w = None \<or> y = None
      then (Inl (miopenStatusBadParm, ''Buffers cannot be NULL''), handle)
      else if returnedAlgoCount = None
      then (Inl (miopenStatusBadParm, ''returnedAlgoCount cannot be nullptr''), handle)
      else
        case perfResults of
          None \<Rightarrow> (Inl (miopenStatusBadParm, ''perfResults cannot be nullptr''), handle)
        | Some results \<Rightarrow>
            if requestAlgoCount < 1
            then (Inl (miopenStatusBadParm, ''requestAlgoCount cannot be < 1''), handle)
            else
              let (prev_state, h0) = AutoEnableProfiling handle;
                  find_config = mloBuildConf_Key (construct_params_for c 1 yDesc xDesc wDesc);
                  cached = (if requestAlgoCount = 1 then fwd_map h0 find_config else None)
              in
              (case cached of
                Some algo \<Rightarrow>
                  (Inr (1, results[0 := (results ! 0)\<lparr> perf_algo := algo \<rparr>]),
                   AutoEnableProfiling_exit prev_state h0)
              | None \<Rightarrow>
                  let (perf_db, h1) =
                        FindConvFwd_perf_db env c h0 xDesc wDesc yDesc workSpace workSpaceSize
                          exhaustiveSearch
                  in
                  if perf_db = []
                  then (Inl (miopenStatusUnknownError,
                             ''Fwd Convolution cannot be executed due to incorrect params''),
                        AutoEnableProfiling_exit prev_state h1)
                  else
                    let (cnt, results', best) =
                          rank_perf_db (FwdAlgoResolver env) perf_db requestAlgoCount results;
                        h2 = h1\<lparr> fwd_map := map_insert (fwd_map h1) find_config best \<rparr>
                    in (Inr (cnt, results'), AutoEnableProfiling_exit prev_state h2)))"

text \<open>The candidates of the backward-data search, in the order of the source.\<close>

definition BwdData_GEMM_transpose_mode ::
  "Env \<Rightarrow> ConvolutionDescriptor \<Rightarrow> Handle \<Rightarrow> TensorDescriptor \<Rightarrow> TensorDescriptor
   \<Rightarrow> TensorDescriptor \<Rightarrow> Data_t \<Rightarrow> size_t \<Rightarrow> PerfField list \<times> Handle" where
  "BwdData_GEMM_transpose_mode env c handle dyDesc wDesc dxDesc workSpace workSpaceSize =
     (let (in_n, in_c, in_h, in_w) = tien4_int dxDesc;
          (w0, wei_n, wei_h, wei_w) = tien4_int wDesc
      in
      if MIOPEN_USE_MIOPENGEMM env \<and> dtype dyDesc = miopenFloat
      then
        let workspace_req = ForwardGetWorkSpaceSizeGEMM c handle wDesc dxDesc;
            gg = CreateGemmGeometry TranBwdData dyDesc wDesc dxDesc True
        in
        if wei_h = 1 \<and> wei_w = 1 \<and> v c = 1 \<and> u c = 1
        then
          let h1 = gemm_find_run env gg handle;
              time_gemm = real_of_int (sint in_n) * KernelTime h1
          in ([\<lparr> name = ''miopenTransposeBwdDataAlgoGEMM'', time = time_gemm, workspace = 0 \<rparr>], h1)
        else if workSpace \<noteq> None \<and> workSpaceSize \<ge> workspace_req
        then
          let h1 = run env Im2ColGPU handle;
              time_im2col = KernelTime h1;
              h2 = gemm_find_run env gg h1;
              time_gemm = real_of_int (sint in_n) * (time_im2col + KernelTime h2)
          in ([\<lparr> name = ''miopenTransposeBwdDataAlgoGEMM'', time = time_gemm,
                 workspace = workspace_req \<rparr>], h2)
        else ([], handle)
      else ([], handle))"

definition Bwd_FFT ::
  "Env \<Rightarrow> ConvolutionDescriptor \<Rightarrow> Handle \<Rightarrow> TensorDescriptor \<Rightarrow> TensorDescriptor
   \<Rightarrow> TensorDescriptor \<Rightarrow> Data_t \<Rightarrow> size_t \<Rightarrow> PerfField list \<times> Handle" where
  "Bwd_FFT env c handle dyDesc wDesc dxDesc workSpace workSpaceSize =
     (let workspace_fft = BackwardGetWorkSpaceSizeFFT env c wDesc dyDesc dxDesc
      in
      if FindBwdFFTKernel env dyDesc wDesc dxDesc = 0 \<and>
         workSpace \<noteq> None \<and> workSpaceSize \<ge> workspace_fft
      then
        let h1 = run env ExecuteBwdFFTKernel handle;
            time_fft = KernelTime h1
        in ([\<lparr> name = ''miopenConvolutionBwdDataAlgoFFT'', time = time_fft,
               workspace = workspace_fft \<rparr>], h1)
      else ([], handle))"

definition BwdData_GEMM ::
  "Env \<Rightarrow> ConvolutionDescriptor \<Rightarrow> Handle \<Rightarrow> TensorDescriptor \<Rightarrow> TensorDescriptor
   \<Rightarrow> TensorDescriptor \<Rightarrow> Data_t \<Rightarrow> size_t \<Rightarrow> PerfField list \<times> Handle" where
  "BwdData_GEMM env c handle dyDesc wDesc dxDesc workSpace workSpaceSize =
     (let (in_n, in_c, in_h, in_w) = tien4_int dxDesc;
          (wei_n, w1, wei_h, wei_w) = tien4_int wDesc
      in
      if MIOPEN_USE_MIOPENGEMM env \<and> dtype dyDesc = miopenFloat
      then
        if wei_h = 1 \<and> wei_w = 1 \<and> pad_h c = 0 \<and> pad_w c = 0 \<and> (u c = 2 \<and> v c = 2) \<and>
           dilation_w c = 1 \<and> dilation_h c = 1 \<and> workSpace \<noteq> None \<and>
           workSpaceSize \<ge> BackwardDataGetWorkSpaceSizeGEMMTranspose dyDesc dxDesc
        then
          let h1 = run env SetTensor handle;
              time_gemm = KernelTime h1;
              gg = CreateGemmGeometry ConvBwdDataCNHW dyDesc wDesc dxDesc True;
              h2 = run env transpose_NCHW2CNHW h1;
              time_gemm = time_gemm + KernelTime h2;
              h3 = gemm_find_run env gg h2;
              time_gemm = time_gemm + KernelTime h3;
              h4 = run env transpose_CNHW2NCHW h3;
              time_gemm = time_gemm + KernelTime h4
          in ([\<lparr> name = ''miopenConvolutionBwdDataAlgoGEMM'', time = time_gemm,
                 workspace = BackwardDataGetWorkSpaceSizeGEMMTranspose dyDesc dxDesc \<rparr>], h4)
        else if wei_h = 1 \<and> wei_w = 1 \<and> pad_h c = 0 \<and> pad_w c = 0 \<and> (u c = 1 \<and> v c = 1) \<and>
                dilation_w c = 1 \<and> dilation_h c = 1
        then
          let gg = CreateGemmGeometry ConvBwdData dyDesc wDesc dxDesc True;
              h1 = gemm_find_run env gg handle;
              time_gemm = real_of_int (sint in_n) * KernelTime h1
          in ([\<lparr> name = ''miopenConvolutionBwdDataAlgoGEMM'', time = time_gemm, workspace = 0 \<rparr>], h1)
        else if workSpace \<noteq> None \<and>
                workSpaceSize \<ge> BackwardDataGetWorkSpaceSizeGEMM c handle wDesc dyDesc
        then
          let gg = CreateGemmGeometry ConvBwdData dyDesc wDesc dxDesc True;
              h1 = gemm_find_run env gg handle;
              time_gemm = real_of_int (sint in_n) * KernelTime h1;
              h2 = run env Col2ImGPU h1;
              time_col2im = KernelTime h2;
              time_gemm = time_gemm + real_of_int (sint in_n) * time_col2im
          in ([\<lparr> name = ''miopenConvolutionBwdDataAlgoGEMM'', time = time_gemm,
                 workspace = BackwardDataGetWorkSpaceSizeGEMM c h2 wDesc dyDesc \<rparr>], h2)
        else ([], handle)
      else ([], handle))"

definition FindConvBwdData_perf_db ::
  "Env \<Rightarrow> ConvolutionDescriptor \<Rightarrow> Handle \<Rightarrow> TensorDescriptor \<Rightarrow> TensorDescriptor
   \<Rightarrow> TensorDescriptor \<Rightarrow> Data_t \<Rightarrow> size_t \<Rightarrow> bool \<Rightarrow> PerfField list \<times> Handle" where
  "FindConvBwdData_perf_db env c handle dyDesc wDesc dxDesc workSpace workSpaceSize exhaustiveSearch =
     (case mode c of
        miopenTranspose \<Rightarrow>
          BwdData_GEMM_transpose_mode env c handle dyDesc wDesc dxDesc workSpace workSpaceSize
      | miopenConvolution \<Rightarrow>
          let (db123, h3) =
                (if dilation_h c = 1 \<and> dilation_w c = 1
                 then
                   let (db1, h1) = Winograd_candidate env c handle dxDesc wDesc dyDesc 0
                                     ''miopenConvolutionBwdDataAlgoWinograd'';
                       (db2, h2) = Direct_candidate env c h1 dxDesc wDesc dyDesc exhaustiveSearch 0
                                     ''miopenConvolutionBwdDataAlgoDirect'';
                       (db3, h3) = Bwd_FFT env c h2 dyDesc wDesc dxDesc workSpace workSpaceSize
                   in (db1 @ db2 @ db3, h3)
                 else ([], handle));
              (db4, h4) = BwdData_GEMM env c h3 dyDesc wDesc dxDesc workSpace workSpaceSize
          in (db123 @ db4, h4))"

definition FindConvBwdDataAlgorithm ::
  "Env \<Rightarrow> ConvolutionDescriptor \<Rightarrow> Handle \<Rightarrow> TensorDescriptor \<Rightarrow> Data_t \<Rightarrow> TensorDescriptor
   \<Rightarrow> Data_t \<Rightarrow> TensorDescriptor \<Rightarrow> Data_t \<Rightarrow> int \<Rightarrow> int option
   \<Rightarrow> miopenConvAlgoPerf_t list option \<Rightarrow> Data_t \<Rightarrow> size_t \<Rightarrow> bool \<Rightarrow> FindResult" where
  "FindConvBwdDataAlgorithm env c handle dyDesc dy wDesc w dxDesc dx requestAlgoCount
     returnedAlgoCount perfResults workSpace workSpaceSize exhaustiveSearch =
     (if dx = None \<or> w = None \<or> dy = None
      then (Inl (miopenStatusBadParm, ''Buffers cannot be NULL''), handle)
      else if returnedAlgoCount = None
      then (Inl (miopenStatusBadParm, ''returnedAlgoCount cannot be nullptr''), handle)
      else
        case perfResults of
          None \<Rightarrow> (Inl (miopenStatusBadParm, ''perfResults cannot be nullptr''), handle)
        | Some results \<Rightarrow>
            if requestAlgoCount < 1
            then (Inl (miopenStatusBadParm, ''requestAlgoCount cannot be < 1''), handle)
            else
              let find_config = mloBuildConf_Key (construct_params_for c 0 dyDesc dxDesc wDesc);
                  cached = (if requestAlgoCount = 1 then bwdData_map handle find_config else None)
              in
              (case cached of
                Some algo \<Rightarrow>
                  (Inr (1, results[0 := (results ! 0)\<lparr> perf_algo := algo \<rparr>]), handle)
              | None \<Rightarrow>
                  let (prev_state, h0) = AutoEnableProfiling handle;
                      (perf_db, h1) =
                        FindConvBwdData_perf_db env c h0 dyDesc wDesc dxDesc workSpace workSpaceSize
                          exhaustiveSearch
                  in
                  if perf_db = []
                  then (Inl (miopenStatusUnknownError, ''Backward Data Algo cannot be executed''),
                        AutoEnableProfiling_exit prev_state h1)
                  else
                    let (cnt, results', best) =
                          rank_perf_db (BwdDataAlgoResolver env) perf_db requestAlgoCount results;
                        h2 = h1\<lparr> bwdData_map := map_insert (bwdData_map h1) find_config best \<rparr>
                    in (Inr (cnt, results'), AutoEnableProfiling_exit prev_state h2)))"

text \<open>
  The candidates of the backward-weights search.  The GEMM candidate is the same code in
  both modes, up to the geometry and the workspace requirement, which are parameters here.
  \<open>SubSampleGPU\<close> is declared outside the translated sources: it registers the
  sub-sampling kernel first under the algorithm name and key it is given, runs it, and
  returns its time.
\<close>

definition BwdWeights_GEMM ::
  "Env \<Rightarrow> ConvolutionDescriptor \<Rightarrow> Handle \<Rightarrow> GemmGeometry \<Rightarrow> TensorDescriptor
   \<Rightarrow> TensorDescriptor \<Rightarrow> size_t \<Rightarrow> int_t \<Rightarrow> int_t \<Rightarrow> Data_t \<Rightarrow> size_t
   \<Rightarrow> PerfField list \<times> Handle" where
  "BwdWeights_GEMM env c handle gg dyDesc xDesc workspace_req wei_h wei_w
     workSpace workSpaceSize =
     (let (in_n, in_c, in_h, in_w) = tien4_int xDesc
      in
      if MIOPEN_USE_MIOPENGEMM env \<and> dtype dyDesc = miopenFloat
      then
        if wei_h = 1 \<and> wei_w = 1 \<and> v c = 1 \<and> u c = 1
        then
          let h1 = gemm_find_run env gg handle;
              time_gemm = real_of_int (sint in_n) * KernelTime h1
          in ([\<lparr> name = ''miopenConvolutionBwdWeightsAlgoGEMM'', time = time_gemm,
                 workspace = 0 \<rparr>], h1)
        else if workSpace \<noteq> None \<and> workSpaceSize \<ge> workspace_req
        then
          let h1 = run env Im2ColGPU handle;
              time_im2col = KernelTime h1;
              h2 = gemm_find_run env gg h1;
              time_gemm = real_of_int (sint in_n) * (time_im2col + KernelTime h2)
          in ([\<lparr> name = ''miopenConvolutionBwdWeightsAlgoGEMM'', time = time_gemm,
                 workspace = workspace_req \<rparr>], h2)
        else ([], handle)
      else ([], handle))"

definition BwdWeights_Direct ::
  "Env \<Rightarrow> ConvolutionDescriptor \<Rightarrow> Handle \<Rightarrow> TensorDescriptor \<Rightarrow> TensorDescriptor
   \<Rightarrow> TensorDescriptor \<Rightarrow> Data_t \<Rightarrow> size_t \<Rightarrow> bool \<Rightarrow> PerfField list \<times> Handle" where
  "BwdWeights_Direct env c handle dyDesc xDesc dwDesc workSpace workSpaceSize exhaustiveSearch =
     (let (wei_n, w1, wei_h, wei_w) = tien4_int dwDesc
      in
      if wei_h \<le>s wei_w \<and> \<not> MIOPEN_DEBUG_CONV_DIRECT_disabled env \<and>
         IsBwdWeightsDirectSupported c dwDesc
      then
        let construct_params =
              setConvDescr c (setWeightDescFromMLDesc dwDesc (setInputDescFromMLDesc xDesc
                (setOutputDescFromMLDesc dyDesc (doSearch exhaustiveSearch (mlo_construct 0)))))
        in
        case mloConstruct_BwdWrW2D env construct_params of
          None \<Rightarrow> ([], handle)
        | Some bwd_wrw_info \<Rightarrow>
            let config = (mloBuildConf_Key construct_params, []);
                algorithm = ''miopenConvolutionBwdWeightsAlgoDirect_Main''
            in
            if length bwd_wrw_info = 1
            then
              let h1 = handle_AddKernel algorithm config (bwd_wrw_info ! 0) 0 handle;
                  h2 = run env (RunKernel (bwd_wrw_info ! 0)) h1;
                  time_direct = KernelTime h2
              in ([\<lparr> name = ''miopenConvolutionBwdWeightsAlgoDirect'', time = time_direct,
                     workspace = 0 \<rparr>], h2)
            else
              let workspace_req =
                    BackwardWeightsGetWorkSpaceSizeDirect env c handle dyDesc xDesc dwDesc
              in
              if workSpace \<noteq> None \<and> workSpaceSize \<ge> workspace_req
              then
                if bwd_wrw_info ! 0 = ''SubSample''
                then
                  let h1 = run env SubSampleGPU
                             (handle_AddKernel algorithm config (bwd_wrw_info ! 0) 0 handle);
                      time_sub = KernelTime h1;
                      h2 = handle_AddKernel algorithm config (bwd_wrw_info ! 1) 1 h1;
                      h3 = run env (RunKernel (bwd_wrw_info ! 1)) h2;
                      time_direct = time_sub + KernelTime h3
                  in ([\<lparr> name = ''miopenConvolutionBwdWeightsAlgoDirect'', time = time_direct,
                         workspace = workspace_req \<rparr>], h3)
                else
                  let h1 = handle_AddKernel algorithm config (bwd_wrw_info ! 0) 0 handle;
                      h2 = run env (RunKernel (bwd_wrw_info ! 0)) h1;
                      time_direct = KernelTime h2;
                      h3 = handle_AddKernel algorithm config (bwd_wrw_info ! 1) 1 h2;
                      h4 = run env (RunKernel (bwd_wrw_info ! 1)) h3;
                      time_direct = time_direct + KernelTime h4
                  in ([\<lparr> name = ''miopenConvolutionBwdWeightsAlgoDirect'', time = time_direct,
                         workspace = workspace_req \<rparr>], h4)
              else ([], handle)
      else ([], handle))"

definition FindConvBwdWeights_perf_db ::
  "Env \<Rightarrow> ConvolutionDescriptor \<Rightarrow> Handle \<Rightarrow> TensorDescriptor \<Rightarrow> TensorDescriptor
   \<Rightarrow> TensorDescriptor \<Rightarrow> Data_t \<Rightarrow> size_t \<Rightarrow> bool \<Rightarrow> PerfField list \<times> Handle" where
  "FindConvBwdWeights_perf_db env c handle dyDesc xDesc dwDesc workSpace workSpaceSize
     exhaustiveSearch =
     (case mode c of
        miopenTranspose \<Rightarrow>
          let (w0, wei_n, wei_h, wei_w) = tien4_int dwDesc
          in BwdWeights_GEMM env c handle
               (CreateGemmGeometry ConvBwdWeights xDesc dyDesc dwDesc False) dyDesc xDesc
               (BackwardWeightsGetWorkSpaceSizeGEMM c handle xDesc dwDesc)
               wei_h wei_w workSpace workSpaceSize
      | miopenConvolution \<Rightarrow>
          let (wei_n, w1, wei_h, wei_w) = tien4_int dwDesc;
              (db1, h1) = BwdWeights_GEMM env c handle
                            (CreateGemmGeometry ConvBwdWeights dyDesc xDesc dwDesc False) dyDesc xDesc
                            (BackwardWeightsGetWorkSpaceSizeGEMM c handle dyDesc dwDesc)
                            wei_h wei_w workSpace workSpaceSize
          in
          if dilation_h c = 1 \<and> dilation_w c = 1
          then
            let (db2, h2) = BwdWeights_Direct env c h1 dyDesc xDesc dwDesc workSpace workSpaceSize
                              exhaustiveSearch
            in (db1 @ db2, h2)
          else (db1, h1))"

definition FindConvBwdWeightsAlgorithm ::
  "Env \<Rightarrow> ConvolutionDescriptor \<Rightarrow> Handle \<Rightarrow> TensorDescriptor \<Rightarrow> Data_t \<Rightarrow> TensorDescriptor
   \<Rightarrow> Data_t \<Rightarrow> TensorDescriptor \<Rightarrow> Data_t \<Rightarrow> int \<Rightarrow> int option
   \<Rightarrow> miopenConvAlgoPerf_t list option \<Rightarrow> Data_t \<Rightarrow> size_t \<Rightarrow> bool \<Rightarrow> FindResult" where
  "FindConvBwdWeightsAlgorithm env c handle dyDesc dy xDesc x dwDesc dw requestAlgoCount
     returnedAlgoCount perfResults workSpace workSpaceSize exhaustiveSearch =
     (if x = None \<or> dw = None \<or> dy = None
      then (Inl (miopenStatusBadParm, ''Buffers cannot be NULL''), handle)
      else if returnedAlgoCount = None
      then (Inl (miopenStatusBadParm, ''returnedAlgoCount cannot be nullptr''), handle)
      else
        case perfResults of
          None \<Rightarrow> (Inl (miopenStatusBadParm, ''perfResults cannot be nullptr''), handle)
        | Some results \<Rightarrow>
            if requestAlgoCount < 1
            then (Inl (miopenStatusBadParm, ''requestAlgoCount cannot be < 1''), handle)
            else
              let find_config = mloBuildConf_Key (construct_params_for c 0 dyDesc xDesc dwDesc);
                  cached = (if requestAlgoCount = 1 then bwdWeights_map handle find_config else None)
              in
              (case cached of
                Some algo \<Rightarrow>
                  (Inr (1, results[0 := (results ! 0)\<lparr> perf_algo := algo \<rparr>]), handle)
              | None \<Rightarrow>
                  let (prev_state, h0) = AutoEnableProfiling handle;
                      (perf_db, h1) =
                        FindConvBwdWeights_perf_db env c h0 dyDesc xDesc dwDesc workSpace
                          workSpaceSize exhaustiveSearch
                  in
                  if perf_db = []
                  then (Inl (miopenStatusUnknownError,
                             ''Bwd Weights Convolution cannot be executed due to incorrect params''),
                        AutoEnableProfiling_exit prev_state h1)
                  else
                    let (cnt, results', best) =
                          rank_perf_db (BwdWeightsAlgoResolver env) perf_db requestAlgoCount
                            results;
                        h2 = h1\<lparr> bwdWeights_map := map_insert (bwdWeights_map h1) find_config best \<rparr>
                    in (Inr (cnt, results'), AutoEnableProfiling_exit prev_state h2)))"

section \<open>Execution dispatcher\<close>

datatype miopenConvFwdAlgorithm_t =
    miopenConvolutionFwdAlgoGEMM
  | miopenConvolutionFwdAlgoDirect
  | miopenConvolutionFwdAlgoFFT
  | miopenConvolutionFwdAlgoWinograd

datatype miopenConvBwdWeightsAlgorithm_t =
    miopenConvolutionBwdWeightsAlgoGEMM
  | miopenConvolutionBwdWeightsAlgoDirect

text \<open>
  The per-sample loops.  The loop state is \<open>(time_0, t1, handle)\<close>; \<open>is_last\<close> says that the
  sample is the last of the batch.  One sample runs either two kernels with the time of
  the first kept in \<open>t1\<close>, or the GEMM alone.
\<close>

definition sample_two_kernels ::
  "Env \<Rightarrow> device_op \<Rightarrow> device_op \<Rightarrow> bool \<Rightarrow> real \<times> real \<times> Handle \<Rightarrow> real \<times> real \<times> Handle" where
  "sample_two_kernels env op1 op2 is_last st =
     (let (time_0, t1, h) = st;
          h1 = run env op1 h;
          t1 = (if ProfilingEnabled h1 then KernelTime h1 else t1);
          h2 = run env op2 h1
      in if ProfilingEnabled h2
         then
           let h3 = (if is_last then AccumKernelTime (t1 + time_0) h2 else AccumKernelTime t1 h2)
           in (time_0 + KernelTime h3, t1, h3)
         else (time_0, t1, h2))"

definition sample_gemm_only ::
  "Env \<Rightarrow> bool \<Rightarrow> real \<times> real \<times> Handle \<Rightarrow> real \<times> real \<times> Handle" where
  "sample_gemm_only env is_last st =
     (let (time_0, t1, h) = st;
          h1 = run env RunGemm h
      in if ProfilingEnabled h1
         then
           let h2 = (if is_last then AccumKernelTime time_0 h1 else h1)
           in (time_0 + KernelTime h2, t1, h2)
         else (time_0, t1, h1))"

definition for_each_sample ::
  "int_t \<Rightarrow> (bool \<Rightarrow> real \<times> real \<times> Handle \<Rightarrow> real \<times> real \<times> Handle) \<Rightarrow> Handle \<Rightarrow> Handle" where
  "for_each_sample in_n body h =
     snd (snd (fold (\<lambda>i st. body (int i = sint in_n - 1) st) [0 ..< nat (sint in_n)] (0, 0, h)))"

text \<open>
  The workspace the caller hands over meets a requirement when it is not null and at
  least as large.  An \<open>assert\<close> on it is a branch that ends the call.
\<close>

definition workspace_meets :: "Data_t \<Rightarrow> size_t \<Rightarrow> size_t \<Rightarrow> bool" where
  "workspace_meets workSpace workSpaceSize required \<longleftrightarrow>
     workSpace \<noteq> None \<and> workSpaceSize \<ge> required"

type_synonym Outcome = "Exception option \<times> Handle"

definition ConvolutionForward_Direct ::
  "Env \<Rightarrow> ConvolutionDescriptor \<Rightarrow> Handle \<Rightarrow> TensorDescriptor \<Rightarrow> TensorDescriptor
   \<Rightarrow> TensorDescriptor \<Rightarrow> Outcome" where
  "ConvolutionForward_Direct env c handle xDesc wDesc yDesc =
     (let construct_params = construct_params_for c 1 yDesc xDesc wDesc;
          config = mloBuildConf_Key construct_params;
          algorithm = ''miopenConvolutionFwdAlgoDirect''
      in case GetKernel handle algorithm (config, []) of
           Inl e \<Rightarrow> (Some e, handle)
         | Inr kern \<Rightarrow>
             if kern \<noteq> ''MIOpenCvFwd11x11''
             then (None, run env (RunKernel kern) handle)
             else if FindSolution_11x11_passes env construct_params = 1
             then (None, run env (RunKernel kern) handle)
             else
               (case GetKernel handle (algorithm @ ''_pass2'') (config, ''x1'') of
                  Inl e \<Rightarrow> (Some e, handle)
                | Inr kernel2 \<Rightarrow>
                    let h1 = run env (RunKernel kern) (ResetKernelTime handle);
                        time0 = KernelTime h1;
                        h2 = run env (RunKernel kernel2) h1
                    in (None, AccumKernelTime time0 h2)))"

definition ConvolutionForward_Winograd ::
  "Env \<Rightarrow> ConvolutionDescriptor \<Rightarrow> Handle \<Rightarrow> TensorDescriptor \<Rightarrow> TensorDescriptor
   \<Rightarrow> TensorDescriptor \<Rightarrow> Outcome" where
  "ConvolutionForward_Winograd env c handle xDesc wDesc yDesc =
     (let config = mloBuildConf_Key (construct_params_for c 1 yDesc xDesc wDesc)
      in case GetKernel handle ''miopenConvolutionFwdAlgoWinograd'' (config, []) of
           Inl e \<Rightarrow> (Some e, handle)
         | Inr kern \<Rightarrow> (None, run env (RunKernel kern) handle))"

definition ConvolutionForward_GEMM ::
  "Env \<Rightarrow> ConvolutionDescriptor \<Rightarrow> Handle \<Rightarrow> TensorDescriptor \<Rightarrow> TensorDescriptor
   \<Rightarrow> TensorDescriptor \<Rightarrow> Data_t \<Rightarrow> size_t \<Rightarrow> Outcome" where
  "ConvolutionForward_GEMM env c handle xDesc wDesc yDesc workSpace workSpaceSize =
     (let (in_n, in_c, in_h, in_w) = tien4_int xDesc;
          (wei_n, w1, wei_h, wei_w) = tien4_int wDesc
      in
      if \<not> MIOPEN_USE_MIOPENGEMM env
      then (Some (miopenStatusUnknownError, ''GEMM is not supported''), handle)
      else if (wei_h = 1 \<and> wei_w = 1 \<and> pad_h c = 0 \<and> pad_w c = 0 \<and> dilation_h c = 1 \<and>
               dilation_w c = 1) \<and>
              ((in_h \<le>s 14 \<and> in_w \<le>s 14 \<and> u c = 1 \<and> v c = 1) \<or> (u c = 2 \<and> v c = 2))
      then
        if \<not> workspace_meets workSpace workSpaceSize
                (ForwardGetWorkSpaceSizeGEMMTranspose xDesc yDesc)
        then (Some assertion_failed, handle)
        else
          (case GetGemmGeometry handle ''miopenConvolutionFwdAlgoGEMM''
                  (network_config (CreateGemmGeometry ConvFwdCNHW xDesc wDesc yDesc False)) of
             Inl e \<Rightarrow> (Some e, handle)
           | Inr gg \<Rightarrow>
               let profiling = ProfilingEnabled handle;
                   h1 = run env transpose_NCHW2CNHW handle;
                   t1 = (if profiling then KernelTime h1 else 0);
                   h2 = run env RunGemm h1;
                   t1 = (if profiling then t1 + KernelTime h2 else t1);
                   h3 = run env transpose_CNHW2NCHW h2;
                   t1 = (if profiling then t1 + KernelTime h3 else t1)
               in (None, if profiling then AccumKernelTime t1 (ResetKernelTime h3) else h3))
      else if wei_h = 1 \<and> wei_w = 1 \<and> pad_h c = 0 \<and> pad_w c = 0 \<and> (u c = 1 \<and> v c = 1) \<and>
              dilation_w c = 1 \<and> dilation_h c = 1
      then
        (case GetGemmGeometry handle ''miopenConvolutionFwdAlgoGEMM''
                (network_config (CreateGemmGeometry ConvFwd xDesc wDesc yDesc False)) of
           Inl e \<Rightarrow> (Some e, handle)
         | Inr gg \<Rightarrow> (None, for_each_sample in_n (sample_gemm_only env) handle))
      else
        if \<not> workspace_meets workSpace workSpaceSize
                (ForwardGetWorkSpaceSizeGEMM c handle wDesc yDesc)
        then (Some assertion_failed, handle)
        else
          (case GetGemmGeometry handle ''miopenConvolutionFwdAlgoGEMM''
                  (network_config (CreateGemmGeometry ConvFwd xDesc wDesc yDesc False)) of
             Inl e \<Rightarrow> (Some e, handle)
           | Inr gg \<Rightarrow>
               (None,
                for_each_sample in_n
                  (\<lambda>is_last st. if wei_h \<noteq> 1 \<or> wei_w \<noteq> 1 \<or> v c \<noteq> 1 \<or> u c \<noteq> 1
                              then sample_two_kernels env Im2ColGPU RunGemm is_last st
                              else st)
                  handle)))"

definition ConvolutionForward_FFT ::
  "Env \<Rightarrow> ConvolutionDescriptor \<Rightarrow> Handle \<Rightarrow> TensorDescriptor \<Rightarrow> TensorDescriptor
   \<Rightarrow> TensorDescriptor \<Rightarrow> Data_t \<Rightarrow> size_t \<Rightarrow> Outcome" where
  "ConvolutionForward_FFT env c handle xDesc wDesc yDesc workSpace workSpaceSize =
     (let workspace_fft = ForwardGetWorkSpaceSizeFFT env c wDesc xDesc yDesc
      in
      if workSpace \<noteq> None \<and> workSpaceSize \<ge> workspace_fft
      then
        let timed = ProfilingEnabled handle;
            h1 = run env ExecuteFwdFFTKernel handle;
            timev = KernelTime h1
        in (None, if timed then AccumKernelTime timev (ResetKernelTime h1) else h1)
      else (None, handle))"

text \<open>
  The Transpose-mode branch of \<open>ConvolutionForward\<close>.  Unless the filter is 1 by 1 with
  unit stride, the workspace is asserted to meet the backward-data GEMM requirement.  The
  geometry is the one registered for backward data.  Each sample runs the GEMM, written
  to the workspace and followed by \<open>Col2ImGPU\<close> unless the filter is 1 by 1 with unit
  stride.
\<close>

definition ConvolutionForward_transpose_mode ::
  "Env \<Rightarrow> ConvolutionDescriptor \<Rightarrow> Handle \<Rightarrow> TensorDescriptor \<Rightarrow> TensorDescriptor
   \<Rightarrow> TensorDescriptor \<Rightarrow> Data_t \<Rightarrow> size_t \<Rightarrow> Outcome" where
  "ConvolutionForward_transpose_mode env c handle xDesc wDesc yDesc workSpace workSpaceSize =
     (let (in_n, in_c, in_h, in_w) = tien4_int xDesc;
          (w0, wei_n, wei_h, wei_w) = tien4_int wDesc
      in
      if (wei_h \<noteq> 1 \<or> wei_w \<noteq> 1 \<or> u c \<noteq> 1 \<or> v c \<noteq> 1) \<and>
         \<not> workspace_meets workSpace workSpaceSize
             (BackwardDataGetWorkSpaceSizeGEMM c handle wDesc xDesc)
      then (Some assertion_failed, handle)
      else if \<not> MIOPEN_USE_MIOPENGEMM env
      then (Some (miopenStatusUnknownError, ''GEMM is not supported''), handle)
      else
        (case GetGemmGeometry handle ''miopenConvolutionBwdDataAlgoGEMM''
                (network_config (CreateGemmGeometry ConvBwdData xDesc wDesc yDesc True)) of
           Inl e \<Rightarrow> (Some e, handle)
         | Inr gg \<Rightarrow>
             (None,
              for_each_sample in_n
                (\<lambda>is_last st. if wei_h \<noteq> 1 \<or> wei_w \<noteq> 1 \<or> v c \<noteq> 1 \<or> u c \<noteq> 1
                            then sample_two_kernels env RunGemm Col2ImGPU is_last st
                            else if wei_h = 1 \<and> wei_w = 1 \<and> v c = 1 \<and> u c = 1
                            then sample_gemm_only env is_last st
                            else st)
                handle)))"

definition numerics_input :: "Env \<Rightarrow> Handle \<Rightarrow> Handle" where
  "numerics_input env h =
     (if CheckNumericsEnabled env
      then construct checkNumericsInput (construct checkNumericsInput h)
      else h)"

definition numerics_output :: "Env \<Rightarrow> Outcome \<Rightarrow> Outcome" where
  "numerics_output env r =
     (case r of
        (Some e, h) \<Rightarrow> (Some e, h)
      | (None, h) \<Rightarrow> (None, if CheckNumericsEnabled env then construct checkNumericsOutput h else h))"

definition ConvolutionForward ::
  "Env \<Rightarrow> ConvolutionDescriptor \<Rightarrow> Handle \<Rightarrow> real \<Rightarrow> TensorDescriptor \<Rightarrow> Data_t
   \<Rightarrow> TensorDescriptor \<Rightarrow> Data_t \<Rightarrow> miopenConvFwdAlgorithm_t \<Rightarrow> real \<Rightarrow> TensorDescriptor
   \<Rightarrow> Data_t \<Rightarrow> Data_t \<Rightarrow> size_t \<Rightarrow> Outcome" where
  "ConvolutionForward env c handle alpha xDesc x wDesc w algo beta yDesc y workSpace workSpaceSize =
     (if x = None \<or> w = None \<or> y = None
      then (Some (miopenStatusBadParm, []), handle)
      else if GetSize xDesc \<noteq> GetSize yDesc \<or> GetSize xDesc \<noteq> GetSize wDesc
      then (Some (miopenStatusBadParm, []), handle)
      else if dtype xDesc \<noteq> dtype yDesc \<or> dtype xDesc \<noteq> dtype wDesc
      then (Some (miopenStatusBadParm, []), handle)
      else if GetSize xDesc < 3
      then (Some (miopenStatusBadParm, []), handle)
      else if alpha \<noteq> 1 \<or> beta \<noteq> 0
      then (Some (miopenStatusNotImplemented, ''Only alpha=1 and beta=0 is supported''), handle)
      else
        let h0 = numerics_input env handle
        in
        numerics_output env
          (case mode c of
             miopenConvolution \<Rightarrow>
               if lens xDesc ! 1 \<noteq> lens wDesc ! 1
               then (Some (miopenStatusBadParm, []), h0)
               else
                 (case algo of
                    miopenConvolutionFwdAlgoDirect \<Rightarrow>
                      ConvolutionForward_Direct env c h0 xDesc wDesc yDesc
                  | miopenConvolutionFwdAlgoWinograd \<Rightarrow>
                      ConvolutionForward_Winograd env c h0 xDesc wDesc yDesc
                  | miopenConvolutionFwdAlgoGEMM \<Rightarrow>
                      ConvolutionForward_GEMM env c h0 xDesc wDesc yDesc workSpace workSpaceSize
                  | miopenConvolutionFwdAlgoFFT \<Rightarrow>
                      ConvolutionForward_FFT env c h0 xDesc wDesc yDesc workSpace workSpaceSize)
           | miopenTranspose \<Rightarrow>
               if lens xDesc ! 1 \<noteq> lens wDesc ! 0
               then (Some (miopenStatusBadParm, []), h0)
               else ConvolutionForward_transpose_mode env c h0 xDesc wDesc yDesc
                      workSpace workSpaceSize))"

text \<open>
  \<open>ConvolutionBackwardWeights\<close>: the GEMM and the direct algorithm, and the Transpose
  mode.  The GEMM algorithm zeroes the output before it asserts on the workspace.  The
  direct algorithm reads the first of the registered kernels without a check; a call that
  finds none is reported as the lookup that finds nothing.  Its two two-kernel variants
  (sub-sampling first, or reduction second) assert on the workspace, run the first and
  then the second registered kernel, and differ in the arguments only.
\<close>

definition ConvolutionBackwardWeights_GEMM ::
  "Env \<Rightarrow> ConvolutionDescriptor \<Rightarrow> Handle \<Rightarrow> TensorDescriptor \<Rightarrow> TensorDescriptor
   \<Rightarrow> TensorDescriptor \<Rightarrow> Data_t \<Rightarrow> size_t \<Rightarrow> Outcome" where
  "ConvolutionBackwardWeights_GEMM env c handle dyDesc xDesc dwDesc workSpace workSpaceSize =
     (let (in_n, in_c, in_h, in_w) = tien4_int xDesc;
          (wei_n, w1, wei_h, wei_w) = tien4_int dwDesc
      in
      if \<not> MIOPEN_USE_MIOPENGEMM env
      then (Some (miopenStatusUnknownError, ''GEMM is not supported''), handle)
      else
        let h1 = run env SetTensor handle
        in
        if (wei_h \<noteq> 1 \<or> wei_w \<noteq> 1 \<or> v c \<noteq> 1 \<or> u c \<noteq> 1) \<and>
           \<not> workspace_meets workSpace workSpaceSize
               (BackwardWeightsGetWorkSpaceSizeGEMM c h1 dyDesc dwDesc)
        then (Some assertion_failed, h1)
        else
          (case GetGemmGeometry h1 ''miopenConvolutionBwdWeightsAlgoGEMM''
                  (network_config (CreateGemmGeometry ConvBwdWeights dyDesc xDesc dwDesc False)) of
             Inl e \<Rightarrow> (Some e, h1)
           | Inr gg \<Rightarrow>
               (None,
                for_each_sample in_n
                  (\<lambda>is_last st. if wei_h \<noteq> 1 \<or> wei_w \<noteq> 1 \<or> v c \<noteq> 1 \<or> u c \<noteq> 1
                              then sample_two_kernels env Im2ColGPU RunGemm is_last st
                              else if wei_h = 1 \<and> wei_w = 1 \<and> v c = 1 \<and> u c = 1
                              then sample_gemm_only env is_last st
                              else st)
                  (ResetKernelTime h1))))"

definition ConvolutionBackwardWeights_Direct ::
  "Env \<Rightarrow> ConvolutionDescriptor \<Rightarrow> Handle \<Rightarrow> TensorDescriptor \<Rightarrow> TensorDescriptor
   \<Rightarrow> TensorDescriptor \<Rightarrow> Data_t \<Rightarrow> size_t \<Rightarrow> Outcome" where
  "ConvolutionBackwardWeights_Direct env c handle dyDesc xDesc dwDesc workSpace workSpaceSize =
     (let (wei_n, w1, wei_h, wei_w) = tien4_int dwDesc
      in
      if wei_h \<le>s wei_w
      then
        let config = mloBuildConf_Key (construct_params_for c 0 dyDesc xDesc dwDesc);
            kernels = GetKernels handle ''miopenConvolutionBwdWeightsAlgoDirect_Main''
                        (config, []);
            num_kernels = length kernels
        in
        case kernels of
          [] \<Rightarrow> (Some (miopenStatusUnknownError, ''looking for default kernel (does not exist)''),
                 handle)
        | kern # rest \<Rightarrow>
            let h0 = ResetKernelTime handle
            in
            if kern = ''gcnAsmConv3x3WrW'' \<or> kern = ''gcnAsmConv1x1WrW''
            then (None, run env (RunKernel kern) h0)
            else if num_kernels = 1
            then (None, run env (RunKernel kern) h0)
            else if \<not> workspace_meets workSpace workSpaceSize
                       (BackwardWeightsGetWorkSpaceSizeDirect env c h0 dyDesc xDesc dwDesc)
            then (Some assertion_failed, h0)
            else
              let h1 = run env (RunKernel kern) h0;
                  time0 = KernelTime h1;
                  kernel2 = kernels ! 1;
                  h2 = run env (RunKernel kernel2) h1
              in (None, AccumKernelTime time0 h2)
      else (None, handle))"

text \<open>
  The Transpose-mode branch of \<open>ConvolutionBackwardWeights\<close>, which does not look at the
  algorithm identifier.
\<close>

definition ConvolutionBackwardWeights_transpose_mode ::
  "Env \<Rightarrow> ConvolutionDescriptor \<Rightarrow> Handle \<Rightarrow> TensorDescriptor \<Rightarrow> TensorDescriptor
   \<Rightarrow> TensorDescriptor \<Rightarrow> Data_t \<Rightarrow> size_t \<Rightarrow> Outcome" where
  "ConvolutionBackwardWeights_transpose_mode env c handle dyDesc xDesc dwDesc
     workSpace workSpaceSize =
     (let (in_n, in_c, in_h, in_w) = tien4_int xDesc;
          (w0, wei_n, wei_h, wei_w) = tien4_int dwDesc
      in
      if (wei_h \<noteq> 1 \<or> wei_w \<noteq> 1 \<or> v c \<noteq> 1 \<or> u c \<noteq> 1) \<and>
         \<not> workspace_meets workSpace workSpaceSize
             (BackwardWeightsGetWorkSpaceSizeGEMM c handle xDesc dwDesc)
      then (Some assertion_failed, handle)
      else if \<not> MIOPEN_USE_MIOPENGEMM env
      then (Some (miopenStatusUnknownError, ''GEMM is not supported''), handle)
      else
        (case GetGemmGeometry handle ''miopenConvolutionBwdWeightsAlgoGEMM''
                (network_config (CreateGemmGeometry ConvBwdWeights xDesc dyDesc dwDesc False)) of
           Inl e \<Rightarrow> (Some e, handle)
         | Inr gg \<Rightarrow>
             (None,
              for_each_sample in_n
                (\<lambda>is_last st. if wei_h \<noteq> 1 \<or> wei_w \<noteq> 1 \<or> v c \<noteq> 1 \<or> u c \<noteq> 1
                            then sample_two_kernels env Im2ColGPU RunGemm is_last st
                            else if wei_h = 1 \<and> wei_w = 1 \<and> v c = 1 \<and> u c = 1
                            then sample_gemm_only env is_last st
                            else st)
                (ResetKernelTime handle))))"

definition ConvolutionBackwardWeights ::
  "Env \<Rightarrow> ConvolutionDescriptor \<Rightarrow> Handle \<Rightarrow> real \<Rightarrow> TensorDescriptor \<Rightarrow> Data_t
   \<Rightarrow> TensorDescriptor \<Rightarrow> Data_t \<Rightarrow> miopenConvBwdWeightsAlgorithm_t \<Rightarrow> real \<Rightarrow> TensorDescriptor
   \<Rightarrow> Data_t \<Rightarrow> Data_t \<Rightarrow> size_t \<Rightarrow> Outcome" where
  "ConvolutionBackwardWeights env c handle alpha dyDesc dy xDesc x algo beta dwDesc dw
     workSpace workSpaceSize =
     (if x = None \<or> dw = None \<or> dy = None
      then (Some (miopenStatusBadParm, []), handle)
      else if GetSize dyDesc \<noteq> GetSize dwDesc \<or> GetSize dyDesc \<noteq> GetSize xDesc
      then (Some (miopenStatusBadParm, []), handle)
      else if dtype dyDesc \<noteq> dtype dwDesc \<or> dtype dyDesc \<noteq> dtype xDesc
      then (Some (miopenStatusBadParm, []), handle)
      else if lens dyDesc ! 0 \<noteq> lens xDesc ! 0
      then (Some (miopenStatusBadParm, []), handle)
      else if GetSize dyDesc < 3
      then (Some (miopenStatusBadParm, []), handle)
      else if alpha \<noteq> 1 \<or> beta \<noteq> 0
      then (Some (miopenStatusUnknownError, ''Only alpha=1 and beta=0 is supported''), handle)
      else
        let h0 = numerics_input env handle
        in
        numerics_output env
          (case mode c of
             miopenConvolution \<Rightarrow>
               (case algo of
                  miopenConvolutionBwdWeightsAlgoGEMM \<Rightarrow>
                    ConvolutionBackwardWeights_GEMM env c h0 dyDesc xDesc dwDesc
                      workSpace workSpaceSize
                | miopenConvolutionBwdWeightsAlgoDirect \<Rightarrow>
                    ConvolutionBackwardWeights_Direct env c h0 dyDesc xDesc dwDesc
                      workSpace workSpaceSize)
           | miopenTranspose \<Rightarrow>
               ConvolutionBackwardWeights_transpose_mode env c h0 dyDesc xDesc dwDesc
                 workSpace workSpaceSize))"

text \<open>A kernel execution, as opposed to a construction or a call of the numeric checker.\<close>

fun is_kernel_run :: "device_op \<Rightarrow> bool" where
  "is_kernel_run (AddKernel a) = False"
| "is_kernel_run GemmFindSolution = False"
| "is_kernel_run checkNumericsInput = False"
| "is_kernel_run checkNumericsOutput = False"
| "is_kernel_run op = True"

section \<open>Concrete devices for the examples\<close>

text \<open>
  A handle as it is right after its creation, and a build with the GEMM back end in which
  every solver construction fails and every kernel takes one unit of time.
\<close>

definition fresh_handle :: "string \<Rightarrow> Handle" where
  "fresh_handle dev =
     \<lparr> DeviceName = dev, MaxComputeUnits = 64,
       fwd_map = Map.empty, bwdData_map = Map.empty, bwdWeights_map = Map.empty,
       fwd_size_map = Map.empty, bwdData_size_map = Map.empty, bwdWeights_size_map = Map.empty,
       ProfilingEnabled = False, KernelTime = 0, kernel_cache = Map.empty,
       geo_map = Map.empty, device_log = [] \<rparr>"

definition gemm_only_env :: Env where
  "gemm_only_env =
     \<lparr> MIOPEN_USE_MIOPENGEMM = True,
       MIOPEN_DEBUG_CONV_DIRECT_disabled = False,
       MIOPEN_DEBUG_AMD_ROCM_PRECOMPILED_BINARIES_disabled = False,
       CheckNumericsEnabled = False,
       mloConstruct_winograd = (\<lambda>p. None),
       mloConstruct_direct2D = (\<lambda>p. None),
       mloConstruct_BwdWrW2D = (\<lambda>p. None),
       mloIsFastBinaryWinograd3x3U = (\<lambda>p. False),
       FindAllSolutions = (\<lambda>p. None),
       FindAllSolutions_BwdWrW2D = (\<lambda>p. None),
       FindSolution_11x11_passes = (\<lambda>p. 1),
       ForwardGetWorkSpaceSizeFFT = (\<lambda>c w x y. 0),
       BackwardGetWorkSpaceSizeFFT = (\<lambda>c w dy dx. 0),
       FindFwdFFTKernel = (\<lambda>x w y. - 1),
       FindBwdFFTKernel = (\<lambda>dy w dx. - 1),
       FwdAlgoResolver = (\<lambda>s. if s = ''miopenConvolutionFwdAlgoGEMM'' then 0
                               else if s = ''miopenConvolutionFwdAlgoDirect'' then 1
                               else if s = ''miopenConvolutionFwdAlgoFFT'' then 2 else 3),
       BwdDataAlgoResolver = (\<lambda>s. if s = ''miopenConvolutionBwdDataAlgoGEMM'' then 0
                               else if s = ''miopenConvolutionBwdDataAlgoDirect'' then 1
                               else if s = ''miopenConvolutionBwdDataAlgoFFT'' then 2
                               else if s = ''miopenConvolutionBwdDataAlgoWinograd'' then 3 else 4),
       BwdWeightsAlgoResolver = (\<lambda>s. if s = ''miopenConvolutionBwdWeightsAlgoGEMM'' then 0 else 1),
       elapsed = (\<lambda>n. 1) \<rparr>"

text \<open>
  The problems of the examples: the unit convolution (no padding, stride 1, dilation 1) in
  both modes, single-channel images of 16 by 16, 2 by 2, 4 by 4 and 2 by 3, a 1 by 1
  filter, a 3 by 3 filter and a filter of height 3 and width 2, all of 32-bit floats; and
  the values a caller left in an entry of the result array.
\<close>

definition unit_conv :: "miopenConvolutionMode_t \<Rightarrow> ConvolutionDescriptor" where
  "unit_conv m =
     \<lparr> mode = m, paddingMode = miopenPaddingDefault,
       pad_h = 0, pad_w = 0, u = 1, v = 1, dilation_h = 1, dilation_w = 1 \<rparr>"

definition image_16x16 :: TensorDescriptor where
  "image_16x16 = \<lparr> dtype = miopenFloat, lens = [1, 1, 16, 16] \<rparr>"

definition image_2x2 :: TensorDescriptor where
  "image_2x2 = \<lparr> dtype = miopenFloat, lens = [1, 1, 2, 2] \<rparr>"

definition image_4x4 :: TensorDescriptor where
  "image_4x4 = \<lparr> dtype = miopenFloat, lens = [1, 1, 4, 4] \<rparr>"

definition image_2x3 :: TensorDescriptor where
  "image_2x3 = \<lparr> dtype = miopenFloat, lens = [1, 1, 2, 3] \<rparr>"

definition filter_1x1 :: TensorDescriptor where
  "filter_1x1 = \<lparr> dtype = miopenFloat, lens = [1, 1, 1, 1] \<rparr>"

definition filter_3x3 :: TensorDescriptor where
  "filter_3x3 = \<lparr> dtype = miopenFloat, lens = [1, 1, 3, 3] \<rparr>"

definition filter_3x2 :: TensorDescriptor where
  "filter_3x2 = \<lparr> dtype = miopenFloat, lens = [1, 1, 3, 2] \<rparr>"

definition stale_perf :: miopenConvAlgoPerf_t where
  "stale_perf = \<lparr> perf_algo = 7, perf_time = 42, perf_memory = 99 \<rparr>"

text \<open>
  The handle after a first forward search for one result: the unit convolution of the
  16 by 16 image with the 1 by 1 filter, on a fresh handle.
\<close>

definition handle_after_first_search :: Handle where
  "handle_after_first_search =
     snd (FindConvFwdAlgorithm gemm_only_env (unit_conv miopenConvolution)
            (fresh_handle ''gfx900'')
            image_16x16 (Some 0) filter_1x1 (Some 1) image_16x16 (Some 2)
            1 (Some 0) (Some [stale_perf, stale_perf]) None 0 False)"

text \<open>
  The frame of a cache hit on the caller's array: the first entry carries the cached
  identifier, and time and memory of every entry, and every entry but the first, are as
  they were.
\<close>

definition only_first_algo_written ::
  "int \<Rightarrow> miopenConvAlgoPerf_t list \<Rightarrow> miopenConvAlgoPerf_t list \<Rightarrow> bool" where
  "only_first_algo_written algo results results' \<longleftrightarrow>
     length results' = length results \<and>
     perf_algo (results' ! 0) = algo \<and>
     (\<forall>i < length results.
        perf_time (results' ! i) = perf_time (results ! i) \<and>
        perf_memory (results' ! i) = perf_memory (results ! i) \<and>
        (0 < i \<longrightarrow> results' ! i = results ! i))"

text \<open>
  What a search that benchmarks leaves behind and returns: the device log, the registered
  kernels and the registered geometries after the call are those after the benchmarks of
  the candidates; the call fails when there is no candidate, and otherwise returns the
  count and the array that rank the candidates.
\<close>

definition reports_benchmark ::
  "(string \<Rightarrow> int) \<Rightarrow> int \<Rightarrow> miopenConvAlgoPerf_t list \<Rightarrow> PerfField list \<times> Handle
   \<Rightarrow> FindResult \<Rightarrow> bool" where
  "reports_benchmark resolver requestAlgoCount results bench r \<longleftrightarrow>
     (case bench of
        (perf_db, h1) \<Rightarrow>
          device_log (snd r) = device_log h1 \<and>
          kernel_cache (snd r) = kernel_cache h1 \<and>
          geo_map (snd r) = geo_map h1 \<and>
          (if perf_db = [] then isl (fst r)
           else fst r = Inr (fst (rank_perf_db resolver perf_db requestAlgoCount results),
                             fst (snd (rank_perf_db resolver perf_db requestAlgoCount results)))))"




text \<open>
  The handle after a forward search in Transpose mode: the 2 by 2 image, the 3 by 3
  filter and the 4 by 4 output, with a workspace of 1024 bytes, on a fresh handle.
\<close>

definition handle_after_transpose_search :: Handle where
  "handle_after_transpose_search =
     snd (FindConvFwdAlgorithm gemm_only_env (unit_conv miopenTranspose)
            (fresh_handle ''gfx900'')
            image_2x2 (Some 0) filter_3x3 (Some 1) image_4x4 (Some 2)
            1 (Some 0) (Some [stale_perf]) (Some 3) 1024 False)"

text \<open>
  For backward weights: a build in which the solver for backward weights constructs one
  kernel; a handle on which a kernel of the direct algorithm is registered for a problem
  of the unit convolution; the 2 by 2 image; and the handle after a backward-weights
  search in Transpose mode, for the 2 by 3 image, the filter of height 3 and width 2 and
  the 4 by 4 output gradient, with a workspace of 1024 bytes, on a fresh handle.
\<close>

definition wrw_env :: Env where
  "wrw_env = gemm_only_env \<lparr> mloConstruct_BwdWrW2D := (\<lambda>p. Some [''MIOpenCvBwdWrW'']) \<rparr>"

definition handle_with_direct_kernel ::
  "TensorDescriptor \<Rightarrow> TensorDescriptor \<Rightarrow> TensorDescriptor \<Rightarrow> Handle" where
  "handle_with_direct_kernel dyDesc xDesc dwDesc =
     handle_AddKernel ''miopenConvolutionBwdWeightsAlgoDirect_Main''
       (mloBuildConf_Key (construct_params_for (unit_conv miopenConvolution) 0 dyDesc xDesc dwDesc),
        [])
       ''MIOpenCvBwdWrW'' 0 (fresh_handle ''gfx900'')"

definition handle_after_transpose_weights_search :: Handle where
  "handle_after_transpose_weights_search =
     snd (FindConvBwdWeightsAlgorithm gemm_only_env (unit_conv miopenTranspose)
            (fresh_handle ''gfx900'')
            image_4x4 (Some 0) image_2x3 (Some 1) filter_3x2 (Some 2)
            1 (Some 0) (Some [stale_perf]) (Some 3) 1024 False)"

section \<open>Machine integers: the value of a signed result\<close>

lemmas signed_defs =
  word_sless_alt word_sle_eq signed_max_def signed_div_def signed_rem_def
  signed_divide_int_def signed_modulo_int_def

lemma sint_word_of_int_64:
  "- (2 ^ 63) \<le> i \<Longrightarrow> i < 2 ^ 63 \<Longrightarrow> sint (word_of_int i :: 64 word) = i"
  by (simp add: sint_sbintrunc' signed_take_bit_int_eq_self)

lemma sint_word_of_int_32:
  "- (2 ^ 31) \<le> i \<Longrightarrow> i < 2 ^ 31 \<Longrightarrow> sint (word_of_int i :: 32 word) = i"
  by (simp add: sint_sbintrunc' signed_take_bit_int_eq_self)

lemma sint_scast_int: "sint (scast (x :: int_t) :: 64 word) = sint x"
  by (simp add: sint_up_scast is_up)

lemma sint_int_less: "sint (x :: int_t) < 2 ^ 31"
  using sint_less [of x] by simp

text \<open>The product \<open>2 * pad\<close> at \<open>int\<close> is twice the padding when the padding is below 2^30.\<close>

lemma double_pad:
  assumes "0 \<le> sint (p :: int_t)" "sint p < 2 ^ 30"
  shows "(scast (2 * p) :: 64 word) = word_of_int (2 * sint p)"
proof -
  have "2 * p = (word_of_int (2 * sint p) :: int_t)"
    by simp
  moreover have "sint (word_of_int (2 * sint p) :: int_t) = 2 * sint p"
    using assms by (intro sint_word_of_int_32) simp_all
  ultimately have "sint (2 * p) = 2 * sint p"
    by simp
  then show ?thesis
    by (simp only: scast_eq)
qed

text \<open>Truncating and flooring division agree under the clamp, and a quotient is no
  larger than its dividend.\<close>

lemma sdiv_clamp_eq_div_clamp:
  fixes a b :: int
  assumes "0 < b"
  shows "max 1 (a sdiv b + 1) = max 1 (a div b + 1)"
proof (cases "0 \<le> a")
  case True
  with assms have "a sdiv b = a div b"
    by (simp add: signed_divide_int_def sgn_if)
  then show ?thesis by simp
next
  case False
  with assms have "a sdiv b \<le> 0"
    by (simp add: signed_divide_int_def sgn_if pos_imp_zdiv_nonneg_iff)
  moreover from False assms have "a div b < 0"
    by (simp add: div_neg_pos_less0)
  ultimately show ?thesis by simp
qed

lemma sdiv_bounds:
  fixes a b :: int
  assumes "0 < b"
  shows "min a 0 \<le> a sdiv b" and "a sdiv b \<le> max a 0"
proof -
  consider "0 < a" | "a = 0" | "a < 0" by linarith
  then have "min a 0 \<le> a sdiv b \<and> a sdiv b \<le> max a 0"
  proof cases
    case 1
    then have "a sdiv b = a div b"
      using assms by (simp add: signed_divide_int_def sgn_if)
    moreover have "0 \<le> a div b"
      using 1 assms by (simp add: pos_imp_zdiv_nonneg_iff)
    moreover have "a div b \<le> a"
      using 1 by (rule int_div_le_self)
    ultimately show ?thesis by simp
  next
    case 2
    then show ?thesis by (simp add: signed_divide_int_def)
  next
    case 3
    then have "a sdiv b = - ((- a) div b)"
      using assms by (simp add: signed_divide_int_def sgn_if)
    moreover have "0 \<le> (- a) div b"
      using 3 assms by (simp add: pos_imp_zdiv_nonneg_iff)
    moreover have "(- a) div b \<le> - a"
      using 3 by (intro int_div_le_self) simp
    ultimately show ?thesis by simp
  qed
  then show "min a 0 \<le> a sdiv b" and "a sdiv b \<le> max a 0"
    by simp_all
qed

text \<open>With extents that fit an \<open>int\<close> and a padding below 2^30, the forward formula stays
  inside \<open>ptrdiff_t\<close>.\<close>

lemma forward_extent_in_range:
  fixes H R D P S :: int
  assumes "0 \<le> H" "H < 2 ^ 31" "0 \<le> R" "R < 2 ^ 31"
    and "0 < D" "D < 2 ^ 31" "0 \<le> P" "P < 2 ^ 30" "0 < S"
  defines "e \<equiv> H - (1 + D * (R - 1)) + 2 * P"
  shows "- (2 ^ 63) \<le> e" "e < 2 ^ 63"
    and "- (2 ^ 63) \<le> e sdiv S + 1" "e sdiv S + 1 < 2 ^ 63"
proof -
  have cases_R: "R = 0 \<or> 0 \<le> R - 1"
    using assms(3) by arith
  from cases_R have prod_lo: "- D \<le> D * (R - 1)"
  proof
    assume "R = 0" then show ?thesis by simp
  next
    assume "0 \<le> R - 1"
    then have "0 \<le> D * (R - 1)" using assms(5) by simp
    then show ?thesis using assms(5) by linarith
  qed
  from cases_R have prod_hi: "D * (R - 1) \<le> 2 ^ 31 * 2 ^ 31"
  proof
    assume "R = 0" then show ?thesis using assms(5) by simp
  next
    assume "0 \<le> R - 1"
    then show ?thesis
      using assms(4,5,6) by (intro mult_mono) simp_all
  qed
  have e_lo: "- (2 ^ 62) - 2 \<le> e"
    using prod_hi assms(1,7) unfolding e_def by simp
  have e_hi: "e < 2 ^ 33"
    using prod_lo assms(2,6,8) unfolding e_def by simp
  show "- (2 ^ 63) \<le> e" "e < 2 ^ 63"
    using e_lo e_hi by simp_all
  show "- (2 ^ 63) \<le> e sdiv S + 1" "e sdiv S + 1 < 2 ^ 63"
    using sdiv_bounds [OF assms(9), of e] e_lo e_hi by simp_all
qed

lemma forward_extent:
  fixes h r :: "64 word" and d p s :: int_t
  assumes "uint h < 2 ^ 31" "uint r < 2 ^ 31"
    and "0 < sint d" "0 \<le> sint p" "sint p < 2 ^ 30" "0 < sint s"
  shows "signed_max 1 (signed_div (h - (1 + scast d * (r - 1)) + scast (2 * p)) (scast s) + 1)
         = size_t_of (max 1 ((uint h - (1 + sint d * (uint r - 1)) + 2 * sint p) div sint s + 1))"
proof -
  let ?e = "uint h - (1 + sint d * (uint r - 1)) + 2 * sint p"
  note rng = forward_extent_in_range
    [OF uint_ge_0 assms(1) uint_ge_0 assms(2) assms(3) sint_int_less assms(4,5,6)]
  have E0: "(word_of_int ?e :: 64 word)
            = h - (1 + scast d * (r - 1)) + word_of_int (2 * sint p)"
    by simp
  have E: "h - (1 + scast d * (r - 1)) + scast (2 * p) = (word_of_int ?e :: 64 word)"
    by (simp only: E0 double_pad [OF assms(4,5)])
  have sE: "sint (word_of_int ?e :: 64 word) = ?e"
    using rng(1,2) by (rule sint_word_of_int_64)
  have sQ: "sint (word_of_int (?e sdiv sint s) + 1 :: 64 word) = ?e sdiv sint s + 1"
  proof -
    have "(word_of_int (?e sdiv sint s) + 1 :: 64 word) = word_of_int (?e sdiv sint s + 1)"
      by simp
    moreover have "sint (word_of_int (?e sdiv sint s + 1) :: 64 word) = ?e sdiv sint s + 1"
      using rng(3,4) by (rule sint_word_of_int_64)
    ultimately show ?thesis by simp
  qed
  have "signed_max 1 (signed_div (h - (1 + scast d * (r - 1)) + scast (2 * p)) (scast s) + 1)
        = (word_of_int (max 1 (?e sdiv sint s + 1)) :: 64 word)"
    unfolding E signed_div_def sE sint_scast_int signed_max_def word_sless_alt sQ
    by (simp add: max_def)
  then show ?thesis
    using assms(6) by (simp add: size_t_of_def sdiv_clamp_eq_div_clamp)
qed

lemma ConvolutionDescriptor_mode_valid:
  assumes "ConvolutionDescriptor_mode m pm p_h p_w s_h s_w d_h d_w = Inr c"
  shows "c = \<lparr> mode = m, paddingMode = pm, pad_h = p_h, pad_w = p_w, u = s_h, v = s_w,
               dilation_h = d_h, dilation_w = d_w \<rparr>"
    and "0 \<le> sint p_h" "0 \<le> sint p_w" "0 < sint s_h" "0 < sint s_w"
    and "0 < sint d_h" "0 < sint d_w"
  using assms
  by (auto simp: ConvolutionDescriptor_mode_def invalid_params_def word_sless_alt word_sle_eq
           split: if_splits)

section \<open>Shape calculator: forward output dimensions\<close>

lemma GetForwardOutputDim_convolution_extents:
  assumes "ConvolutionDescriptor_mode miopenConvolution miopenPaddingDefault p_h p_w s_h s_w d_h d_w = Inr c"
    and "lens x = [n, ch, h, w]" and "lens f = [k, ch, r, s]"
    and "dtype x = dtype f"
    and "uint h < 2 ^ 31" and "uint w < 2 ^ 31" and "uint r < 2 ^ 31" and "uint s < 2 ^ 31"
    and "sint p_h < 2 ^ 30" and "sint p_w < 2 ^ 30"
  shows "GetForwardOutputDim c x f =
           Inr (n, k,
                size_t_of (max 1 ((uint h - (1 + sint d_h * (uint r - 1)) + 2 * sint p_h) div sint s_h + 1)),
                size_t_of (max 1 ((uint w - (1 + sint d_w * (uint s - 1)) + 2 * sint p_w) div sint s_w + 1)))"
proof -
  note valid = ConvolutionDescriptor_mode_valid [OF assms(1)]
  have eh: "signed_max 1 (signed_div (h - (1 + scast d_h * (r - 1)) + scast (2 * p_h)) (scast s_h) + 1)
      = size_t_of (max 1 ((uint h - (1 + sint d_h * (uint r - 1)) + 2 * sint p_h) div sint s_h + 1))"
    using assms(5,7) valid(6,2) assms(9) valid(4) by (rule forward_extent)
  have ew: "signed_max 1 (signed_div (w - (1 + scast d_w * (s - 1)) + scast (2 * p_w)) (scast s_w) + 1)
      = size_t_of (max 1 ((uint w - (1 + sint d_w * (uint s - 1)) + 2 * sint p_w) div sint s_w + 1))"
    using assms(6,8) valid(7,3) assms(10) valid(5) by (rule forward_extent)
  show ?thesis
    using assms(2-4)
    by (simp add: GetForwardOutputDim_def tien4_def valid(1) eh ew)
qed

text \<open>
  Claim C1.  In Convolution mode with Default padding, for rank-4 input and filter
  descriptors of the same element type and the same channel count, the forward output
  shape has the input's batch, the filter's output-channel count, and in each spatial axis
  \<open>floor((in - (1 + dilation * (k - 1)) + 2 * pad) / stride) + 1\<close> clamped to at least 1
  (\<open>div\<close> is the floor quotient).  For a 224 by 224 input, an 11 by 11 filter, stride 4,
  no padding and unit dilation both spatial extents are 54.  The spatial extents of the
  input and of the filter fit an \<open>int\<close> (they are below 2^31) and the padding is below
  2^30: in this range no signed operation of the source overflows.
\<close>

theorem GetForwardOutputDim_convolution_default:
  assumes "ConvolutionDescriptor_mode miopenConvolution miopenPaddingDefault p_h p_w s_h s_w d_h d_w = Inr c"
    and "lens x = [n, ch, h, w]" and "lens f = [k, ch, r, s]"
    and "dtype x = dtype f"
    and "uint h < 2 ^ 31" and "uint w < 2 ^ 31" and "uint r < 2 ^ 31" and "uint s < 2 ^ 31"
    and "sint p_h < 2 ^ 30" and "sint p_w < 2 ^ 30"
  shows "GetForwardOutputDim c x f =
           Inr (n, k,
                size_t_of (max 1 ((uint h - (1 + sint d_h * (uint r - 1)) + 2 * sint p_h) div sint s_h + 1)),
                size_t_of (max 1 ((uint w - (1 + sint d_w * (uint s - 1)) + 2 * sint p_w) div sint s_w + 1)))
         \<and> (h = 224 \<and> w = 224 \<and> r = 11 \<and> s = 11 \<and> s_h = 4 \<and> s_w = 4 \<and> p_h = 0 \<and> p_w = 0
              \<and> d_h = 1 \<and> d_w = 1
            \<longrightarrow> GetForwardOutputDim c x f = Inr (n, k, 54, 54))"
proof -
  note general = GetForwardOutputDim_convolution_extents [OF assms]
  moreover have "size_t_of (max 1 ((uint (224 :: size_t) - (1 + sint (1 :: int_t) * (uint (11 :: size_t) - 1))
                   + 2 * sint (0 :: int_t)) div sint (4 :: int_t) + 1)) = 54"
    by (simp add: size_t_of_def)
  ultimately show ?thesis by auto
qed

theorem GetForwardOutputDim_convolution_default_witness:
  "GetForwardOutputDim
     \<lparr> mode = miopenConvolution, paddingMode = miopenPaddingDefault,
       pad_h = 0, pad_w = 0, u = 4, v = 4, dilation_h = 1, dilation_w = 1 \<rparr>
     \<lparr> dtype = miopenFloat, lens = [1, 3, 224, 224] \<rparr>
     \<lparr> dtype = miopenFloat, lens = [96, 3, 11, 11] \<rparr>
   = Inr (1, 96, 54, 54)"
proof -
  have ctor: "ConvolutionDescriptor_mode miopenConvolution miopenPaddingDefault 0 0 4 4 1 1 =
      Inr \<lparr> mode = miopenConvolution, paddingMode = miopenPaddingDefault,
            pad_h = 0, pad_w = 0, u = 4, v = 4, dilation_h = 1, dilation_w = 1 \<rparr>"
    by (simp add: ConvolutionDescriptor_mode_def invalid_params_def word_sless_alt word_sle_eq)
  have rng: "uint (224 :: size_t) < 2 ^ 31" "uint (11 :: size_t) < 2 ^ 31"
    "sint (0 :: int_t) < 2 ^ 30"
    by simp_all
  show ?thesis
    using GetForwardOutputDim_convolution_default
      [OF ctor, where x = "\<lparr> dtype = miopenFloat, lens = [1, 3, 224, 224] \<rparr>"
         and n = 1 and ch = 3 and h = 224 and w = 224
         and f = "\<lparr> dtype = miopenFloat, lens = [96, 3, 11, 11] \<rparr>" and k = 96 and r = 11 and s = 11,
       OF _ _ _ rng(1) rng(1) rng(2) rng(2) rng(3) rng(3)]
    by (simp add: size_t_of_def)
qed

section \<open>Shape calculator: the round trip\<close>

text \<open>
  Claim C2, as stated, at an input where it fails.  Convolution mode, Default padding,
  stride 1, dilation 1, no padding; a 2 by 2 input and a 5 by 5 filter of the same type and
  channel count.  The forward extent is clamped to 1 by 1, and the backward output
  computed from it is 5 by 5, not 2 by 2.
\<close>

theorem round_trip_counterexample:
  "forward_then_backward
     \<lparr> mode = miopenConvolution, paddingMode = miopenPaddingDefault,
       pad_h = 0, pad_w = 0, u = 1, v = 1, dilation_h = 1, dilation_w = 1 \<rparr>
     \<lparr> dtype = miopenFloat, lens = [1, 1, 2, 2] \<rparr>
     \<lparr> dtype = miopenFloat, lens = [1, 1, 5, 5] \<rparr> = Inr (1, 1, 5, 5)
   \<and> forward_then_backward
     \<lparr> mode = miopenConvolution, paddingMode = miopenPaddingDefault,
       pad_h = 0, pad_w = 0, u = 1, v = 1, dilation_h = 1, dilation_w = 1 \<rparr>
     \<lparr> dtype = miopenFloat, lens = [1, 1, 2, 2] \<rparr>
     \<lparr> dtype = miopenFloat, lens = [1, 1, 5, 5] \<rparr> \<noteq> Inr (1, 1, 2, 2)"
  by (simp add: forward_then_backward_def GetForwardOutputTensor_def GetForwardOutputDim_def
       GetBackwardOutputDim_def tien4_def signed_defs)

lemma backward_of_unclamped_forward:
  fixes a b :: size_t and p :: int_t
  assumes "0 \<le> sint p" "sint p < 2 ^ 30"
  shows "scast (1 :: int_t) * (size_t_of (uint a - uint b + 2 * sint p + 1) - 1) - scast (2 * p) + b = a"
  unfolding double_pad [OF assms] by (simp add: size_t_of_def)

text \<open>
  Claim C2, amended.  In Convolution mode with Default padding, stride 1 and dilation 1,
  for rank-4 input and filter descriptors of the same element type and channel count whose
  filter is no larger than the padded input in either axis (\<open>k \<le> in + 2 * pad\<close>),
  \<open>GetBackwardOutputDim\<close> applied to the forward output tensor and the same filter gives
  back the input's height and width (and its batch and channel count).  The spatial
  extents fit an \<open>int\<close> and the padding is below 2^30, so that no signed operation of the
  source overflows.
\<close>

theorem round_trip_when_filter_fits:
  assumes "ConvolutionDescriptor_mode miopenConvolution miopenPaddingDefault p_h p_w 1 1 1 1 = Inr c"
    and "lens x = [n, ch, h, w]" and "lens f = [k, ch, r, s]"
    and "dtype x = dtype f"
    and "uint h < 2 ^ 31" and "uint w < 2 ^ 31" and "uint r < 2 ^ 31" and "uint s < 2 ^ 31"
    and "sint p_h < 2 ^ 30" and "sint p_w < 2 ^ 30"
    and "uint r \<le> uint h + 2 * sint p_h" and "uint s \<le> uint w + 2 * sint p_w"
  shows "forward_then_backward c x f = Inr (n, ch, h, w)"
proof -
  note valid = ConvolutionDescriptor_mode_valid [OF assms(1)]
  have fwd0: "GetForwardOutputDim c x f =
     Inr (n, k,
          size_t_of (max 1 ((uint h - (1 + sint (1 :: int_t) * (uint r - 1)) + 2 * sint p_h)
                              div sint (1 :: int_t) + 1)),
          size_t_of (max 1 ((uint w - (1 + sint (1 :: int_t) * (uint s - 1)) + 2 * sint p_w)
                              div sint (1 :: int_t) + 1)))"
    by (rule GetForwardOutputDim_convolution_extents [OF assms(1-10)])
  have fwd: "GetForwardOutputDim c x f =
     Inr (n, k, size_t_of (uint h - uint r + 2 * sint p_h + 1),
                size_t_of (uint w - uint s + 2 * sint p_w + 1))"
    unfolding fwd0 using assms(11,12) by (simp add: max_def)
  have flds: "u c = 1" "v c = 1" "pad_h c = p_h" "pad_w c = p_w"
    by (simp_all add: valid(1))
  show ?thesis
    using assms(2-4)
      backward_of_unclamped_forward [OF valid(2) assms(9), of h r]
      backward_of_unclamped_forward [OF valid(3) assms(10), of w s]
    by (simp add: forward_then_backward_def GetForwardOutputTensor_def GetBackwardOutputDim_def
                  tien4_def fwd flds)
qed

theorem round_trip_when_filter_fits_witness:
  "forward_then_backward
     \<lparr> mode = miopenConvolution, paddingMode = miopenPaddingDefault,
       pad_h = 1, pad_w = 1, u = 1, v = 1, dilation_h = 1, dilation_w = 1 \<rparr>
     \<lparr> dtype = miopenFloat, lens = [1, 3, 32, 32] \<rparr>
     \<lparr> dtype = miopenFloat, lens = [8, 3, 3, 3] \<rparr> = Inr (1, 3, 32, 32)"
proof -
  have ctor: "ConvolutionDescriptor_mode miopenConvolution miopenPaddingDefault 1 1 1 1 1 1 =
      Inr \<lparr> mode = miopenConvolution, paddingMode = miopenPaddingDefault,
            pad_h = 1, pad_w = 1, u = 1, v = 1, dilation_h = 1, dilation_w = 1 \<rparr>"
    by (simp add: ConvolutionDescriptor_mode_def invalid_params_def word_sless_alt word_sle_eq)
  have rng: "uint (32 :: size_t) < 2 ^ 31" "uint (3 :: size_t) < 2 ^ 31"
    "sint (1 :: int_t) < 2 ^ 30"
    "uint (3 :: size_t) \<le> uint (32 :: size_t) + 2 * sint (1 :: int_t)"
    by simp_all
  show ?thesis
    using round_trip_when_filter_fits
      [OF ctor, where x = "\<lparr> dtype = miopenFloat, lens = [1, 3, 32, 32] \<rparr>"
         and n = 1 and ch = 3 and h = 32 and w = 32
         and f = "\<lparr> dtype = miopenFloat, lens = [8, 3, 3, 3] \<rparr>" and k = 8 and r = 3 and s = 3,
       OF _ _ _ rng(1) rng(1) rng(2) rng(2) rng(3) rng(3) rng(4) rng(4)]
    by simp
qed

section \<open>Workspace planner: the GEMM sizes of a 1 by 1 filter\<close>

lemma GEMM_workspace_1x1_forward_backward_data:
  assumes "int_of (lens wDesc ! 2) = 1" and "int_of (lens wDesc ! 3) = 1"
    and "u c = 1" and "v c = 1" and "pad_h c = 0" and "pad_w c = 0"
  shows "ForwardGetWorkSpaceSizeGEMM c h wDesc yDesc = 0"
    and "BackwardDataGetWorkSpaceSizeGEMM c h wDesc dyDesc = 0"
  using assms
  by (simp_all add: ForwardGetWorkSpaceSizeGEMM_def BackwardDataGetWorkSpaceSizeGEMM_def
                    tien4_int_def)

text \<open>
  Claim C6 at an input where the code departs from it.  A 1 by 1 filter, stride 1, zero
  padding, a 2 by 2 output gradient of 32-bit floats: the forward and the backward-data
  GEMM sizes are 0 by the lemma above, and the backward-weights GEMM size is 16 bytes,
  because \<open>BackwardWeightsGetWorkSpaceSizeGEMM\<close> has no branch for the 1 by 1 filter.
\<close>

theorem BackwardWeightsGetWorkSpaceSizeGEMM_1x1_nonzero:
  "BackwardWeightsGetWorkSpaceSizeGEMM
     \<lparr> mode = miopenConvolution, paddingMode = miopenPaddingDefault,
       pad_h = 0, pad_w = 0, u = 1, v = 1, dilation_h = 1, dilation_w = 1 \<rparr>
     (fresh_handle ''gfx900'')
     \<lparr> dtype = miopenFloat, lens = [1, 1, 2, 2] \<rparr>
     \<lparr> dtype = miopenFloat, lens = [1, 1, 1, 1] \<rparr> = 16"
  by (simp add: BackwardWeightsGetWorkSpaceSizeGEMM_def tien4_int_def fresh_handle_def
                GetTypeSize_def int_of_def)

section \<open>Workspace planner: the cache of the forward query\<close>

lemma ForwardGetWorkSpaceSize_second_call:
  assumes "ForwardGetWorkSpaceSize env c1 h wDesc xDesc yDesc = (r1, h1)"
  shows "ForwardGetWorkSpaceSize env c2 h1 wDesc xDesc yDesc = (r1, h1)"
  using assms
  by (auto simp: ForwardGetWorkSpaceSize_def Let_def map_insert_def split: option.splits)

text \<open>
  Claim C5 at an input where the code departs from it.  Two problems in Transpose mode
  with the same three all-ones descriptors, the first with stride 1 and the second with
  stride 2.  The forward query never passes the ConvParams to the object that builds its
  key.  On a fresh handle the first problem's size is 0 and is cached; the second problem
  then hits that entry and is answered 0, while its own size, computed on a fresh handle,
  is 4 bytes.
\<close>

theorem ForwardGetWorkSpaceSize_stale_hit:
  "ForwardGetWorkSpaceSize env
     \<lparr> mode = miopenTranspose, paddingMode = miopenPaddingDefault,
       pad_h = 0, pad_w = 0, u = 1, v = 1, dilation_h = 1, dilation_w = 1 \<rparr>
     (fresh_handle ''gfx900'')
     \<lparr> dtype = miopenFloat, lens = [1, 1, 1, 1] \<rparr>
     \<lparr> dtype = miopenFloat, lens = [1, 1, 1, 1] \<rparr>
     \<lparr> dtype = miopenFloat, lens = [1, 1, 1, 1] \<rparr> = (0, h1)
   \<Longrightarrow>
   fst (ForwardGetWorkSpaceSize env
     \<lparr> mode = miopenTranspose, paddingMode = miopenPaddingDefault,
       pad_h = 0, pad_w = 0, u = 2, v = 2, dilation_h = 1, dilation_w = 1 \<rparr>
     h1
     \<lparr> dtype = miopenFloat, lens = [1, 1, 1, 1] \<rparr>
     \<lparr> dtype = miopenFloat, lens = [1, 1, 1, 1] \<rparr>
     \<lparr> dtype = miopenFloat, lens = [1, 1, 1, 1] \<rparr>) = 0
   \<and>
   fst (ForwardGetWorkSpaceSize env
     \<lparr> mode = miopenTranspose, paddingMode = miopenPaddingDefault,
       pad_h = 0, pad_w = 0, u = 2, v = 2, dilation_h = 1, dilation_w = 1 \<rparr>
     (fresh_handle ''gfx900'')
     \<lparr> dtype = miopenFloat, lens = [1, 1, 1, 1] \<rparr>
     \<lparr> dtype = miopenFloat, lens = [1, 1, 1, 1] \<rparr>
     \<lparr> dtype = miopenFloat, lens = [1, 1, 1, 1] \<rparr>) = 4"
proof -
  assume first: "ForwardGetWorkSpaceSize env
     \<lparr> mode = miopenTranspose, paddingMode = miopenPaddingDefault,
       pad_h = 0, pad_w = 0, u = 1, v = 1, dilation_h = 1, dilation_w = 1 \<rparr>
     (fresh_handle ''gfx900'')
     \<lparr> dtype = miopenFloat, lens = [1, 1, 1, 1] \<rparr>
     \<lparr> dtype = miopenFloat, lens = [1, 1, 1, 1] \<rparr>
     \<lparr> dtype = miopenFloat, lens = [1, 1, 1, 1] \<rparr> = (0, h1)"
  have fresh: "fst (ForwardGetWorkSpaceSize env
     \<lparr> mode = miopenTranspose, paddingMode = miopenPaddingDefault,
       pad_h = 0, pad_w = 0, u = 2, v = 2, dilation_h = 1, dilation_w = 1 \<rparr>
     (fresh_handle ''gfx900'')
     \<lparr> dtype = miopenFloat, lens = [1, 1, 1, 1] \<rparr>
     \<lparr> dtype = miopenFloat, lens = [1, 1, 1, 1] \<rparr>
     \<lparr> dtype = miopenFloat, lens = [1, 1, 1, 1] \<rparr>) = 4"
    by (simp add: ForwardGetWorkSpaceSize_def Let_def fresh_handle_def
                  BackwardDataGetWorkSpaceSizeGEMM_def mloBuildConf_Key_def tien4_int_def
                  GetTypeSize_def int_of_def)
  from ForwardGetWorkSpaceSize_second_call [OF first] fresh show ?thesis
    by simp
qed

theorem ForwardGetWorkSpaceSize_stale_hit_witness:
  "fst (ForwardGetWorkSpaceSize gemm_only_env
     \<lparr> mode = miopenTranspose, paddingMode = miopenPaddingDefault,
       pad_h = 0, pad_w = 0, u = 2, v = 2, dilation_h = 1, dilation_w = 1 \<rparr>
     (snd (ForwardGetWorkSpaceSize gemm_only_env
       \<lparr> mode = miopenTranspose, paddingMode = miopenPaddingDefault,
         pad_h = 0, pad_w = 0, u = 1, v = 1, dilation_h = 1, dilation_w = 1 \<rparr>
       (fresh_handle ''gfx900'')
       \<lparr> dtype = miopenFloat, lens = [1, 1, 1, 1] \<rparr>
       \<lparr> dtype = miopenFloat, lens = [1, 1, 1, 1] \<rparr>
       \<lparr> dtype = miopenFloat, lens = [1, 1, 1, 1] \<rparr>))
     \<lparr> dtype = miopenFloat, lens = [1, 1, 1, 1] \<rparr>
     \<lparr> dtype = miopenFloat, lens = [1, 1, 1, 1] \<rparr>
     \<lparr> dtype = miopenFloat, lens = [1, 1, 1, 1] \<rparr>) = 0"
proof -
  have first: "fst (ForwardGetWorkSpaceSize gemm_only_env
       \<lparr> mode = miopenTranspose, paddingMode = miopenPaddingDefault,
         pad_h = 0, pad_w = 0, u = 1, v = 1, dilation_h = 1, dilation_w = 1 \<rparr>
       (fresh_handle ''gfx900'')
       \<lparr> dtype = miopenFloat, lens = [1, 1, 1, 1] \<rparr>
       \<lparr> dtype = miopenFloat, lens = [1, 1, 1, 1] \<rparr>
       \<lparr> dtype = miopenFloat, lens = [1, 1, 1, 1] \<rparr>) = 0"
    by (simp add: ForwardGetWorkSpaceSize_def Let_def fresh_handle_def
                  BackwardDataGetWorkSpaceSizeGEMM_def mloBuildConf_Key_def tien4_int_def
                  GetTypeSize_def int_of_def)
  then have "ForwardGetWorkSpaceSize gemm_only_env
       \<lparr> mode = miopenTranspose, paddingMode = miopenPaddingDefault,
         pad_h = 0, pad_w = 0, u = 1, v = 1, dilation_h = 1, dilation_w = 1 \<rparr>
       (fresh_handle ''gfx900'')
       \<lparr> dtype = miopenFloat, lens = [1, 1, 1, 1] \<rparr>
       \<lparr> dtype = miopenFloat, lens = [1, 1, 1, 1] \<rparr>
       \<lparr> dtype = miopenFloat, lens = [1, 1, 1, 1] \<rparr> =
     (0, snd (ForwardGetWorkSpaceSize gemm_only_env
       \<lparr> mode = miopenTranspose, paddingMode = miopenPaddingDefault,
         pad_h = 0, pad_w = 0, u = 1, v = 1, dilation_h = 1, dilation_w = 1 \<rparr>
       (fresh_handle ''gfx900'')
       \<lparr> dtype = miopenFloat, lens = [1, 1, 1, 1] \<rparr>
       \<lparr> dtype = miopenFloat, lens = [1, 1, 1, 1] \<rparr>
       \<lparr> dtype = miopenFloat, lens = [1, 1, 1, 1] \<rparr>))"
    by (metis prod.collapse)
  from ForwardGetWorkSpaceSize_stale_hit [OF this] show ?thesis
    by simp
qed

section \<open>Applicability predicates: the direct strategy\<close>

lemma smod_2_eq_0_iff: "(k :: int) smod 2 = 0 \<longleftrightarrow> even k"
  by (auto simp: signed_modulo_int_def sgn_if abs_if split: if_splits)

lemma signed_rem_2_eq_0_iff: "signed_rem (k :: int_t) 2 = 0 \<longleftrightarrow> even (sint k)"
proof -
  have "\<bar>sint k smod 2\<bar> \<le> 1"
    by (simp add: signed_modulo_int_def abs_mult sgn_if) presburger
  then have "sint k smod 2 = - 1 \<or> sint k smod 2 = 0 \<or> sint k smod 2 = 1"
    by arith
  then have "(word_of_int (sint k smod 2) :: int_t) = 0 \<longleftrightarrow> sint k smod 2 = 0"
    by auto
  then show ?thesis
    by (simp add: signed_rem_def smod_2_eq_0_iff)
qed

lemma IsDirectSupported_eq_amended:
  "IsDirectSupported c wDesc = IsDirectSupported_amended c wDesc"
  unfolding IsDirectSupported_def IsDirectSupported_amended_def direct_allowlist_def
            signed_rem_2_eq_0_iff word_sless_alt
  by (auto split: prod.splits)

text \<open>
  Claim C7, as stated, at an input where it fails: a 1 by 1 filter with stride 3 and no
  padding.  The specification's rule excludes it; \<open>IsDirectSupported\<close> accepts it.
\<close>

theorem IsDirectSupported_counterexample:
  "IsDirectSupported
     \<lparr> mode = miopenConvolution, paddingMode = miopenPaddingDefault,
       pad_h = 0, pad_w = 0, u = 3, v = 3, dilation_h = 1, dilation_w = 1 \<rparr>
     \<lparr> dtype = miopenFloat, lens = [1, 1, 1, 1] \<rparr>
   \<and> \<not> IsDirectSupported_spec
     \<lparr> mode = miopenConvolution, paddingMode = miopenPaddingDefault,
       pad_h = 0, pad_w = 0, u = 3, v = 3, dilation_h = 1, dilation_w = 1 \<rparr>
     \<lparr> dtype = miopenFloat, lens = [1, 1, 1, 1] \<rparr>"
  by (simp add: IsDirectSupported_def IsDirectSupported_spec_def direct_allowlist_def
                tien4_int_def int_of_def signed_defs)

text \<open>
  Claim C7, amended.  \<open>IsDirectSupported\<close> is true exactly when the filter is square
  with an odd side from 1 to 11, or is 5 by 10 or 5 by 20 under stride 2 with zero padding,
  minus 1 by 1 filters with non-zero padding, 3 by 3 filters with a stride above 2, and
  filters with both sides even.  It is false for a 4 by 4 filter and true for a 3 by 3
  filter with stride 1.
\<close>

theorem IsDirectSupported_characterisation:
  "IsDirectSupported c wDesc = IsDirectSupported_amended c wDesc
   \<and> (int_of (lens wDesc ! 2) = 4 \<and> int_of (lens wDesc ! 3) = 4 \<longrightarrow> \<not> IsDirectSupported c wDesc)
   \<and> (int_of (lens wDesc ! 2) = 3 \<and> int_of (lens wDesc ! 3) = 3 \<and> u c = 1 \<and> v c = 1
        \<longrightarrow> IsDirectSupported c wDesc)"
proof -
  have eq: "IsDirectSupported c wDesc = IsDirectSupported_amended c wDesc"
    by (rule IsDirectSupported_eq_amended)
  have four: "int_of (lens wDesc ! 2) = 4 \<and> int_of (lens wDesc ! 3) = 4
              \<longrightarrow> \<not> IsDirectSupported_amended c wDesc"
    by (simp add: IsDirectSupported_amended_def tien4_int_def direct_allowlist_def)
  have three: "int_of (lens wDesc ! 2) = 3 \<and> int_of (lens wDesc ! 3) = 3 \<and> u c = 1 \<and> v c = 1
               \<longrightarrow> IsDirectSupported_amended c wDesc"
    by (simp add: IsDirectSupported_amended_def tien4_int_def direct_allowlist_def)
  from eq four three show ?thesis
    by blast
qed

theorem IsDirectSupported_characterisation_witness:
  "IsDirectSupported
     \<lparr> mode = miopenConvolution, paddingMode = miopenPaddingDefault,
       pad_h = 1, pad_w = 1, u = 1, v = 1, dilation_h = 1, dilation_w = 1 \<rparr>
     \<lparr> dtype = miopenFloat, lens = [8, 3, 3, 3] \<rparr>
   \<and> \<not> IsDirectSupported
     \<lparr> mode = miopenConvolution, paddingMode = miopenPaddingDefault,
       pad_h = 1, pad_w = 1, u = 1, v = 1, dilation_h = 1, dilation_w = 1 \<rparr>
     \<lparr> dtype = miopenFloat, lens = [8, 3, 4, 4] \<rparr>"
  using IsDirectSupported_characterisation
          [of "\<lparr> mode = miopenConvolution, paddingMode = miopenPaddingDefault,
                 pad_h = 1, pad_w = 1, u = 1, v = 1, dilation_h = 1, dilation_w = 1 \<rparr>"
              "\<lparr> dtype = miopenFloat, lens = [8, 3, 3, 3] \<rparr>",
           THEN conjunct2]
        IsDirectSupported_characterisation
          [of "\<lparr> mode = miopenConvolution, paddingMode = miopenPaddingDefault,
                 pad_h = 1, pad_w = 1, u = 1, v = 1, dilation_h = 1, dilation_w = 1 \<rparr>"
              "\<lparr> dtype = miopenFloat, lens = [8, 3, 4, 4] \<rparr>",
           THEN conjunct2]
  by (simp add: int_of_def)

section \<open>Algorithm search engine: the cache hit\<close>

lemmas concrete_defs =
  unit_conv_def image_16x16_def image_2x2_def image_4x4_def image_2x3_def
  filter_1x1_def filter_3x3_def filter_3x2_def stale_perf_def
  fresh_handle_def gemm_only_env_def

lemmas search_defs =
  FindConvFwdAlgorithm_def AutoEnableProfiling_def AutoEnableProfiling_exit_def
  ResetKernelTime_def construct_params_for_def setConvDescr_def setWeightDescFromMLDesc_def
  setInputDescFromMLDesc_def setOutputDescFromMLDesc_def doSearch_def mlo_construct_def
  mloBuildConf_Key_def FindConvFwd_perf_db_def Fwd_GEMM_def tien4_int_def int_of_def
  gemm_find_run_def FindSolution_def CreateGemmGeometry_def gemm_algorithm_name_def
  run_def construct_def Winograd_candidate_def FindWinogradKernel_def
  Direct_candidate_def FindDirectKernel_def IsDirectSupported_def IsWinograd3x3Supported_def
  Fwd_FFT_def signed_defs rank_perf_db_def write_perfResults_def perf_entry_def
  std_sort_def PerfField_less_def
  map_insert_def Let_def handle_AddKernel_def run_kernels_def

lemma handle_after_first_search_eq:
  "handle_after_first_search =
     (fresh_handle ''gfx900'')
       \<lparr> fwd_map := [mloBuildConf_Key (construct_params_for (unit_conv miopenConvolution) 1
                        image_16x16 image_16x16 filter_1x1) \<mapsto> 0],
         geo_map := [(''miopenConvolutionFwdAlgoGEMM'',
                      network_config (CreateGemmGeometry ConvFwd image_16x16 filter_1x1
                                        image_16x16 False))
                     \<mapsto> CreateGemmGeometry ConvFwd image_16x16 filter_1x1 image_16x16 False],
         device_log := [GemmFindSolution, RunGemm] \<rparr>"
  by (simp add: handle_after_first_search_def search_defs concrete_defs)

text \<open>
  Claim C3, as stated, at an input where it fails.  After a first forward search the
  fingerprint is in the forward cache.  A second search for the same problem on that handle
  that asks for two results constructs and runs the GEMM kernel again: the device log
  grows from two entries to four.
\<close>

theorem search_cache_hit_counterexample:
  "fwd_map handle_after_first_search
     (mloBuildConf_Key (construct_params_for (unit_conv miopenConvolution) 1
        image_16x16 image_16x16 filter_1x1)) = Some 0
   \<and> device_log handle_after_first_search = [GemmFindSolution, RunGemm]
   \<and> device_log (snd (FindConvFwdAlgorithm gemm_only_env (unit_conv miopenConvolution)
          handle_after_first_search
          image_16x16 (Some 0) filter_1x1 (Some 1) image_16x16 (Some 2)
          2 (Some 0) (Some [stale_perf, stale_perf]) None 0 False))
       = [GemmFindSolution, RunGemm, GemmFindSolution, RunGemm]"
  by (simp add: handle_after_first_search_eq search_defs concrete_defs)

lemma FindConvFwdAlgorithm_hit:
  assumes "x \<noteq> None" "w \<noteq> None" "y \<noteq> None" "rc \<noteq> None"
    and "fwd_map handle (mloBuildConf_Key (construct_params_for c 1 yDesc xDesc wDesc)) = Some algo"
  shows "FindConvFwdAlgorithm env c handle xDesc x wDesc w yDesc y 1 rc (Some results) ws wss ex
         = (Inr (1, results[0 := (results ! 0)\<lparr> perf_algo := algo \<rparr>]), ResetKernelTime handle)"
  using assms
  by (simp add: FindConvFwdAlgorithm_def AutoEnableProfiling_exit_def AutoEnableProfiling_def
                ResetKernelTime_def)

lemma FindConvBwdDataAlgorithm_hit:
  assumes "dx \<noteq> None" "w \<noteq> None" "dy \<noteq> None" "rc \<noteq> None"
    and "bwdData_map handle (mloBuildConf_Key (construct_params_for c 0 dyDesc dxDesc wDesc)) = Some algo"
  shows "FindConvBwdDataAlgorithm env c handle dyDesc dy wDesc w dxDesc dx 1 rc (Some results) ws wss ex
         = (Inr (1, results[0 := (results ! 0)\<lparr> perf_algo := algo \<rparr>]), handle)"
  using assms
  by (simp add: FindConvBwdDataAlgorithm_def)

lemma FindConvBwdWeightsAlgorithm_hit:
  assumes "x \<noteq> None" "dw \<noteq> None" "dy \<noteq> None" "rc \<noteq> None"
    and "bwdWeights_map handle (mloBuildConf_Key (construct_params_for c 0 dyDesc xDesc dwDesc)) = Some algo"
  shows "FindConvBwdWeightsAlgorithm env c handle dyDesc dy xDesc x dwDesc dw 1 rc (Some results) ws wss ex
         = (Inr (1, results[0 := (results ! 0)\<lparr> perf_algo := algo \<rparr>]), handle)"
  using assms
  by (simp add: FindConvBwdWeightsAlgorithm_def)

text \<open>
  A search that does not take the early return benchmarks: this is so on a miss, and on a
  hit when more than one result is requested.
\<close>

lemma FindConvFwdAlgorithm_benchmarks:
  assumes "x \<noteq> None" "w \<noteq> None" "y \<noteq> None" "rc \<noteq> None"
    and "1 \<le> requestAlgoCount"
    and "requestAlgoCount \<noteq> 1 \<or>
         fwd_map handle (mloBuildConf_Key (construct_params_for c 1 yDesc xDesc wDesc)) = None"
  shows "reports_benchmark (FwdAlgoResolver env) requestAlgoCount results
           (FindConvFwd_perf_db env c (snd (AutoEnableProfiling handle)) xDesc wDesc yDesc ws wss ex)
           (FindConvFwdAlgorithm env c handle xDesc x wDesc w yDesc y requestAlgoCount rc
              (Some results) ws wss ex)"
proof -
  obtain perf_db h1 where bench:
    "FindConvFwd_perf_db env c (handle\<lparr> ProfilingEnabled := True \<rparr>) xDesc wDesc yDesc ws wss ex
     = (perf_db, h1)"
    by (cases "FindConvFwd_perf_db env c (handle\<lparr> ProfilingEnabled := True \<rparr>) xDesc wDesc yDesc
                 ws wss ex")
  show ?thesis
  proof (cases "requestAlgoCount = 1")
    case True
    with assms(6) have miss:
      "fwd_map handle (mloBuildConf_Key (construct_params_for c 1 yDesc xDesc wDesc)) = None"
      by simp
    show ?thesis
      using assms(1-4)
      by (simp del: not_None_eq
               add: reports_benchmark_def FindConvFwdAlgorithm_def AutoEnableProfiling_def
                    AutoEnableProfiling_exit_def ResetKernelTime_def Let_def split_beta bench True miss)
  next
    case False
    show ?thesis
      using assms(1-5)
      by (simp del: not_None_eq
               add: reports_benchmark_def FindConvFwdAlgorithm_def AutoEnableProfiling_def
                    AutoEnableProfiling_exit_def ResetKernelTime_def Let_def split_beta bench False)
  qed
qed

lemma FindConvBwdDataAlgorithm_benchmarks:
  assumes "dx \<noteq> None" "w \<noteq> None" "dy \<noteq> None" "rc \<noteq> None"
    and "1 \<le> requestAlgoCount"
    and "requestAlgoCount \<noteq> 1 \<or>
         bwdData_map handle (mloBuildConf_Key (construct_params_for c 0 dyDesc dxDesc wDesc)) = None"
  shows "reports_benchmark (BwdDataAlgoResolver env) requestAlgoCount results
           (FindConvBwdData_perf_db env c (snd (AutoEnableProfiling handle)) dyDesc wDesc dxDesc
              ws wss ex)
           (FindConvBwdDataAlgorithm env c handle dyDesc dy wDesc w dxDesc dx requestAlgoCount rc
              (Some results) ws wss ex)"
proof -
  obtain perf_db h1 where bench:
    "FindConvBwdData_perf_db env c (handle\<lparr> ProfilingEnabled := True \<rparr>) dyDesc wDesc dxDesc
       ws wss ex = (perf_db, h1)"
    by (cases "FindConvBwdData_perf_db env c (handle\<lparr> ProfilingEnabled := True \<rparr>) dyDesc wDesc
                 dxDesc ws wss ex")
  show ?thesis
  proof (cases "requestAlgoCount = 1")
    case True
    with assms(6) have miss:
      "bwdData_map handle (mloBuildConf_Key (construct_params_for c 0 dyDesc dxDesc wDesc)) = None"
      by simp
    show ?thesis
      using assms(1-4)
      by (simp del: not_None_eq
               add: reports_benchmark_def FindConvBwdDataAlgorithm_def AutoEnableProfiling_def
                    AutoEnableProfiling_exit_def ResetKernelTime_def Let_def split_beta bench True miss)
  next
    case False
    show ?thesis
      using assms(1-5)
      by (simp del: not_None_eq
               add: reports_benchmark_def FindConvBwdDataAlgorithm_def AutoEnableProfiling_def
                    AutoEnableProfiling_exit_def ResetKernelTime_def Let_def split_beta bench False)
  qed
qed

lemma FindConvBwdWeightsAlgorithm_benchmarks:
  assumes "x \<noteq> None" "dw \<noteq> None" "dy \<noteq> None" "rc \<noteq> None"
    and "1 \<le> requestAlgoCount"
    and "requestAlgoCount \<noteq> 1 \<or>
         bwdWeights_map handle (mloBuildConf_Key (construct_params_for c 0 dyDesc xDesc dwDesc)) = None"
  shows "reports_benchmark (BwdWeightsAlgoResolver env) requestAlgoCount results
           (FindConvBwdWeights_perf_db env c (snd (AutoEnableProfiling handle)) dyDesc xDesc dwDesc
              ws wss ex)
           (FindConvBwdWeightsAlgorithm env c handle dyDesc dy xDesc x dwDesc dw requestAlgoCount rc
              (Some results) ws wss ex)"
proof -
  obtain perf_db h1 where bench:
    "FindConvBwdWeights_perf_db env c (handle\<lparr> ProfilingEnabled := True \<rparr>) dyDesc xDesc dwDesc
       ws wss ex = (perf_db, h1)"
    by (cases "FindConvBwdWeights_perf_db env c (handle\<lparr> ProfilingEnabled := True \<rparr>) dyDesc xDesc
                 dwDesc ws wss ex")
  show ?thesis
  proof (cases "requestAlgoCount = 1")
    case True
    with assms(6) have miss:
      "bwdWeights_map handle (mloBuildConf_Key (construct_params_for c 0 dyDesc xDesc dwDesc)) = None"
      by simp
    show ?thesis
      using assms(1-4)
      by (simp del: not_None_eq
               add: reports_benchmark_def FindConvBwdWeightsAlgorithm_def AutoEnableProfiling_def
                    AutoEnableProfiling_exit_def ResetKernelTime_def Let_def split_beta bench True miss)
  next
    case False
    show ?thesis
      using assms(1-5)
      by (simp del: not_None_eq
               add: reports_benchmark_def FindConvBwdWeightsAlgorithm_def AutoEnableProfiling_def
                    AutoEnableProfiling_exit_def ResetKernelTime_def Let_def split_beta bench False)
  qed
qed

text \<open>
  Claim C3, amended.  In every search direction, when the call's fingerprint is in that
  direction's algorithm cache and exactly one result is requested, the call returns the
  cached identifier in the first entry of the caller's array with a count of 1, and
  benchmarks nothing: the device log and the registered kernels are as before.  When more
  than one result is requested, the call benchmarks the candidates whether or not the
  fingerprint is cached, as it does on a miss with one requested result: what it leaves
  on the device and what it returns are what the benchmarks of the candidates give.
\<close>

theorem search_cache_hit_single_request:
  assumes "x \<noteq> None" and "w \<noteq> None" and "y \<noteq> None"
    and "dx \<noteq> None" and "dy \<noteq> None" and "dw \<noteq> None" and "rc \<noteq> None"
  shows
    "(fwd_map handle (mloBuildConf_Key (construct_params_for c 1 yDesc xDesc wDesc)) = Some algo \<longrightarrow>
        (case FindConvFwdAlgorithm env c handle xDesc x wDesc w yDesc y 1 rc (Some results) ws wss ex of
           (r, h') \<Rightarrow> r = Inr (1, results[0 := (results ! 0)\<lparr> perf_algo := algo \<rparr>]) \<and>
                      device_log h' = device_log handle \<and> kernel_cache h' = kernel_cache handle))
     \<and> (bwdData_map handle (mloBuildConf_Key (construct_params_for c 0 dyDesc dxDesc wDesc)) = Some algo \<longrightarrow>
        (case FindConvBwdDataAlgorithm env c handle dyDesc dy wDesc w dxDesc dx 1 rc (Some results) ws wss ex of
           (r, h') \<Rightarrow> r = Inr (1, results[0 := (results ! 0)\<lparr> perf_algo := algo \<rparr>]) \<and>
                      device_log h' = device_log handle \<and> kernel_cache h' = kernel_cache handle))
     \<and> (bwdWeights_map handle (mloBuildConf_Key (construct_params_for c 0 dyDesc xDesc dwDesc)) = Some algo \<longrightarrow>
        (case FindConvBwdWeightsAlgorithm env c handle dyDesc dy xDesc x dwDesc dw 1 rc (Some results) ws wss ex of
           (r, h') \<Rightarrow> r = Inr (1, results[0 := (results ! 0)\<lparr> perf_algo := algo \<rparr>]) \<and>
                      device_log h' = device_log handle \<and> kernel_cache h' = kernel_cache handle))
     \<and> (1 < requestAlgoCount \<or>
        (requestAlgoCount = 1 \<and>
         fwd_map handle (mloBuildConf_Key (construct_params_for c 1 yDesc xDesc wDesc)) = None) \<longrightarrow>
        reports_benchmark (FwdAlgoResolver env) requestAlgoCount results
          (FindConvFwd_perf_db env c (snd (AutoEnableProfiling handle)) xDesc wDesc yDesc ws wss ex)
          (FindConvFwdAlgorithm env c handle xDesc x wDesc w yDesc y requestAlgoCount rc
             (Some results) ws wss ex))
     \<and> (1 < requestAlgoCount \<or>
        (requestAlgoCount = 1 \<and>
         bwdData_map handle (mloBuildConf_Key (construct_params_for c 0 dyDesc dxDesc wDesc)) = None) \<longrightarrow>
        reports_benchmark (BwdDataAlgoResolver env) requestAlgoCount results
          (FindConvBwdData_perf_db env c (snd (AutoEnableProfiling handle)) dyDesc wDesc dxDesc
             ws wss ex)
          (FindConvBwdDataAlgorithm env c handle dyDesc dy wDesc w dxDesc dx requestAlgoCount rc
             (Some results) ws wss ex))
     \<and> (1 < requestAlgoCount \<or>
        (requestAlgoCount = 1 \<and>
         bwdWeights_map handle (mloBuildConf_Key (construct_params_for c 0 dyDesc xDesc dwDesc)) = None) \<longrightarrow>
        reports_benchmark (BwdWeightsAlgoResolver env) requestAlgoCount results
          (FindConvBwdWeights_perf_db env c (snd (AutoEnableProfiling handle)) dyDesc xDesc dwDesc
             ws wss ex)
          (FindConvBwdWeightsAlgorithm env c handle dyDesc dy xDesc x dwDesc dw requestAlgoCount rc
             (Some results) ws wss ex))"
proof (intro conjI impI)
  assume "fwd_map handle (mloBuildConf_Key (construct_params_for c 1 yDesc xDesc wDesc)) = Some algo"
  with assms
  show "case FindConvFwdAlgorithm env c handle xDesc x wDesc w yDesc y 1 rc (Some results) ws wss ex of
          (r, h') \<Rightarrow> r = Inr (1, results[0 := (results ! 0)\<lparr> perf_algo := algo \<rparr>]) \<and>
                     device_log h' = device_log handle \<and> kernel_cache h' = kernel_cache handle"
    by (simp add: FindConvFwdAlgorithm_hit ResetKernelTime_def)
next
  assume "bwdData_map handle (mloBuildConf_Key (construct_params_for c 0 dyDesc dxDesc wDesc)) = Some algo"
  with assms
  show "case FindConvBwdDataAlgorithm env c handle dyDesc dy wDesc w dxDesc dx 1 rc (Some results) ws wss ex of
          (r, h') \<Rightarrow> r = Inr (1, results[0 := (results ! 0)\<lparr> perf_algo := algo \<rparr>]) \<and>
                     device_log h' = device_log handle \<and> kernel_cache h' = kernel_cache handle"
    by (simp add: FindConvBwdDataAlgorithm_hit)
next
  assume "bwdWeights_map handle (mloBuildConf_Key (construct_params_for c 0 dyDesc xDesc dwDesc)) = Some algo"
  with assms
  show "case FindConvBwdWeightsAlgorithm env c handle dyDesc dy xDesc x dwDesc dw 1 rc (Some results) ws wss ex of
          (r, h') \<Rightarrow> r = Inr (1, results[0 := (results ! 0)\<lparr> perf_algo := algo \<rparr>]) \<and>
                     device_log h' = device_log handle \<and> kernel_cache h' = kernel_cache handle"
    by (simp add: FindConvBwdWeightsAlgorithm_hit)
next
  assume "1 < requestAlgoCount \<or>
        (requestAlgoCount = 1 \<and>
         fwd_map handle (mloBuildConf_Key (construct_params_for c 1 yDesc xDesc wDesc)) = None)"
  then have "1 \<le> requestAlgoCount"
    and "requestAlgoCount \<noteq> 1 \<or>
         fwd_map handle (mloBuildConf_Key (construct_params_for c 1 yDesc xDesc wDesc)) = None"
    by auto
  with assms
  show "reports_benchmark (FwdAlgoResolver env) requestAlgoCount results
          (FindConvFwd_perf_db env c (snd (AutoEnableProfiling handle)) xDesc wDesc yDesc ws wss ex)
          (FindConvFwdAlgorithm env c handle xDesc x wDesc w yDesc y requestAlgoCount rc
             (Some results) ws wss ex)"
    by (intro FindConvFwdAlgorithm_benchmarks)
next
  assume "1 < requestAlgoCount \<or>
        (requestAlgoCount = 1 \<and>
         bwdData_map handle (mloBuildConf_Key (construct_params_for c 0 dyDesc dxDesc wDesc)) = None)"
  then have "1 \<le> requestAlgoCount"
    and "requestAlgoCount \<noteq> 1 \<or>
         bwdData_map handle (mloBuildConf_Key (construct_params_for c 0 dyDesc dxDesc wDesc)) = None"
    by auto
  with assms
  show "reports_benchmark (BwdDataAlgoResolver env) requestAlgoCount results
          (FindConvBwdData_perf_db env c (snd (AutoEnableProfiling handle)) dyDesc wDesc dxDesc
             ws wss ex)
          (FindConvBwdDataAlgorithm env c handle dyDesc dy wDesc w dxDesc dx requestAlgoCount rc
             (Some results) ws wss ex)"
    by (intro FindConvBwdDataAlgorithm_benchmarks)
next
  assume "1 < requestAlgoCount \<or>
        (requestAlgoCount = 1 \<and>
         bwdWeights_map handle (mloBuildConf_Key (construct_params_for c 0 dyDesc xDesc dwDesc)) = None)"
  then have "1 \<le> requestAlgoCount"
    and "requestAlgoCount \<noteq> 1 \<or>
         bwdWeights_map handle (mloBuildConf_Key (construct_params_for c 0 dyDesc xDesc dwDesc)) = None"
    by auto
  with assms
  show "reports_benchmark (BwdWeightsAlgoResolver env) requestAlgoCount results
          (FindConvBwdWeights_perf_db env c (snd (AutoEnableProfiling handle)) dyDesc xDesc dwDesc
             ws wss ex)
          (FindConvBwdWeightsAlgorithm env c handle dyDesc dy xDesc x dwDesc dw requestAlgoCount rc
             (Some results) ws wss ex)"
    by (intro FindConvBwdWeightsAlgorithm_benchmarks)
qed

theorem search_cache_hit_single_request_witness:
  "fst (FindConvFwdAlgorithm gemm_only_env (unit_conv miopenConvolution)
          handle_after_first_search
          image_16x16 (Some 0) filter_1x1 (Some 1) image_16x16 (Some 2)
          1 (Some 0) (Some [stale_perf, stale_perf]) None 0 False)
     = Inr (1, [stale_perf\<lparr> perf_algo := 0 \<rparr>, stale_perf])
   \<and> device_log (snd (FindConvFwdAlgorithm gemm_only_env (unit_conv miopenConvolution)
          handle_after_first_search
          image_16x16 (Some 0) filter_1x1 (Some 1) image_16x16 (Some 2)
          1 (Some 0) (Some [stale_perf, stale_perf]) None 0 False))
     = device_log handle_after_first_search
   \<and> reports_benchmark (FwdAlgoResolver gemm_only_env) 2 [stale_perf, stale_perf]
       (FindConvFwd_perf_db gemm_only_env (unit_conv miopenConvolution)
          (snd (AutoEnableProfiling handle_after_first_search))
          image_16x16 filter_1x1 image_16x16 None 0 False)
       (FindConvFwdAlgorithm gemm_only_env (unit_conv miopenConvolution)
          handle_after_first_search
          image_16x16 (Some 0) filter_1x1 (Some 1) image_16x16 (Some 2)
          2 (Some 0) (Some [stale_perf, stale_perf]) None 0 False)"
proof -
  have hit: "fwd_map handle_after_first_search
     (mloBuildConf_Key (construct_params_for (unit_conv miopenConvolution) 1
        image_16x16 image_16x16 filter_1x1)) = Some 0"
    by (simp add: handle_after_first_search_eq)
  have ne: "Some (0::nat) \<noteq> None" "Some (1::nat) \<noteq> None" "Some (2::nat) \<noteq> None"
    "Some (0::int) \<noteq> None"
    by simp_all
  note inst = search_cache_hit_single_request
         [OF ne(1) ne(2) ne(3) ne(1) ne(1) ne(1) ne(4),
          where handle = handle_after_first_search and c = "unit_conv miopenConvolution"
            and yDesc = image_16x16 and xDesc = image_16x16 and wDesc = filter_1x1
            and algo = 0 and env = gemm_only_env and results = "[stale_perf, stale_perf]"
            and ws = None and wss = 0 and ex = False]
  from inst [where requestAlgoCount = 2, THEN conjunct1] hit
  have one: "fst (FindConvFwdAlgorithm gemm_only_env (unit_conv miopenConvolution)
          handle_after_first_search
          image_16x16 (Some 0) filter_1x1 (Some 1) image_16x16 (Some 2)
          1 (Some 0) (Some [stale_perf, stale_perf]) None 0 False)
     = Inr (1, [stale_perf\<lparr> perf_algo := 0 \<rparr>, stale_perf])
   \<and> device_log (snd (FindConvFwdAlgorithm gemm_only_env (unit_conv miopenConvolution)
          handle_after_first_search
          image_16x16 (Some 0) filter_1x1 (Some 1) image_16x16 (Some 2)
          1 (Some 0) (Some [stale_perf, stale_perf]) None 0 False))
     = device_log handle_after_first_search"
    by (simp split: prod.splits)
  from inst [where requestAlgoCount = 2, THEN conjunct2, THEN conjunct2, THEN conjunct2,
             THEN conjunct1]
  have many: "reports_benchmark (FwdAlgoResolver gemm_only_env) 2 [stale_perf, stale_perf]
       (FindConvFwd_perf_db gemm_only_env (unit_conv miopenConvolution)
          (snd (AutoEnableProfiling handle_after_first_search))
          image_16x16 filter_1x1 image_16x16 None 0 False)
       (FindConvFwdAlgorithm gemm_only_env (unit_conv miopenConvolution)
          handle_after_first_search
          image_16x16 (Some 0) filter_1x1 (Some 1) image_16x16 (Some 2)
          2 (Some 0) (Some [stale_perf, stale_perf]) None 0 False)"
    by simp
  from one many show ?thesis
    by (intro conjI) simp_all
qed

section \<open>Algorithm search engine: the frame of a cache hit\<close>

lemma only_first_algo_written_update:
  assumes "results \<noteq> []"
  shows "only_first_algo_written algo results (results[0 := (results ! 0)\<lparr> perf_algo := algo \<rparr>])"
  using assms
  by (auto simp: only_first_algo_written_def nth_list_update)

text \<open>
  Claim C10.  On an algorithm-cache hit with exactly one requested result, in each of the
  three directions, the search returns a count of 1 and an array in which only the
  algorithm identifier of the first entry is written: the time and the memory of every
  entry, and every entry after the first, are what the caller left there.
\<close>

theorem cache_hit_frame:
  assumes "x \<noteq> None" and "w \<noteq> None" and "y \<noteq> None"
    and "dx \<noteq> None" and "dy \<noteq> None" and "dw \<noteq> None" and "rc \<noteq> None"
    and "results \<noteq> []"
  shows
    "(fwd_map handle (mloBuildConf_Key (construct_params_for c 1 yDesc xDesc wDesc)) = Some algo \<longrightarrow>
        (\<exists>results'. fst (FindConvFwdAlgorithm env c handle xDesc x wDesc w yDesc y 1 rc (Some results) ws wss ex)
                       = Inr (1, results') \<and> only_first_algo_written algo results results'))
     \<and> (bwdData_map handle (mloBuildConf_Key (construct_params_for c 0 dyDesc dxDesc wDesc)) = Some algo \<longrightarrow>
        (\<exists>results'. fst (FindConvBwdDataAlgorithm env c handle dyDesc dy wDesc w dxDesc dx 1 rc (Some results) ws wss ex)
                       = Inr (1, results') \<and> only_first_algo_written algo results results'))
     \<and> (bwdWeights_map handle (mloBuildConf_Key (construct_params_for c 0 dyDesc xDesc dwDesc)) = Some algo \<longrightarrow>
        (\<exists>results'. fst (FindConvBwdWeightsAlgorithm env c handle dyDesc dy xDesc x dwDesc dw 1 rc (Some results) ws wss ex)
                       = Inr (1, results') \<and> only_first_algo_written algo results results'))"
  using assms
  by (simp add: FindConvFwdAlgorithm_hit FindConvBwdDataAlgorithm_hit
                FindConvBwdWeightsAlgorithm_hit only_first_algo_written_update)

theorem cache_hit_frame_witness:
  "\<exists>results'. fst (FindConvFwdAlgorithm gemm_only_env (unit_conv miopenConvolution)
          handle_after_first_search
          image_16x16 (Some 0) filter_1x1 (Some 1) image_16x16 (Some 2)
          1 (Some 0) (Some [stale_perf, stale_perf]) None 0 False) = Inr (1, results')
     \<and> only_first_algo_written 0 [stale_perf, stale_perf] results'"
proof -
  have hit: "fwd_map handle_after_first_search
     (mloBuildConf_Key (construct_params_for (unit_conv miopenConvolution) 1
        image_16x16 image_16x16 filter_1x1)) = Some 0"
    by (simp add: handle_after_first_search_eq)
  have ne: "Some (0::nat) \<noteq> None" "Some (1::nat) \<noteq> None" "Some (2::nat) \<noteq> None"
    "Some (0::int) \<noteq> None" "[stale_perf, stale_perf] \<noteq> []"
    by simp_all
  from cache_hit_frame
         [OF ne(1) ne(2) ne(3) ne(1) ne(1) ne(1) ne(4) ne(5),
          where handle = handle_after_first_search and c = "unit_conv miopenConvolution"
            and yDesc = image_16x16 and xDesc = image_16x16 and wDesc = filter_1x1
            and algo = 0 and env = gemm_only_env
            and ws = None and wss = 0 and ex = False,
          THEN conjunct1] hit
  show ?thesis
    by simp
qed

section \<open>Algorithm search engine: the ranking\<close>

lemma write_perfResults_length [simp]:
  "length (write_perfResults r db n res) = length res"
  by (induction n) (simp_all add: write_perfResults_def)






























section \<open>Execution dispatcher: forward in Transpose mode\<close>

lemma device_log_run [simp]: "device_log (run env op h) = device_log h @ [op]"
  by (simp add: run_def)

lemma device_log_construct [simp]: "device_log (construct op h) = device_log h @ [op]"
  by (simp add: construct_def)

lemma device_log_AccumKernelTime [simp]: "device_log (AccumKernelTime t h) = device_log h"
  by (simp add: AccumKernelTime_def)

lemma device_log_ResetKernelTime [simp]: "device_log (ResetKernelTime h) = device_log h"
  by (simp add: ResetKernelTime_def)

lemma sample_two_kernels_log:
  "device_log (snd (snd (sample_two_kernels env op1 op2 l st))) =
   device_log (snd (snd st)) @ [op1, op2]"
  by (cases st) (simp add: sample_two_kernels_def Let_def)

lemma sample_gemm_only_log:
  "device_log (snd (snd (sample_gemm_only env l st))) = device_log (snd (snd st)) @ [RunGemm]"
  by (cases st) (simp add: sample_gemm_only_def Let_def)

lemma fold_samples_log:
  assumes "\<And>l st. device_log (snd (snd (body l st))) = device_log (snd (snd st)) @ ops"
  shows "device_log (snd (snd (fold (\<lambda>i st. body (P i) st) xs st0))) =
         device_log (snd (snd st0)) @ concat (replicate (length xs) ops)"
proof (induction xs arbitrary: st0)
  case Nil
  then show ?case by simp
next
  case (Cons a xs)
  show ?case
    by (simp add: Cons.IH assms)
qed

lemma for_each_sample_log:
  assumes "\<And>l st. device_log (snd (snd (body l st))) = device_log (snd (snd st)) @ ops"
  shows "device_log (for_each_sample in_n body h) =
         device_log h @ concat (replicate (nat (sint in_n)) ops)"
  unfolding for_each_sample_def
  using fold_samples_log [OF assms, where P = "\<lambda>i. int i = sint in_n - 1"
                            and xs = "[0 ..< nat (sint in_n)]" and ?st0.0 = "(0, 0, h)"]
  by simp

text \<open>The numeric checker leaves the device's name and the registered geometries alone.\<close>

lemma numerics_input_frame [simp]:
  "DeviceName (numerics_input env h) = DeviceName h"
  "geo_map (numerics_input env h) = geo_map h"
  "kernel_cache (numerics_input env h) = kernel_cache h"
  by (simp_all add: numerics_input_def construct_def)

lemma numerics_input_log:
  "device_log (numerics_input env h)
   = device_log h @ (if CheckNumericsEnabled env then [checkNumericsInput, checkNumericsInput] else [])"
  by (simp add: numerics_input_def)

lemma BackwardDataGetWorkSpaceSizeGEMM_numerics_input [simp]:
  "BackwardDataGetWorkSpaceSizeGEMM c (numerics_input env h) wDesc dyDesc
   = BackwardDataGetWorkSpaceSizeGEMM c h wDesc dyDesc"
  by (simp add: BackwardDataGetWorkSpaceSizeGEMM_def split_beta Let_def)

lemma ConvolutionForward_transpose_mode_log:
  assumes "MIOPEN_USE_MIOPENGEMM env"
    and "int_of (lens wDesc ! 2) \<noteq> 1 \<or> int_of (lens wDesc ! 3) \<noteq> 1 \<or> u c \<noteq> 1 \<or> v c \<noteq> 1
         \<longrightarrow> workspace_meets ws wss (BackwardDataGetWorkSpaceSizeGEMM c h wDesc xDesc)"
    and "geo_map h (''miopenConvolutionBwdDataAlgoGEMM'',
                    network_config (CreateGemmGeometry ConvBwdData xDesc wDesc yDesc True)) \<noteq> None"
  shows "fst (ConvolutionForward_transpose_mode env c h xDesc wDesc yDesc ws wss) = None"
    and "device_log (snd (ConvolutionForward_transpose_mode env c h xDesc wDesc yDesc ws wss)) =
         device_log h @
         concat (replicate (nat (sint (int_of (lens xDesc ! 0))))
           (if int_of (lens wDesc ! 2) \<noteq> 1 \<or> int_of (lens wDesc ! 3) \<noteq> 1 \<or> v c \<noteq> 1 \<or> u c \<noteq> 1
            then [RunGemm, Col2ImGPU] else [RunGemm]))"
proof -
  from assms(3) obtain gg where geo:
    "geo_map h (''miopenConvolutionBwdDataAlgoGEMM'',
                network_config (CreateGemmGeometry ConvBwdData xDesc wDesc yDesc True)) = Some gg"
    by auto
  show "fst (ConvolutionForward_transpose_mode env c h xDesc wDesc yDesc ws wss) = None"
    using assms(1,2)
    by (auto simp: ConvolutionForward_transpose_mode_def tien4_int_def GetGemmGeometry_def geo)
  show "device_log (snd (ConvolutionForward_transpose_mode env c h xDesc wDesc yDesc ws wss)) =
         device_log h @
         concat (replicate (nat (sint (int_of (lens xDesc ! 0))))
           (if int_of (lens wDesc ! 2) \<noteq> 1 \<or> int_of (lens wDesc ! 3) \<noteq> 1 \<or> v c \<noteq> 1 \<or> u c \<noteq> 1
            then [RunGemm, Col2ImGPU] else [RunGemm]))"
  proof (cases "int_of (lens wDesc ! 2) \<noteq> 1 \<or> int_of (lens wDesc ! 3) \<noteq> 1 \<or> v c \<noteq> 1 \<or> u c \<noteq> 1")
    case True
    with assms(2) have "workspace_meets ws wss (BackwardDataGetWorkSpaceSizeGEMM c h wDesc xDesc)"
      by blast
    with True show ?thesis
      using assms(1)
      by (simp add: ConvolutionForward_transpose_mode_def tien4_int_def GetGemmGeometry_def geo
                    for_each_sample_log [where ops = "[RunGemm, Col2ImGPU]"] sample_two_kernels_log)
  next
    case False
    then show ?thesis
      using assms(1)
      by (simp add: ConvolutionForward_transpose_mode_def tien4_int_def GetGemmGeometry_def geo
                    for_each_sample_log [where ops = "[RunGemm]"] sample_gemm_only_log)
  qed
qed

lemma handle_after_transpose_search_eq:
  "handle_after_transpose_search =
     (fresh_handle ''gfx900'')
       \<lparr> fwd_map := [mloBuildConf_Key (construct_params_for (unit_conv miopenTranspose) 1
                        image_4x4 image_2x2 filter_3x3) \<mapsto> 0],
         geo_map := [(''miopenConvolutionBwdDataAlgoGEMM'',
                      network_config (CreateGemmGeometry ConvBwdData image_2x2 filter_3x3
                                        image_4x4 True))
                     \<mapsto> CreateGemmGeometry ConvBwdData image_2x2 filter_3x3 image_4x4 True],
         device_log := [GemmFindSolution, RunGemm, Col2ImGPU] \<rparr>"
  by (simp add: handle_after_transpose_search_def search_defs concrete_defs
                Fwd_GEMM_transpose_mode_def BackwardDataGetWorkSpaceSizeGEMM_def GetTypeSize_def)

text \<open>
  Claim C8, as stated, at an input where it fails.  Transpose mode, a 3 by 3 filter, one
  sample, on the handle that searched this problem, with the workspace the search had:
  the call succeeds, and the device runs the GEMM first and \<open>Col2ImGPU\<close> after it.  No
  \<open>Im2ColGPU\<close> precedes the GEMM.
\<close>

theorem ConvolutionForward_transpose_counterexample:
  "device_log handle_after_transpose_search = [GemmFindSolution, RunGemm, Col2ImGPU]
   \<and> workspace_meets (Some 3) 1024
       (BackwardDataGetWorkSpaceSizeGEMM (unit_conv miopenTranspose) handle_after_transpose_search
          filter_3x3 image_2x2)
   \<and> fst (ConvolutionForward gemm_only_env (unit_conv miopenTranspose)
        handle_after_transpose_search 1 image_2x2 (Some 0) filter_3x3 (Some 1)
        miopenConvolutionFwdAlgoGEMM 0 image_4x4 (Some 2) (Some 3) 1024) = None
   \<and> device_log (snd (ConvolutionForward gemm_only_env (unit_conv miopenTranspose)
        handle_after_transpose_search 1 image_2x2 (Some 0) filter_3x3 (Some 1)
        miopenConvolutionFwdAlgoGEMM 0 image_4x4 (Some 2) (Some 3) 1024))
     = [GemmFindSolution, RunGemm, Col2ImGPU, RunGemm, Col2ImGPU]"
  by (simp add: handle_after_transpose_search_eq
                ConvolutionForward_def ConvolutionForward_transpose_mode_def GetSize_def
                numerics_input_def numerics_output_def tien4_int_def int_of_def
                workspace_meets_def BackwardDataGetWorkSpaceSizeGEMM_def GetTypeSize_def
                GetGemmGeometry_def CreateGemmGeometry_def
                for_each_sample_def sample_two_kernels_def sample_gemm_only_def run_def
                AccumKernelTime_def concrete_defs Let_def)

text \<open>
  Claim C8, amended.  In Transpose mode \<open>ConvolutionForward\<close> ignores its algorithm
  identifier: any two identifiers give the same outcome.  For valid arguments (buffers,
  shapes and scaling factors as the call checks them; a workspace that meets the
  requirement unless the filter is 1 by 1 with unit stride; a handle on which the search
  has registered the geometry) in a build with the GEMM back end it succeeds and runs, per
  sample, one GEMM, followed by a \<open>Col2ImGPU\<close> transform out of the workspace when the
  filter is not 1 by 1 with unit stride (between the calls of the numeric checker, when
  that is enabled).
\<close>

theorem ConvolutionForward_transpose_ignores_algo:
  assumes "mode c = miopenTranspose"
  shows
    "ConvolutionForward env c handle alpha xDesc x wDesc w algo beta yDesc y ws wss
       = ConvolutionForward env c handle alpha xDesc x wDesc w algo' beta yDesc y ws wss
     \<and> (x \<noteq> None \<and> w \<noteq> None \<and> y \<noteq> None \<and> GetSize xDesc = GetSize yDesc \<and>
        GetSize xDesc = GetSize wDesc \<and> dtype xDesc = dtype yDesc \<and> dtype xDesc = dtype wDesc \<and>
        3 \<le> GetSize xDesc \<and> alpha = 1 \<and> beta = 0 \<and> lens xDesc ! 1 = lens wDesc ! 0 \<and>
        MIOPEN_USE_MIOPENGEMM env \<and>
        (int_of (lens wDesc ! 2) \<noteq> 1 \<or> int_of (lens wDesc ! 3) \<noteq> 1 \<or> u c \<noteq> 1 \<or> v c \<noteq> 1
         \<longrightarrow> workspace_meets ws wss (BackwardDataGetWorkSpaceSizeGEMM c handle wDesc xDesc)) \<and>
        geo_map handle (''miopenConvolutionBwdDataAlgoGEMM'',
                        network_config (CreateGemmGeometry ConvBwdData xDesc wDesc yDesc True)) \<noteq> None
        \<longrightarrow> fst (ConvolutionForward env c handle alpha xDesc x wDesc w algo beta yDesc y ws wss) = None
          \<and> device_log (snd (ConvolutionForward env c handle alpha xDesc x wDesc w algo beta yDesc y
                                ws wss))
            = device_log handle
              @ (if CheckNumericsEnabled env then [checkNumericsInput, checkNumericsInput] else [])
              @ concat (replicate (nat (sint (int_of (lens xDesc ! 0))))
                  (if int_of (lens wDesc ! 2) \<noteq> 1 \<or> int_of (lens wDesc ! 3) \<noteq> 1 \<or> v c \<noteq> 1 \<or> u c \<noteq> 1
                   then [RunGemm, Col2ImGPU] else [RunGemm]))
              @ (if CheckNumericsEnabled env then [checkNumericsOutput] else []))"
proof (intro conjI impI)
  show "ConvolutionForward env c handle alpha xDesc x wDesc w algo beta yDesc y ws wss
       = ConvolutionForward env c handle alpha xDesc x wDesc w algo' beta yDesc y ws wss"
    using assms by (simp add: ConvolutionForward_def)
next
  assume valid: "x \<noteq> None \<and> w \<noteq> None \<and> y \<noteq> None \<and> GetSize xDesc = GetSize yDesc \<and>
        GetSize xDesc = GetSize wDesc \<and> dtype xDesc = dtype yDesc \<and> dtype xDesc = dtype wDesc \<and>
        3 \<le> GetSize xDesc \<and> alpha = 1 \<and> beta = 0 \<and> lens xDesc ! 1 = lens wDesc ! 0 \<and>
        MIOPEN_USE_MIOPENGEMM env \<and>
        (int_of (lens wDesc ! 2) \<noteq> 1 \<or> int_of (lens wDesc ! 3) \<noteq> 1 \<or> u c \<noteq> 1 \<or> v c \<noteq> 1
         \<longrightarrow> workspace_meets ws wss (BackwardDataGetWorkSpaceSizeGEMM c handle wDesc xDesc)) \<and>
        geo_map handle (''miopenConvolutionBwdDataAlgoGEMM'',
                        network_config (CreateGemmGeometry ConvBwdData xDesc wDesc yDesc True)) \<noteq> None"
  then have gemm: "MIOPEN_USE_MIOPENGEMM env"
    and wsp: "int_of (lens wDesc ! 2) \<noteq> 1 \<or> int_of (lens wDesc ! 3) \<noteq> 1 \<or> u c \<noteq> 1 \<or> v c \<noteq> 1
         \<longrightarrow> workspace_meets ws wss
               (BackwardDataGetWorkSpaceSizeGEMM c (numerics_input env handle) wDesc xDesc)"
    and geo: "geo_map (numerics_input env handle)
                (''miopenConvolutionBwdDataAlgoGEMM'',
                 network_config (CreateGemmGeometry ConvBwdData xDesc wDesc yDesc True)) \<noteq> None"
    by simp_all
  have args: "\<not> (x = None \<or> w = None \<or> y = None)"
    "\<not> (GetSize xDesc \<noteq> GetSize yDesc \<or> GetSize xDesc \<noteq> GetSize wDesc)"
    "\<not> (dtype xDesc \<noteq> dtype yDesc \<or> dtype xDesc \<noteq> dtype wDesc)"
    "\<not> GetSize xDesc < 3" "\<not> (alpha \<noteq> 1 \<or> beta \<noteq> 0)" "\<not> lens xDesc ! 1 \<noteq> lens wDesc ! 0"
    using valid by auto
  have eq: "ConvolutionForward env c handle alpha xDesc x wDesc w algo beta yDesc y ws wss
        = numerics_output env
            (ConvolutionForward_transpose_mode env c (numerics_input env handle) xDesc wDesc yDesc
               ws wss)"
    unfolding ConvolutionForward_def Let_def
    by (simp only: args assms if_False miopenConvolutionMode_t.case)
  obtain e h1 where r: "ConvolutionForward_transpose_mode env c (numerics_input env handle)
                          xDesc wDesc yDesc ws wss = (e, h1)"
    by (cases "ConvolutionForward_transpose_mode env c (numerics_input env handle) xDesc wDesc yDesc
                 ws wss")
  from ConvolutionForward_transpose_mode_log [OF gemm wsp geo] r
  have e: "e = None"
    and l: "device_log h1 = device_log (numerics_input env handle) @
         concat (replicate (nat (sint (int_of (lens xDesc ! 0))))
           (if int_of (lens wDesc ! 2) \<noteq> 1 \<or> int_of (lens wDesc ! 3) \<noteq> 1 \<or> v c \<noteq> 1 \<or> u c \<noteq> 1
            then [RunGemm, Col2ImGPU] else [RunGemm]))"
    by simp_all
  show "fst (ConvolutionForward env c handle alpha xDesc x wDesc w algo beta yDesc y ws wss) = None"
    by (simp add: eq r e numerics_output_def)
  show "device_log (snd (ConvolutionForward env c handle alpha xDesc x wDesc w algo beta yDesc y
                                ws wss))
            = device_log handle
              @ (if CheckNumericsEnabled env then [checkNumericsInput, checkNumericsInput] else [])
              @ concat (replicate (nat (sint (int_of (lens xDesc ! 0))))
                  (if int_of (lens wDesc ! 2) \<noteq> 1 \<or> int_of (lens wDesc ! 3) \<noteq> 1 \<or> v c \<noteq> 1 \<or> u c \<noteq> 1
                   then [RunGemm, Col2ImGPU] else [RunGemm]))
              @ (if CheckNumericsEnabled env then [checkNumericsOutput] else [])"
  proof -
    have out: "device_log (snd (ConvolutionForward env c handle alpha xDesc x wDesc w algo beta
                                  yDesc y ws wss))
               = device_log h1 @ (if CheckNumericsEnabled env then [checkNumericsOutput] else [])"
      by (simp add: eq r e numerics_output_def)
    show ?thesis
      unfolding out l numerics_input_log by simp
  qed
qed

theorem ConvolutionForward_transpose_ignores_algo_witness:
  "ConvolutionForward gemm_only_env (unit_conv miopenTranspose)
      handle_after_transpose_search 1 image_2x2 (Some 0) filter_3x3 (Some 1)
      miopenConvolutionFwdAlgoDirect 0 image_4x4 (Some 2) (Some 3) 1024
   = ConvolutionForward gemm_only_env (unit_conv miopenTranspose)
      handle_after_transpose_search 1 image_2x2 (Some 0) filter_3x3 (Some 1)
      miopenConvolutionFwdAlgoWinograd 0 image_4x4 (Some 2) (Some 3) 1024
   \<and> fst (ConvolutionForward gemm_only_env (unit_conv miopenTranspose)
      handle_after_transpose_search 1 image_2x2 (Some 0) filter_3x3 (Some 1)
      miopenConvolutionFwdAlgoDirect 0 image_4x4 (Some 2) (Some 3) 1024) = None
   \<and> device_log (snd (ConvolutionForward gemm_only_env (unit_conv miopenTranspose)
      handle_after_transpose_search 1 image_2x2 (Some 0) filter_3x3 (Some 1)
      miopenConvolutionFwdAlgoDirect 0 image_4x4 (Some 2) (Some 3) 1024))
     = [GemmFindSolution, RunGemm, Col2ImGPU, RunGemm, Col2ImGPU]"
proof -
  have m: "mode (unit_conv miopenTranspose) = miopenTranspose"
    by (simp add: unit_conv_def)
  have valid: "Some (0::nat) \<noteq> None \<and> Some (1::nat) \<noteq> None \<and> Some (2::nat) \<noteq> None \<and>
        GetSize image_2x2 = GetSize image_4x4 \<and>
        GetSize image_2x2 = GetSize filter_3x3 \<and> dtype image_2x2 = dtype image_4x4 \<and>
        dtype image_2x2 = dtype filter_3x3 \<and>
        3 \<le> GetSize image_2x2 \<and> (1::real) = 1 \<and> (0::real) = 0 \<and>
        lens image_2x2 ! 1 = lens filter_3x3 ! 0 \<and>
        MIOPEN_USE_MIOPENGEMM gemm_only_env \<and>
        (int_of (lens filter_3x3 ! 2) \<noteq> 1 \<or> int_of (lens filter_3x3 ! 3) \<noteq> 1 \<or>
         u (unit_conv miopenTranspose) \<noteq> 1 \<or> v (unit_conv miopenTranspose) \<noteq> 1
         \<longrightarrow> workspace_meets (Some 3) 1024
               (BackwardDataGetWorkSpaceSizeGEMM (unit_conv miopenTranspose)
                  handle_after_transpose_search filter_3x3 image_2x2)) \<and>
        geo_map handle_after_transpose_search
          (''miopenConvolutionBwdDataAlgoGEMM'',
           network_config (CreateGemmGeometry ConvBwdData image_2x2 filter_3x3 image_4x4 True)) \<noteq> None"
    by (simp add: handle_after_transpose_search_eq concrete_defs GetSize_def workspace_meets_def
                  BackwardDataGetWorkSpaceSizeGEMM_def GetTypeSize_def tien4_int_def int_of_def)
  note inst = ConvolutionForward_transpose_ignores_algo
         [OF m, where env = gemm_only_env and handle = handle_after_transpose_search
            and alpha = 1 and beta = 0 and xDesc = image_2x2 and wDesc = filter_3x3
            and yDesc = image_4x4 and x = "Some 0" and w = "Some 1" and y = "Some 2"
            and ws = "Some 3" and wss = 1024 and algo = miopenConvolutionFwdAlgoDirect
            and algo' = miopenConvolutionFwdAlgoWinograd]
  from inst [THEN conjunct2, rule_format, OF valid]
  have "fst (ConvolutionForward gemm_only_env (unit_conv miopenTranspose)
      handle_after_transpose_search 1 image_2x2 (Some 0) filter_3x3 (Some 1)
      miopenConvolutionFwdAlgoDirect 0 image_4x4 (Some 2) (Some 3) 1024) = None
   \<and> device_log (snd (ConvolutionForward gemm_only_env (unit_conv miopenTranspose)
      handle_after_transpose_search 1 image_2x2 (Some 0) filter_3x3 (Some 1)
      miopenConvolutionFwdAlgoDirect 0 image_4x4 (Some 2) (Some 3) 1024))
     = [GemmFindSolution, RunGemm, Col2ImGPU, RunGemm, Col2ImGPU]"
    by (simp add: handle_after_transpose_search_eq concrete_defs int_of_def)
  with inst [THEN conjunct1] show ?thesis
    by (rule conjI)
qed

section \<open>Backward weights: the direct strategy and the shape of the filter\<close>

lemma kernel_cache_run [simp]: "kernel_cache (run env op h) = kernel_cache h"
  by (simp add: run_def)

lemma kernel_cache_construct [simp]: "kernel_cache (construct op h) = kernel_cache h"
  by (simp add: construct_def)

lemma FindSolution_frame [simp]:
  "kernel_cache (FindSolution gg h) = kernel_cache h"
  "device_log (FindSolution gg h) = device_log h @ [GemmFindSolution]"
  by (simp_all add: FindSolution_def)

lemma BwdWeights_GEMM_props:
  "(\<forall>p \<in> set (fst (BwdWeights_GEMM env c h gg dyDesc xDesc req wei_h wei_w ws wss)).
      name p = ''miopenConvolutionBwdWeightsAlgoGEMM'')
   \<and> kernel_cache (snd (BwdWeights_GEMM env c h gg dyDesc xDesc req wei_h wei_w ws wss))
       = kernel_cache h
   \<and> set (device_log (snd (BwdWeights_GEMM env c h gg dyDesc xDesc req wei_h wei_w ws wss)))
       \<subseteq> set (device_log h) \<union> {GemmFindSolution, RunGemm, Im2ColGPU}"
  by (auto simp: BwdWeights_GEMM_def gemm_find_run_def Let_def split: prod.splits)

lemma BwdWeights_Direct_narrow:
  assumes "int_of (lens dwDesc ! 3) <s int_of (lens dwDesc ! 2)"
  shows "BwdWeights_Direct env c h dyDesc xDesc dwDesc ws wss ex = ([], h)"
  using assms by (simp add: BwdWeights_Direct_def tien4_int_def word_sless_alt word_sle_eq)

lemma FindConvBwdWeights_perf_db_narrow:
  assumes "int_of (lens dwDesc ! 3) <s int_of (lens dwDesc ! 2)"
  shows "FindConvBwdWeights_perf_db env c h dyDesc xDesc dwDesc ws wss ex =
         BwdWeights_GEMM env c h
           (case mode c of
              miopenTranspose \<Rightarrow> CreateGemmGeometry ConvBwdWeights xDesc dyDesc dwDesc False
            | miopenConvolution \<Rightarrow> CreateGemmGeometry ConvBwdWeights dyDesc xDesc dwDesc False)
           dyDesc xDesc
           (BackwardWeightsGetWorkSpaceSizeGEMM c h
              (case mode c of miopenTranspose \<Rightarrow> xDesc | miopenConvolution \<Rightarrow> dyDesc) dwDesc)
           (int_of (lens dwDesc ! 2)) (int_of (lens dwDesc ! 3)) ws wss"
  using assms
  by (cases "BwdWeights_GEMM env c h (CreateGemmGeometry ConvBwdWeights dyDesc xDesc dwDesc False)
           dyDesc xDesc (BackwardWeightsGetWorkSpaceSizeGEMM c h dyDesc dwDesc)
           (int_of (lens dwDesc ! 2)) (int_of (lens dwDesc ! 3)) ws wss")
     (simp add: FindConvBwdWeights_perf_db_def tien4_int_def BwdWeights_Direct_narrow
           split: miopenConvolutionMode_t.splits)

lemma filter_is_kernel_run_numerics_input:
  "filter is_kernel_run (device_log (numerics_input env h)) = filter is_kernel_run (device_log h)"
  by (simp add: numerics_input_def)

lemma filter_is_kernel_run_numerics_output:
  "filter is_kernel_run (device_log (snd (numerics_output env (None, h))))
   = filter is_kernel_run (device_log h)"
  by (simp add: numerics_output_def)

lemma BackwardWeightsGetWorkSpaceSizeGEMM_numerics_input [simp]:
  "BackwardWeightsGetWorkSpaceSizeGEMM c (numerics_input env h) dyDesc dwDesc
   = BackwardWeightsGetWorkSpaceSizeGEMM c h dyDesc dwDesc"
  by (simp add: BackwardWeightsGetWorkSpaceSizeGEMM_def split_beta Let_def)

lemma ConvolutionBackwardWeights_transpose_mode_log:
  assumes "MIOPEN_USE_MIOPENGEMM env"
    and "int_of (lens dwDesc ! 2) \<noteq> 1 \<or> int_of (lens dwDesc ! 3) \<noteq> 1 \<or> v c \<noteq> 1 \<or> u c \<noteq> 1
         \<longrightarrow> workspace_meets ws wss (BackwardWeightsGetWorkSpaceSizeGEMM c h xDesc dwDesc)"
    and "geo_map h (''miopenConvolutionBwdWeightsAlgoGEMM'',
                    network_config (CreateGemmGeometry ConvBwdWeights xDesc dyDesc dwDesc False))
         \<noteq> None"
  shows "fst (ConvolutionBackwardWeights_transpose_mode env c h dyDesc xDesc dwDesc ws wss) = None"
    and "device_log (snd (ConvolutionBackwardWeights_transpose_mode env c h dyDesc xDesc dwDesc
                            ws wss)) =
         device_log h @
         concat (replicate (nat (sint (int_of (lens xDesc ! 0))))
           (if int_of (lens dwDesc ! 2) \<noteq> 1 \<or> int_of (lens dwDesc ! 3) \<noteq> 1 \<or> v c \<noteq> 1 \<or> u c \<noteq> 1
            then [Im2ColGPU, RunGemm] else [RunGemm]))"
proof -
  from assms(3) obtain gg where geo:
    "geo_map h (''miopenConvolutionBwdWeightsAlgoGEMM'',
                network_config (CreateGemmGeometry ConvBwdWeights xDesc dyDesc dwDesc False))
     = Some gg"
    by auto
  show "fst (ConvolutionBackwardWeights_transpose_mode env c h dyDesc xDesc dwDesc ws wss) = None"
    using assms(1,2)
    by (auto simp: ConvolutionBackwardWeights_transpose_mode_def tien4_int_def GetGemmGeometry_def
                   geo)
  show "device_log (snd (ConvolutionBackwardWeights_transpose_mode env c h dyDesc xDesc dwDesc
                            ws wss)) =
         device_log h @
         concat (replicate (nat (sint (int_of (lens xDesc ! 0))))
           (if int_of (lens dwDesc ! 2) \<noteq> 1 \<or> int_of (lens dwDesc ! 3) \<noteq> 1 \<or> v c \<noteq> 1 \<or> u c \<noteq> 1
            then [Im2ColGPU, RunGemm] else [RunGemm]))"
  proof (cases "int_of (lens dwDesc ! 2) \<noteq> 1 \<or> int_of (lens dwDesc ! 3) \<noteq> 1 \<or> v c \<noteq> 1 \<or> u c \<noteq> 1")
    case True
    with assms(2) have "workspace_meets ws wss (BackwardWeightsGetWorkSpaceSizeGEMM c h xDesc dwDesc)"
      by blast
    with True show ?thesis
      using assms(1)
      by (simp add: ConvolutionBackwardWeights_transpose_mode_def tien4_int_def GetGemmGeometry_def
                    geo for_each_sample_log [where ops = "[Im2ColGPU, RunGemm]"]
                    sample_two_kernels_log)
  next
    case False
    then show ?thesis
      using assms(1)
      by (simp add: ConvolutionBackwardWeights_transpose_mode_def tien4_int_def GetGemmGeometry_def
                    geo for_each_sample_log [where ops = "[RunGemm]"] sample_gemm_only_log)
  qed
qed

lemma handle_after_transpose_weights_search_eq:
  "handle_after_transpose_weights_search =
     (fresh_handle ''gfx900'')
       \<lparr> bwdWeights_map := [mloBuildConf_Key (construct_params_for (unit_conv miopenTranspose) 0
                               image_4x4 image_2x3 filter_3x2) \<mapsto> 0],
         geo_map := [(''miopenConvolutionBwdWeightsAlgoGEMM'',
                      network_config (CreateGemmGeometry ConvBwdWeights image_2x3 image_4x4
                                        filter_3x2 False))
                     \<mapsto> CreateGemmGeometry ConvBwdWeights image_2x3 image_4x4 filter_3x2 False],
         device_log := [Im2ColGPU, GemmFindSolution, RunGemm] \<rparr>"
  by (simp add: handle_after_transpose_weights_search_def FindConvBwdWeightsAlgorithm_def
                FindConvBwdWeights_perf_db_def BwdWeights_GEMM_def
                BackwardWeightsGetWorkSpaceSizeGEMM_def GetTypeSize_def search_defs concrete_defs)

text \<open>
  Claim C9, as stated, at an input where it fails.  A filter of height 3 and width 2 in
  Transpose mode, on the handle that searched this problem, with the workspace the search
  had: \<open>ConvolutionBackwardWeights\<close> called with the direct algorithm succeeds and runs
  \<open>Im2ColGPU\<close> and the GEMM, because the Transpose branch ignores the identifier.
\<close>

theorem BwdWeights_direct_counterexample:
  "int_of (lens filter_3x2 ! 3) <s int_of (lens filter_3x2 ! 2)
   \<and> device_log handle_after_transpose_weights_search = [Im2ColGPU, GemmFindSolution, RunGemm]
   \<and> workspace_meets (Some 3) 1024
       (BackwardWeightsGetWorkSpaceSizeGEMM (unit_conv miopenTranspose)
          handle_after_transpose_weights_search image_2x3 filter_3x2)
   \<and> fst (ConvolutionBackwardWeights gemm_only_env (unit_conv miopenTranspose)
        handle_after_transpose_weights_search 1 image_4x4 (Some 0) image_2x3 (Some 1)
        miopenConvolutionBwdWeightsAlgoDirect 0 filter_3x2 (Some 2) (Some 3) 1024) = None
   \<and> device_log (snd (ConvolutionBackwardWeights gemm_only_env (unit_conv miopenTranspose)
        handle_after_transpose_weights_search 1 image_4x4 (Some 0) image_2x3 (Some 1)
        miopenConvolutionBwdWeightsAlgoDirect 0 filter_3x2 (Some 2) (Some 3) 1024))
     = [Im2ColGPU, GemmFindSolution, RunGemm, Im2ColGPU, RunGemm]"
  by (simp add: handle_after_transpose_weights_search_eq
                ConvolutionBackwardWeights_def ConvolutionBackwardWeights_transpose_mode_def
                GetSize_def numerics_input_def numerics_output_def tien4_int_def int_of_def
                workspace_meets_def BackwardWeightsGetWorkSpaceSizeGEMM_def GetTypeSize_def
                GetGemmGeometry_def CreateGemmGeometry_def signed_defs
                for_each_sample_def sample_two_kernels_def sample_gemm_only_def run_def
                AccumKernelTime_def ResetKernelTime_def concrete_defs Let_def)

text \<open>
  Claim C9, amended.  For a filter whose width is less than its height: in the
  backward-weights search, in either mode, the direct candidate is not attempted (no entry
  other than the GEMM's is pushed, no kernel is registered, and only GEMM-family operations
  reach the device); and in Convolution mode, dispatching the backward-weights direct
  algorithm with valid arguments executes no kernel.  In Transpose mode, for a filter of
  any shape, \<open>ConvolutionBackwardWeights\<close> ignores the algorithm identifier (any two
  identifiers give the same outcome) and runs the GEMM path: for valid arguments (buffers,
  shapes and scaling factors as the call checks them; a workspace that meets the
  requirement unless the filter is 1 by 1 with unit stride; a handle on which the search
  has registered the geometry) in a build with the GEMM back end it succeeds and runs,
  per sample, the GEMM, preceded by \<open>Im2ColGPU\<close> unless the filter is 1 by 1 with unit
  stride.
\<close>

theorem BwdWeights_direct_requires_wide_filter:
  "(int_of (lens dwDesc ! 3) <s int_of (lens dwDesc ! 2) \<longrightarrow>
      BwdWeights_Direct env c h dyDesc xDesc dwDesc ws wss ex = ([], h)
      \<and> (\<forall>p \<in> set (fst (FindConvBwdWeights_perf_db env c h dyDesc xDesc dwDesc ws wss ex)).
           name p = ''miopenConvolutionBwdWeightsAlgoGEMM'')
      \<and> kernel_cache (snd (FindConvBwdWeights_perf_db env c h dyDesc xDesc dwDesc ws wss ex))
          = kernel_cache h
      \<and> set (device_log (snd (FindConvBwdWeights_perf_db env c h dyDesc xDesc dwDesc ws wss ex)))
          \<subseteq> set (device_log h) \<union> {GemmFindSolution, RunGemm, Im2ColGPU}
      \<and> (mode c = miopenConvolution \<and> x \<noteq> None \<and> dw \<noteq> None \<and> dy \<noteq> None \<and>
         GetSize dyDesc = GetSize dwDesc \<and> GetSize dyDesc = GetSize xDesc \<and>
         dtype dyDesc = dtype dwDesc \<and> dtype dyDesc = dtype xDesc \<and>
         lens dyDesc ! 0 = lens xDesc ! 0 \<and> 3 \<le> GetSize dyDesc \<and> alpha = 1 \<and> beta = 0
         \<longrightarrow> ConvolutionBackwardWeights env c h alpha dyDesc dy xDesc x
               miopenConvolutionBwdWeightsAlgoDirect beta dwDesc dw ws wss
             = numerics_output env (None, numerics_input env h)
           \<and> filter is_kernel_run
               (device_log (snd (ConvolutionBackwardWeights env c h alpha dyDesc dy xDesc x
                                   miopenConvolutionBwdWeightsAlgoDirect beta dwDesc dw ws wss)))
             = filter is_kernel_run (device_log h)))
   \<and> (mode c = miopenTranspose \<longrightarrow>
      ConvolutionBackwardWeights env c h alpha dyDesc dy xDesc x algo beta dwDesc dw ws wss
        = ConvolutionBackwardWeights env c h alpha dyDesc dy xDesc x algo' beta dwDesc dw ws wss
      \<and> (x \<noteq> None \<and> dw \<noteq> None \<and> dy \<noteq> None \<and>
         GetSize dyDesc = GetSize dwDesc \<and> GetSize dyDesc = GetSize xDesc \<and>
         dtype dyDesc = dtype dwDesc \<and> dtype dyDesc = dtype xDesc \<and>
         lens dyDesc ! 0 = lens xDesc ! 0 \<and> 3 \<le> GetSize dyDesc \<and> alpha = 1 \<and> beta = 0 \<and>
         MIOPEN_USE_MIOPENGEMM env \<and>
         (int_of (lens dwDesc ! 2) \<noteq> 1 \<or> int_of (lens dwDesc ! 3) \<noteq> 1 \<or> v c \<noteq> 1 \<or> u c \<noteq> 1
          \<longrightarrow> workspace_meets ws wss (BackwardWeightsGetWorkSpaceSizeGEMM c h xDesc dwDesc)) \<and>
         geo_map h (''miopenConvolutionBwdWeightsAlgoGEMM'',
                    network_config (CreateGemmGeometry ConvBwdWeights xDesc dyDesc dwDesc False))
           \<noteq> None
         \<longrightarrow> fst (ConvolutionBackwardWeights env c h alpha dyDesc dy xDesc x algo beta dwDesc dw
                    ws wss) = None
           \<and> device_log (snd (ConvolutionBackwardWeights env c h alpha dyDesc dy xDesc x algo beta
                                 dwDesc dw ws wss))
             = device_log h
               @ (if CheckNumericsEnabled env then [checkNumericsInput, checkNumericsInput] else [])
               @ concat (replicate (nat (sint (int_of (lens xDesc ! 0))))
                   (if int_of (lens dwDesc ! 2) \<noteq> 1 \<or> int_of (lens dwDesc ! 3) \<noteq> 1 \<or> v c \<noteq> 1 \<or>
                       u c \<noteq> 1
                    then [Im2ColGPU, RunGemm] else [RunGemm]))
               @ (if CheckNumericsEnabled env then [checkNumericsOutput] else [])))"
proof (intro conjI impI)
  assume narrow: "int_of (lens dwDesc ! 3) <s int_of (lens dwDesc ! 2)"
  show "BwdWeights_Direct env c h dyDesc xDesc dwDesc ws wss ex = ([], h)"
    using narrow by (rule BwdWeights_Direct_narrow)
  note gemm = BwdWeights_GEMM_props
    [of env c h
        "case mode c of
           miopenTranspose \<Rightarrow> CreateGemmGeometry ConvBwdWeights xDesc dyDesc dwDesc False
         | miopenConvolution \<Rightarrow> CreateGemmGeometry ConvBwdWeights dyDesc xDesc dwDesc False"
        dyDesc xDesc
        "BackwardWeightsGetWorkSpaceSizeGEMM c h
           (case mode c of miopenTranspose \<Rightarrow> xDesc | miopenConvolution \<Rightarrow> dyDesc) dwDesc"
        "int_of (lens dwDesc ! 2)" "int_of (lens dwDesc ! 3)" ws wss]
  show "\<forall>p \<in> set (fst (FindConvBwdWeights_perf_db env c h dyDesc xDesc dwDesc ws wss ex)).
          name p = ''miopenConvolutionBwdWeightsAlgoGEMM''"
    unfolding FindConvBwdWeights_perf_db_narrow [OF narrow] using gemm by blast
  show "kernel_cache (snd (FindConvBwdWeights_perf_db env c h dyDesc xDesc dwDesc ws wss ex))
         = kernel_cache h"
    unfolding FindConvBwdWeights_perf_db_narrow [OF narrow] using gemm by blast
  show "set (device_log (snd (FindConvBwdWeights_perf_db env c h dyDesc xDesc dwDesc ws wss ex)))
         \<subseteq> set (device_log h) \<union> {GemmFindSolution, RunGemm, Im2ColGPU}"
    unfolding FindConvBwdWeights_perf_db_narrow [OF narrow] using gemm by blast
next
  assume narrow: "int_of (lens dwDesc ! 3) <s int_of (lens dwDesc ! 2)"
  assume valid: "mode c = miopenConvolution \<and> x \<noteq> None \<and> dw \<noteq> None \<and> dy \<noteq> None \<and>
        GetSize dyDesc = GetSize dwDesc \<and> GetSize dyDesc = GetSize xDesc \<and>
        dtype dyDesc = dtype dwDesc \<and> dtype dyDesc = dtype xDesc \<and>
        lens dyDesc ! 0 = lens xDesc ! 0 \<and> 3 \<le> GetSize dyDesc \<and> alpha = 1 \<and> beta = 0"
  have direct: "ConvolutionBackwardWeights_Direct env c (numerics_input env h) dyDesc xDesc dwDesc
                  ws wss = (None, numerics_input env h)"
    using narrow
    by (simp add: ConvolutionBackwardWeights_Direct_def tien4_int_def word_sless_alt word_sle_eq)
  show eq: "ConvolutionBackwardWeights env c h alpha dyDesc dy xDesc x
              miopenConvolutionBwdWeightsAlgoDirect beta dwDesc dw ws wss
            = numerics_output env (None, numerics_input env h)"
    using valid by (auto simp: ConvolutionBackwardWeights_def Let_def direct)
  show "filter is_kernel_run
              (device_log (snd (ConvolutionBackwardWeights env c h alpha dyDesc dy xDesc x
                                  miopenConvolutionBwdWeightsAlgoDirect beta dwDesc dw ws wss)))
            = filter is_kernel_run (device_log h)"
    unfolding eq filter_is_kernel_run_numerics_output filter_is_kernel_run_numerics_input
    by (rule refl)
next
  assume "mode c = miopenTranspose"
  then show "ConvolutionBackwardWeights env c h alpha dyDesc dy xDesc x algo beta dwDesc dw ws wss
        = ConvolutionBackwardWeights env c h alpha dyDesc dy xDesc x algo' beta dwDesc dw ws wss"
    by (simp add: ConvolutionBackwardWeights_def)
next
  assume m: "mode c = miopenTranspose"
  assume valid: "x \<noteq> None \<and> dw \<noteq> None \<and> dy \<noteq> None \<and>
         GetSize dyDesc = GetSize dwDesc \<and> GetSize dyDesc = GetSize xDesc \<and>
         dtype dyDesc = dtype dwDesc \<and> dtype dyDesc = dtype xDesc \<and>
         lens dyDesc ! 0 = lens xDesc ! 0 \<and> 3 \<le> GetSize dyDesc \<and> alpha = 1 \<and> beta = 0 \<and>
         MIOPEN_USE_MIOPENGEMM env \<and>
         (int_of (lens dwDesc ! 2) \<noteq> 1 \<or> int_of (lens dwDesc ! 3) \<noteq> 1 \<or> v c \<noteq> 1 \<or> u c \<noteq> 1
          \<longrightarrow> workspace_meets ws wss (BackwardWeightsGetWorkSpaceSizeGEMM c h xDesc dwDesc)) \<and>
         geo_map h (''miopenConvolutionBwdWeightsAlgoGEMM'',
                    network_config (CreateGemmGeometry ConvBwdWeights xDesc dyDesc dwDesc False))
           \<noteq> None"
  then have gemm: "MIOPEN_USE_MIOPENGEMM env"
    and wsp: "int_of (lens dwDesc ! 2) \<noteq> 1 \<or> int_of (lens dwDesc ! 3) \<noteq> 1 \<or> v c \<noteq> 1 \<or> u c \<noteq> 1
         \<longrightarrow> workspace_meets ws wss
               (BackwardWeightsGetWorkSpaceSizeGEMM c (numerics_input env h) xDesc dwDesc)"
    and geo: "geo_map (numerics_input env h)
                (''miopenConvolutionBwdWeightsAlgoGEMM'',
                 network_config (CreateGemmGeometry ConvBwdWeights xDesc dyDesc dwDesc False))
              \<noteq> None"
    by simp_all
  have args: "\<not> (x = None \<or> dw = None \<or> dy = None)"
    "\<not> (GetSize dyDesc \<noteq> GetSize dwDesc \<or> GetSize dyDesc \<noteq> GetSize xDesc)"
    "\<not> (dtype dyDesc \<noteq> dtype dwDesc \<or> dtype dyDesc \<noteq> dtype xDesc)"
    "\<not> lens dyDesc ! 0 \<noteq> lens xDesc ! 0"
    "\<not> GetSize dyDesc < 3" "\<not> (alpha \<noteq> 1 \<or> beta \<noteq> 0)"
    using valid by auto
  have eq: "ConvolutionBackwardWeights env c h alpha dyDesc dy xDesc x algo beta dwDesc dw ws wss
        = numerics_output env
            (ConvolutionBackwardWeights_transpose_mode env c (numerics_input env h) dyDesc xDesc
               dwDesc ws wss)"
    unfolding ConvolutionBackwardWeights_def Let_def
    by (simp only: args m if_False miopenConvolutionMode_t.case)
  obtain e h1 where r: "ConvolutionBackwardWeights_transpose_mode env c (numerics_input env h)
                          dyDesc xDesc dwDesc ws wss = (e, h1)"
    by (cases "ConvolutionBackwardWeights_transpose_mode env c (numerics_input env h) dyDesc xDesc
                 dwDesc ws wss")
  from ConvolutionBackwardWeights_transpose_mode_log [OF gemm wsp geo] r
  have e: "e = None"
    and l: "device_log h1 = device_log (numerics_input env h) @
         concat (replicate (nat (sint (int_of (lens xDesc ! 0))))
           (if int_of (lens dwDesc ! 2) \<noteq> 1 \<or> int_of (lens dwDesc ! 3) \<noteq> 1 \<or> v c \<noteq> 1 \<or> u c \<noteq> 1
            then [Im2ColGPU, RunGemm] else [RunGemm]))"
    by simp_all
  show "fst (ConvolutionBackwardWeights env c h alpha dyDesc dy xDesc x algo beta dwDesc dw
               ws wss) = None"
    by (simp add: eq r e numerics_output_def)
  have out: "device_log (snd (ConvolutionBackwardWeights env c h alpha dyDesc dy xDesc x algo beta
                                dwDesc dw ws wss))
             = device_log h1 @ (if CheckNumericsEnabled env then [checkNumericsOutput] else [])"
    by (simp add: eq r e numerics_output_def)
  show "device_log (snd (ConvolutionBackwardWeights env c h alpha dyDesc dy xDesc x algo beta
                                 dwDesc dw ws wss))
             = device_log h
               @ (if CheckNumericsEnabled env then [checkNumericsInput, checkNumericsInput] else [])
               @ concat (replicate (nat (sint (int_of (lens xDesc ! 0))))
                   (if int_of (lens dwDesc ! 2) \<noteq> 1 \<or> int_of (lens dwDesc ! 3) \<noteq> 1 \<or> v c \<noteq> 1 \<or>
                       u c \<noteq> 1
                    then [Im2ColGPU, RunGemm] else [RunGemm]))
               @ (if CheckNumericsEnabled env then [checkNumericsOutput] else [])"
    unfolding out l numerics_input_log by simp
qed

text \<open>
  The examples: a build in which the solver for backward weights succeeds, and a handle
  that holds a kernel of the direct algorithm for the problem.  With the 3 by 3 filter
  the search benchmarks the direct candidate and the dispatch runs the registered kernel;
  with the filter of height 3 and width 2 neither happens.
\<close>

lemma BwdWeights_direct_square_filter_runs:
  "map name (fst (BwdWeights_Direct wrw_env (unit_conv miopenConvolution) (fresh_handle ''gfx900'')
     image_2x2 image_4x4 filter_3x3 (Some 3) 1024 False))
   = [''miopenConvolutionBwdWeightsAlgoDirect'']
   \<and> device_log (snd (ConvolutionBackwardWeights wrw_env (unit_conv miopenConvolution)
        (handle_with_direct_kernel image_2x2 image_4x4 filter_3x3)
        1 image_2x2 (Some 0) image_4x4 (Some 1)
        miopenConvolutionBwdWeightsAlgoDirect 0 filter_3x3 (Some 2) (Some 3) 1024))
     = [AddKernel ''miopenConvolutionBwdWeightsAlgoDirect_Main'', RunKernel ''MIOpenCvBwdWrW'']"
  by (simp add: BwdWeights_Direct_def IsBwdWeightsDirectSupported_def wrw_env_def
                handle_with_direct_kernel_def ConvolutionBackwardWeights_def
                ConvolutionBackwardWeights_Direct_def GetKernels_def GetSize_def
                numerics_input_def numerics_output_def search_defs concrete_defs)

theorem BwdWeights_direct_requires_wide_filter_witness:
  "mloConstruct_BwdWrW2D wrw_env
     (setConvDescr (unit_conv miopenConvolution) (setWeightDescFromMLDesc filter_3x2
        (setInputDescFromMLDesc image_4x4 (setOutputDescFromMLDesc image_2x3
           (doSearch False (mlo_construct 0))))))
     = Some [''MIOpenCvBwdWrW'']
   \<and> BwdWeights_Direct wrw_env (unit_conv miopenConvolution) (fresh_handle ''gfx900'')
       image_2x3 image_4x4 filter_3x2 (Some 3) 1024 False = ([], fresh_handle ''gfx900'')
   \<and> GetKernels (handle_with_direct_kernel image_2x3 image_4x4 filter_3x2)
       ''miopenConvolutionBwdWeightsAlgoDirect_Main''
       (mloBuildConf_Key (construct_params_for (unit_conv miopenConvolution) 0
          image_2x3 image_4x4 filter_3x2), [])
     = [''MIOpenCvBwdWrW'']
   \<and> device_log (snd (ConvolutionBackwardWeights wrw_env (unit_conv miopenConvolution)
        (handle_with_direct_kernel image_2x3 image_4x4 filter_3x2)
        1 image_2x3 (Some 0) image_4x4 (Some 1)
        miopenConvolutionBwdWeightsAlgoDirect 0 filter_3x2 (Some 2) (Some 3) 1024))
     = [AddKernel ''miopenConvolutionBwdWeightsAlgoDirect_Main'']
   \<and> ConvolutionBackwardWeights gemm_only_env (unit_conv miopenTranspose)
        handle_after_transpose_weights_search 1 image_4x4 (Some 0) image_2x3 (Some 1)
        miopenConvolutionBwdWeightsAlgoDirect 0 filter_3x2 (Some 2) (Some 3) 1024
     = ConvolutionBackwardWeights gemm_only_env (unit_conv miopenTranspose)
        handle_after_transpose_weights_search 1 image_4x4 (Some 0) image_2x3 (Some 1)
        miopenConvolutionBwdWeightsAlgoGEMM 0 filter_3x2 (Some 2) (Some 3) 1024
   \<and> fst (ConvolutionBackwardWeights gemm_only_env (unit_conv miopenTranspose)
        handle_after_transpose_weights_search 1 image_4x4 (Some 0) image_2x3 (Some 1)
        miopenConvolutionBwdWeightsAlgoDirect 0 filter_3x2 (Some 2) (Some 3) 1024) = None
   \<and> device_log (snd (ConvolutionBackwardWeights gemm_only_env (unit_conv miopenTranspose)
        handle_after_transpose_weights_search 1 image_4x4 (Some 0) image_2x3 (Some 1)
        miopenConvolutionBwdWeightsAlgoDirect 0 filter_3x2 (Some 2) (Some 3) 1024))
     = [Im2ColGPU, GemmFindSolution, RunGemm, Im2ColGPU, RunGemm]"
proof -
  have narrow: "int_of (lens filter_3x2 ! 3) <s int_of (lens filter_3x2 ! 2)"
    by (simp add: filter_3x2_def int_of_def word_sless_alt)
  have solver: "mloConstruct_BwdWrW2D wrw_env
     (setConvDescr (unit_conv miopenConvolution) (setWeightDescFromMLDesc filter_3x2
        (setInputDescFromMLDesc image_4x4 (setOutputDescFromMLDesc image_2x3
           (doSearch False (mlo_construct 0))))))
     = Some [''MIOpenCvBwdWrW'']"
    by (simp add: wrw_env_def)
  have registered: "GetKernels (handle_with_direct_kernel image_2x3 image_4x4 filter_3x2)
       ''miopenConvolutionBwdWeightsAlgoDirect_Main''
       (mloBuildConf_Key (construct_params_for (unit_conv miopenConvolution) 0
          image_2x3 image_4x4 filter_3x2), [])
     = [''MIOpenCvBwdWrW'']"
    by (simp add: handle_with_direct_kernel_def GetKernels_def handle_AddKernel_def construct_def
                  fresh_handle_def Let_def)
  have valid: "mode (unit_conv miopenConvolution) = miopenConvolution \<and>
        Some (1::nat) \<noteq> None \<and> Some (2::nat) \<noteq> None \<and> Some (0::nat) \<noteq> None \<and>
        GetSize image_2x3 = GetSize filter_3x2 \<and> GetSize image_2x3 = GetSize image_4x4 \<and>
        dtype image_2x3 = dtype filter_3x2 \<and> dtype image_2x3 = dtype image_4x4 \<and>
        lens image_2x3 ! 0 = lens image_4x4 ! 0 \<and> 3 \<le> GetSize image_2x3 \<and>
        (1::real) = 1 \<and> (0::real) = 0"
    by (simp add: concrete_defs GetSize_def)
  note conv = BwdWeights_direct_requires_wide_filter
    [where dwDesc = filter_3x2 and env = wrw_env and c = "unit_conv miopenConvolution"
       and dyDesc = image_2x3 and xDesc = image_4x4
       and ws = "Some 3" and wss = 1024 and ex = False and alpha = 1 and beta = 0
       and dy = "Some 0" and x = "Some 1" and dw = "Some 2",
     THEN conjunct1, rule_format, OF narrow]
  have a: "BwdWeights_Direct wrw_env (unit_conv miopenConvolution) (fresh_handle ''gfx900'')
     image_2x3 image_4x4 filter_3x2 (Some 3) 1024 False = ([], fresh_handle ''gfx900'')"
    using conv [where h = "fresh_handle ''gfx900''"] by blast
  from conv [where h = "handle_with_direct_kernel image_2x3 image_4x4 filter_3x2"] valid
  have "ConvolutionBackwardWeights wrw_env (unit_conv miopenConvolution)
          (handle_with_direct_kernel image_2x3 image_4x4 filter_3x2)
          1 image_2x3 (Some 0) image_4x4 (Some 1)
          miopenConvolutionBwdWeightsAlgoDirect 0 filter_3x2 (Some 2) (Some 3) 1024
        = numerics_output wrw_env
            (None, numerics_input wrw_env (handle_with_direct_kernel image_2x3 image_4x4 filter_3x2))"
    by blast
  then have b: "device_log (snd (ConvolutionBackwardWeights wrw_env (unit_conv miopenConvolution)
        (handle_with_direct_kernel image_2x3 image_4x4 filter_3x2)
        1 image_2x3 (Some 0) image_4x4 (Some 1)
        miopenConvolutionBwdWeightsAlgoDirect 0 filter_3x2 (Some 2) (Some 3) 1024))
     = [AddKernel ''miopenConvolutionBwdWeightsAlgoDirect_Main'']"
    by (simp add: numerics_output_def numerics_input_def wrw_env_def gemm_only_env_def
                  handle_with_direct_kernel_def handle_AddKernel_def fresh_handle_def Let_def)
  have m: "mode (unit_conv miopenTranspose) = miopenTranspose"
    by (simp add: unit_conv_def)
  have valid_t: "Some (1::nat) \<noteq> None \<and> Some (2::nat) \<noteq> None \<and> Some (0::nat) \<noteq> None \<and>
        GetSize image_4x4 = GetSize filter_3x2 \<and> GetSize image_4x4 = GetSize image_2x3 \<and>
        dtype image_4x4 = dtype filter_3x2 \<and> dtype image_4x4 = dtype image_2x3 \<and>
        lens image_4x4 ! 0 = lens image_2x3 ! 0 \<and> 3 \<le> GetSize image_4x4 \<and>
        (1::real) = 1 \<and> (0::real) = 0 \<and>
        MIOPEN_USE_MIOPENGEMM gemm_only_env \<and>
        (int_of (lens filter_3x2 ! 2) \<noteq> 1 \<or> int_of (lens filter_3x2 ! 3) \<noteq> 1 \<or>
         v (unit_conv miopenTranspose) \<noteq> 1 \<or> u (unit_conv miopenTranspose) \<noteq> 1
         \<longrightarrow> workspace_meets (Some 3) 1024
               (BackwardWeightsGetWorkSpaceSizeGEMM (unit_conv miopenTranspose)
                  handle_after_transpose_weights_search image_2x3 filter_3x2)) \<and>
        geo_map handle_after_transpose_weights_search
          (''miopenConvolutionBwdWeightsAlgoGEMM'',
           network_config (CreateGemmGeometry ConvBwdWeights image_2x3 image_4x4 filter_3x2 False))
          \<noteq> None"
    by (simp add: handle_after_transpose_weights_search_eq concrete_defs GetSize_def
                  workspace_meets_def BackwardWeightsGetWorkSpaceSizeGEMM_def GetTypeSize_def
                  tien4_int_def int_of_def)
  note tr = BwdWeights_direct_requires_wide_filter
    [where dwDesc = filter_3x2 and env = gemm_only_env and c = "unit_conv miopenTranspose"
       and h = handle_after_transpose_weights_search
       and dyDesc = image_4x4 and xDesc = image_2x3
       and ws = "Some 3" and wss = 1024 and alpha = 1 and beta = 0
       and dy = "Some 0" and x = "Some 1" and dw = "Some 2"
       and algo = miopenConvolutionBwdWeightsAlgoDirect
       and algo' = miopenConvolutionBwdWeightsAlgoGEMM,
     THEN conjunct2, rule_format, OF m]
  from tr [THEN conjunct2, rule_format, OF valid_t]
  have d: "fst (ConvolutionBackwardWeights gemm_only_env (unit_conv miopenTranspose)
        handle_after_transpose_weights_search 1 image_4x4 (Some 0) image_2x3 (Some 1)
        miopenConvolutionBwdWeightsAlgoDirect 0 filter_3x2 (Some 2) (Some 3) 1024) = None
   \<and> device_log (snd (ConvolutionBackwardWeights gemm_only_env (unit_conv miopenTranspose)
        handle_after_transpose_weights_search 1 image_4x4 (Some 0) image_2x3 (Some 1)
        miopenConvolutionBwdWeightsAlgoDirect 0 filter_3x2 (Some 2) (Some 3) 1024))
     = [Im2ColGPU, GemmFindSolution, RunGemm, Im2ColGPU, RunGemm]"
    by (simp add: handle_after_transpose_weights_search_eq concrete_defs int_of_def)
  from solver a registered b tr [THEN conjunct1] d show ?thesis
    by (intro conjI) (erule conjunct1 conjunct2 | assumption)+
qed

end
